theory Spec2Isabelle
  imports Main "HOL-Library.Word"
begin

unbundle bit_operations_syntax

section \<open>Flow control of the ACME cross-assembler (flow.c)\<close>

text \<open>
  The handlers of flow.c (\<^verbatim>\<open>!do\<close>, \<^verbatim>\<open>!for\<close>, \<^verbatim>\<open>!if\<close>, \<^verbatim>\<open>!ifdef\<close>,
  \<^verbatim>\<open>!ifndef\<close>, \<^verbatim>\<open>!source\<close>) are embedded as functions on an explicit machine state.
  The functions flow.c calls but does not define (lexer, expression evaluator, symbol
  table, statement parser, C library) are the fields of a record of collaborators that
  every handler takes as its first argument; each collaborator is a state transformer that
  may fail. A theorem that quantifies over that record holds for every implementation of
  the collaborators. \<^verbatim>\<open>PO_macro\<close> and \<^verbatim>\<open>Flow_init\<close> are not embedded: none of
  the properties below is about them.
\<close>

subsection \<open>Data model\<close>

type_synonym addr = nat \<comment> \<open>\<^verbatim>\<open>struct input *\<close>\<close>
type_synonym symref = nat \<comment> \<open>\<^verbatim>\<open>struct symbol *\<close>\<close>
type_synonym zone_t = int
type_synonym file_ptr = nat \<comment> \<open>\<^verbatim>\<open>FILE *\<close>\<close>

text \<open>
  The message constants \<^verbatim>\<open>exception_syntax\<close>, \<^verbatim>\<open>exception_no_left_brace\<close>,
  \<^verbatim>\<open>exception_no_right_brace\<close> and \<^verbatim>\<open>exception_cannot_open_input_file\<close> are
  declared outside flow.c; they are kept as names. \<open>Literal\<close> holds a message that
  flow.c writes as a string literal.
\<close>

datatype message =
    exception_syntax
  | exception_no_left_brace
  | exception_no_right_brace
  | exception_cannot_open_input_file
  | Literal string

text \<open>
  Modelled from the spec: a serious error aborts, so \<^verbatim>\<open>Throw_serious_error\<close> does not
  return to flow.c; the handler ends with \<open>Inl (Serious_error msg)\<close>, and so does every
  handler that called it. \<^verbatim>\<open>Bug_found\<close>, which flow.c calls when a stored block does not
  end with \<^verbatim>\<open>}\<close>, is taken to end the run in the same way, with its message and code.
\<close>

datatype error = Serious_error message | Bug string char

text \<open>\<^verbatim>\<open>enum eos\<close>, what a handler tells the statement dispatcher.\<close>

datatype eos = SKIP_REMAINDER | ENSURE_EOS | PARSE_REMAINDER | AT_EOS_ANYWAY

text \<open>
  The union \<^verbatim>\<open>src\<close> of \<^verbatim>\<open>struct input\<close>: an open file, or a read pointer into
  memory. A \<^verbatim>\<open>char *\<close> is the text it points to, \<open>None\<close> for \<^verbatim>\<open>NULL\<close>.
\<close>

datatype src = Src_fd file_ptr | Src_ram_ptr "string option"

record input =
  line_number :: int
  source_is_ram :: bool
  src :: src

text \<open>\<^verbatim>\<open>struct loop_condition\<close> (flow.c, lines 29-33).\<close>

record loop_condition =
  line :: int
  invert :: bool \<comment> \<open>False for WHILE, True for UNTIL\<close>
  body :: "string option"

text \<open>
  \<^verbatim>\<open>struct result\<close> and \<^verbatim>\<open>struct symbol\<close>, as far as flow.c reads and writes them.
  \<^verbatim>\<open>intval_t\<close> is a signed machine integer of \<open>LENGTH('l)\<close> bits.
\<close>

record (overloaded) ('l::len) result =
  flags :: int
  val_intval :: "'l word"

record (overloaded) ('l::len) symbol =
  result :: "'l result"
  usage :: int

text \<open>
  The global variables flow.c uses, the two heaps its pointers point into, the list of
  messages given to \<^verbatim>\<open>Throw_error\<close>, and \<open>world\<close>: everything else the
  collaborators keep. The C \<^verbatim>\<open>int\<close>s here (line numbers, pass and usage counts, the
  nesting budget) are only copied, compared with zero or changed by one in flow.c; they are
  integers. The loop counters, which are added to and compared with each other, are the
  machine words of \<^verbatim>\<open>struct result\<close>.
\<close>

record (overloaded) ('l::len, 'w) machine =
  GotByte :: char
  Input_now :: addr
  inputs :: "addr \<Rightarrow> input"
  GlobalDynaBuf :: string
  symbols :: "symref \<Rightarrow> 'l symbol"
  pass_count :: int
  source_recursions_left :: int
  warn_on_old_for :: bool
  Process_verbosity :: int
  errors :: "message list"
  world :: 'w

text \<open>
  The collaborators. \<open>local_input\<close> is the address of the handler's automatic
  \<^verbatim>\<open>struct input\<close>; \<open>MVALUE_DEFINED\<close> and \<open>MVALUE_EXISTS\<close> are the flag constants.
  \<open>symbol_set_value\<close> is given a pointer to the caller's \<^verbatim>\<open>struct result\<close> and
  hands that structure back, since the callee may write to it. \<open>Tree_hard_scan\<close> gives
  the body of the node it found.
\<close>

record (overloaded) ('l::len, 'w) collab =
  GetByte :: "('l, 'w) machine \<Rightarrow> error + char \<times> ('l, 'w) machine"
  SKIPSPACE :: "('l, 'w) machine \<Rightarrow> error + ('l, 'w) machine"
  NEXTANDSKIPSPACE :: "('l, 'w) machine \<Rightarrow> error + ('l, 'w) machine"
  Input_read_and_lower_keyword :: "('l, 'w) machine \<Rightarrow> error + int \<times> ('l, 'w) machine"
  Input_until_terminator :: "char \<Rightarrow> ('l, 'w) machine \<Rightarrow> error + ('l, 'w) machine"
  ALU_defined_int :: "('l, 'w) machine \<Rightarrow> error + 'l word \<times> ('l, 'w) machine"
  Parse_until_eob_or_eof :: "('l, 'w) machine \<Rightarrow> error + ('l, 'w) machine"
  Input_skip_or_store_block ::
    "bool \<Rightarrow> ('l, 'w) machine \<Rightarrow> error + string option \<times> ('l, 'w) machine"
  Input_read_zone_and_keyword ::
    "('l, 'w) machine \<Rightarrow> error + (int \<times> zone_t) \<times> ('l, 'w) machine"
  Input_get_force_bit :: "('l, 'w) machine \<Rightarrow> error + int \<times> ('l, 'w) machine"
  symbol_find :: "zone_t \<Rightarrow> int \<Rightarrow> ('l, 'w) machine \<Rightarrow> error + symref \<times> ('l, 'w) machine"
  Input_accept_comma :: "('l, 'w) machine \<Rightarrow> error + int \<times> ('l, 'w) machine"
  symbol_set_value ::
    "symref \<Rightarrow> 'l result \<Rightarrow> bool \<Rightarrow> ('l, 'w) machine \<Rightarrow> error + 'l result \<times> ('l, 'w) machine"
  Throw_first_pass_warning :: "string \<Rightarrow> ('l, 'w) machine \<Rightarrow> error + ('l, 'w) machine"
  Tree_hard_scan ::
    "zone_t \<Rightarrow> bool \<Rightarrow> ('l, 'w) machine \<Rightarrow> error + symref option \<times> ('l, 'w) machine"
  Input_ensure_EOS :: "('l, 'w) machine \<Rightarrow> error + ('l, 'w) machine"
  Input_read_filename :: "bool \<Rightarrow> ('l, 'w) machine \<Rightarrow> error + int \<times> ('l, 'w) machine"
  fopen :: "string \<Rightarrow> ('l, 'w) machine \<Rightarrow> error + file_ptr option \<times> ('l, 'w) machine"
  Input_new_file :: "string \<Rightarrow> file_ptr \<Rightarrow> ('l, 'w) machine \<Rightarrow> error + ('l, 'w) machine"
  fclose :: "src \<Rightarrow> ('l, 'w) machine \<Rightarrow> error + ('l, 'w) machine"
  printf :: "string \<Rightarrow> ('l, 'w) machine \<Rightarrow> error + ('l, 'w) machine"
  local_input :: "('l, 'w) machine \<Rightarrow> addr"
  MVALUE_DEFINED :: int
  MVALUE_EXISTS :: int

subsection \<open>Constants and small helpers declared outside flow.c\<close>

text \<open>
  Modelled from the spec: the character constants of the configuration header, which is
  not part of the sources at hand. The block starts with \<^verbatim>\<open>{\<close> and ends with
  \<^verbatim>\<open>}\<close> (flow.c, lines 8-9); the end-of-statement sentinel is the zero byte that
  \<^verbatim>\<open>check_condition\<close> tests with \<^verbatim>\<open>if (GotByte)\<close>.
\<close>

definition CHAR_EOS :: char where
  "CHAR_EOS = CHR 0x00"

definition CHAR_SOB :: char where
  "CHAR_SOB = CHR ''{''"

definition CHAR_EOB :: char where
  "CHAR_EOB = CHR ''}''"

definition CHAR_EOF :: char where
  "CHAR_EOF = CHR 0x0D"

text \<open>
  Modelled from the spec: \<^verbatim>\<open>Throw_error\<close> reports a recoverable error and returns, so
  that assembly goes on; the report is kept in \<open>errors\<close>.
\<close>

definition Throw_error :: "message \<Rightarrow> ('l::len, 'w) machine \<Rightarrow> ('l, 'w) machine" where
  "Throw_error msg s = s\<lparr>errors := errors s @ [msg]\<rparr>"

text \<open>
  Modelled from the spec: the dynamic buffer is a string storage. \<open>cstring\<close> is the
  C string a buffer holds, up to the first zero byte.
\<close>

definition cstring :: "string \<Rightarrow> string" where
  "cstring buf = takeWhile (\<lambda>c. c \<noteq> CHR 0x00) buf"

definition DYNABUF_CLEAR :: "('l::len, 'w) machine \<Rightarrow> ('l, 'w) machine" where
  "DYNABUF_CLEAR s = s\<lparr>GlobalDynaBuf := []\<rparr>"

definition DynaBuf_append :: "char \<Rightarrow> ('l::len, 'w) machine \<Rightarrow> ('l, 'w) machine" where
  "DynaBuf_append c s = s\<lparr>GlobalDynaBuf := GlobalDynaBuf s @ [c]\<rparr>"

definition DynaBuf_get_copy :: "('l::len, 'w) machine \<Rightarrow> string" where
  "DynaBuf_get_copy s = GlobalDynaBuf s"

text \<open>
  Modelled from the spec: \<^verbatim>\<open>Tree_easy_scan\<close> looks the keyword in the buffer up in a
  keyword table. \<open>condkeys\<close> is the table of flow.c, lines 40-44.
\<close>

definition condkeys :: "(string \<times> bool) list" where
  "condkeys = [(''until'', True), (''while'', False)]"

definition Tree_easy_scan :: "(string \<times> 'v) list \<Rightarrow> string \<Rightarrow> 'v option" where
  "Tree_easy_scan tree buf = map_of tree (cstring buf)"

text \<open>Writing through \<^verbatim>\<open>Input_now\<close>.\<close>

definition set_line_number :: "int \<Rightarrow> ('l::len, 'w) machine \<Rightarrow> ('l, 'w) machine" where
  "set_line_number n s =
     s\<lparr>inputs := (inputs s)(Input_now s := (inputs s (Input_now s))\<lparr>line_number := n\<rparr>)\<rparr>"

definition set_ram_ptr :: "string option \<Rightarrow> ('l::len, 'w) machine \<Rightarrow> ('l, 'w) machine" where
  "set_ram_ptr p s =
     s\<lparr>inputs := (inputs s)(Input_now s := (inputs s (Input_now s))\<lparr>src := Src_ram_ptr p\<rparr>)\<rparr>"

subsection \<open>Helper functions for \<^verbatim>\<open>!for\<close> and \<^verbatim>\<open>!do\<close>\<close>

text \<open>\<^verbatim>\<open>parse_ram_block\<close> (flow.c, lines 50-58).\<close>

definition parse_ram_block ::
  "('l::len, 'w) collab \<Rightarrow> int \<Rightarrow> string option \<Rightarrow> ('l, 'w) machine \<Rightarrow> error + ('l, 'w) machine"
where
  "parse_ram_block E ln blk s =
     (case Parse_until_eob_or_eof E (set_ram_ptr blk (set_line_number ln s)) of
        Inl e \<Rightarrow> Inl e
      | Inr s1 \<Rightarrow>
          if GotByte s1 \<noteq> CHAR_EOB then Inl (Bug ''IllegalBlockTerminator'' (GotByte s1))
          else Inr s1)"

text \<open>
  \<^verbatim>\<open>store_condition\<close> (flow.c, lines 65-96). The structure the C function fills
  through its pointer is taken and given back.
\<close>

definition store_condition ::
  "('l::len, 'w) collab \<Rightarrow> loop_condition \<Rightarrow> char \<Rightarrow> ('l, 'w) machine \<Rightarrow>
     error + loop_condition \<times> ('l, 'w) machine"
where
  "store_condition E condition terminator s =
     (let condition1 = condition\<lparr>line := line_number (inputs s (Input_now s))\<rparr> in
      if GotByte s = terminator then Inr (condition1\<lparr>invert := False, body := None\<rparr>, s)
      else
        case Input_read_and_lower_keyword E s of
          Inl e \<Rightarrow> Inl e
        | Inr (n, s1) \<Rightarrow>
            if n \<noteq> 0 then
              case Tree_easy_scan condkeys (GlobalDynaBuf s1) of
                None \<Rightarrow>
                  Inr (condition1\<lparr>invert := False, body := None\<rparr>, Throw_error exception_syntax s1)
              | Some node_body \<Rightarrow>
                  (case SKIPSPACE E s1 of
                     Inl e \<Rightarrow> Inl e
                   | Inr s2 \<Rightarrow>
                       (case Input_until_terminator E terminator (DYNABUF_CLEAR s2) of
                          Inl e \<Rightarrow> Inl e
                        | Inr s3 \<Rightarrow>
                            let s4 = DynaBuf_append CHAR_EOS s3 in
                            Inr (condition1\<lparr>invert := node_body, body := Some (DynaBuf_get_copy s4)\<rparr>,
                                 s4)))
            else Inr (condition1, s1))"

text \<open>
  \<^verbatim>\<open>check_condition\<close> (flow.c, lines 100-116). The C function returns an
  \<^verbatim>\<open>int\<close> that is \<^verbatim>\<open>TRUE\<close>, \<^verbatim>\<open>!expression\<close> or \<^verbatim>\<open>!!expression\<close>.
\<close>

definition check_condition ::
  "('l::len, 'w) collab \<Rightarrow> loop_condition \<Rightarrow> ('l, 'w) machine \<Rightarrow>
     error + bool \<times> ('l, 'w) machine"
where
  "check_condition E condition s =
     (case body condition of
        None \<Rightarrow> Inr (True, s)
      | Some b \<Rightarrow>
          (case GetByte E (set_ram_ptr (Some b) (set_line_number (line condition) s)) of
             Inl e \<Rightarrow> Inl e
           | Inr (c, s1) \<Rightarrow>
               (case ALU_defined_int E s1 of
                  Inl e \<Rightarrow> Inl e
                | Inr (expression, s2) \<Rightarrow>
                    if GotByte s2 \<noteq> CHR 0x00 then Inl (Serious_error exception_syntax)
                    else Inr (if invert condition then expression = 0 else expression \<noteq> 0, s2))))"

subsection \<open>Looping assembly: \<^verbatim>\<open>!do\<close>\<close>

text \<open>
  The loop of \<^verbatim>\<open>PO_do\<close> (flow.c, lines 157-165):
  \<^verbatim>\<open>do { go_on = check_condition(&condition1);
       if (go_on) { parse_ram_block(loop_start, loop_body);
                    go_on = check_condition(&condition2); }
  } while (go_on);\<close>
  The loop need not end, so its result is an option: \<open>None\<close> when it runs forever.
\<close>

partial_function (option) PO_do_loop ::
  "('l::len, 'w) collab \<Rightarrow> loop_condition \<Rightarrow> loop_condition \<Rightarrow> int \<Rightarrow> string option \<Rightarrow>
     ('l, 'w) machine \<Rightarrow> (error + ('l, 'w) machine) option"
where
  "PO_do_loop E condition1 condition2 loop_start loop_body s =
     (case
        (case check_condition E condition1 s of
           Inl e \<Rightarrow> Inl e
         | Inr (go_on, s1) \<Rightarrow>
             if go_on then
               (case parse_ram_block E loop_start loop_body s1 of
                  Inl e \<Rightarrow> Inl e
                | Inr s2 \<Rightarrow> check_condition E condition2 s2)
             else Inr (go_on, s1))
      of
        Inl e \<Rightarrow> Some (Inl e)
      | Inr (go_on, s3) \<Rightarrow>
          if go_on then PO_do_loop E condition1 condition2 loop_start loop_body s3
          else Some (Inr s3))"

declare PO_do_loop.simps [code]

text \<open>
  \<^verbatim>\<open>PO_do\<close>, lines 129-148: the head condition, the block and the tail condition are
  read. The field \<open>line\<close> of a fresh condition is not initialised by the C code;
  \<open>store_condition\<close> writes it before anything reads it.
\<close>

definition PO_do_header ::
  "('l::len, 'w) collab \<Rightarrow> ('l, 'w) machine \<Rightarrow>
     error + (loop_condition \<times> int \<times> string option \<times> loop_condition) \<times> ('l, 'w) machine"
where
  "PO_do_header E s =
     (let condition1 = \<lparr>line = 0, invert = False, body = None\<rparr>;
          condition2 = \<lparr>line = 0, invert = False, body = None\<rparr>
      in
      case SKIPSPACE E s of
        Inl e \<Rightarrow> Inl e
      | Inr s1 \<Rightarrow>
      (case store_condition E condition1 CHAR_SOB s1 of
        Inl e \<Rightarrow> Inl e
      | Inr (condition1', s2) \<Rightarrow>
      if GotByte s2 \<noteq> CHAR_SOB then Inl (Serious_error exception_no_left_brace)
      else
        let loop_start = line_number (inputs s2 (Input_now s2)) in
        (case Input_skip_or_store_block E True s2 of
          Inl e \<Rightarrow> Inl e
        | Inr (loop_body, s3) \<Rightarrow>
        (case NEXTANDSKIPSPACE E s3 of
          Inl e \<Rightarrow> Inl e
        | Inr s4 \<Rightarrow>
        (case store_condition E condition2 CHAR_EOS s4 of
          Inl e \<Rightarrow> Inl e
        | Inr (condition2', s5) \<Rightarrow>
            Inr ((condition1', loop_start, loop_body, condition2'), s5))))))"

text \<open>
  The local input of a loop (\<^verbatim>\<open>PO_do\<close>, lines 150-156, and \<^verbatim>\<open>PO_for\<close>, lines
  235-241): the active input is copied into the local structure, the copy reads from
  memory, and it becomes the active input. The caller keeps the previous value of
  \<^verbatim>\<open>Input_now\<close> in \<^verbatim>\<open>outer_input\<close>.
\<close>

definition activate_loop_input :: "('l::len, 'w) collab \<Rightarrow> ('l, 'w) machine \<Rightarrow> ('l, 'w) machine" where
  "activate_loop_input E s =
     (let loop_input = local_input E s;
          s1 = s\<lparr>inputs := (inputs s)(loop_input := (inputs s (Input_now s))\<lparr>source_is_ram := True\<rparr>)\<rparr>
      in s1\<lparr>Input_now := loop_input\<rparr>)"

text \<open>
  \<^verbatim>\<open>PO_do\<close>, lines 149-177: the local input is set up and made the active one, the
  loop runs, the previous input is made active again and \<^verbatim>\<open>GotByte\<close> is set to
  \<^verbatim>\<open>CHAR_EOS\<close>. \<^verbatim>\<open>free\<close> has no effect on the model.
\<close>

definition PO_do_run ::
  "('l::len, 'w) collab \<Rightarrow> loop_condition \<Rightarrow> int \<Rightarrow> string option \<Rightarrow> loop_condition \<Rightarrow>
     ('l, 'w) machine \<Rightarrow> (error + eos \<times> ('l, 'w) machine) option"
where
  "PO_do_run E condition1 loop_start loop_body condition2 s =
     (let outer_input = Input_now s;
          s2 = activate_loop_input E s
      in
      case PO_do_loop E condition1 condition2 loop_start loop_body s2 of
        None \<Rightarrow> None
      | Some (Inl e) \<Rightarrow> Some (Inl e)
      | Some (Inr s3) \<Rightarrow>
          Some (Inr (AT_EOS_ANYWAY, s3\<lparr>Input_now := outer_input, GotByte := CHAR_EOS\<rparr>)))"

definition PO_do ::
  "('l::len, 'w) collab \<Rightarrow> ('l, 'w) machine \<Rightarrow> (error + eos \<times> ('l, 'w) machine) option"
where
  "PO_do E s =
     (case PO_do_header E s of
        Inl e \<Rightarrow> Some (Inl e)
      | Inr ((condition1, loop_start, loop_body, condition2), s1) \<Rightarrow>
          PO_do_run E condition1 loop_start loop_body condition2 s1)"

subsection \<open>Looping assembly: \<^verbatim>\<open>!for\<close>\<close>

text \<open>
  The loop of the old syntax (flow.c, lines 250-254):
  \<^verbatim>\<open>do { loop_counter.val.intval += counter_increment;
       symbol_set_value(symbol, &loop_counter, TRUE);
       parse_ram_block(loop_start, loop_body);
  } while (loop_counter.val.intval < counter_last);\<close>
\<close>

partial_function (option) PO_for_old_loop ::
  "('l::len, 'w) collab \<Rightarrow> symref \<Rightarrow> int \<Rightarrow> string option \<Rightarrow> 'l word \<Rightarrow> 'l word \<Rightarrow>
     'l result \<Rightarrow> ('l, 'w) machine \<Rightarrow> (error + ('l, 'w) machine) option"
where
  "PO_for_old_loop E symbol loop_start loop_body counter_last counter_increment loop_counter s =
     (case symbol_set_value E symbol
             (loop_counter\<lparr>val_intval := val_intval loop_counter + counter_increment\<rparr>) True s of
        Inl e \<Rightarrow> Some (Inl e)
      | Inr (loop_counter1, s1) \<Rightarrow>
          (case parse_ram_block E loop_start loop_body s1 of
             Inl e \<Rightarrow> Some (Inl e)
           | Inr s2 \<Rightarrow>
               if val_intval loop_counter1 <s counter_last
               then PO_for_old_loop E symbol loop_start loop_body counter_last counter_increment
                      loop_counter1 s2
               else Some (Inr s2)))"

text \<open>
  The loop of the new syntax (flow.c, lines 258-262):
  \<^verbatim>\<open>do { parse_ram_block(loop_start, loop_body);
       loop_counter.val.intval += counter_increment;
       symbol_set_value(symbol, &loop_counter, TRUE);
  } while (loop_counter.val.intval != (counter_last + counter_increment));\<close>
\<close>

partial_function (option) PO_for_new_loop ::
  "('l::len, 'w) collab \<Rightarrow> symref \<Rightarrow> int \<Rightarrow> string option \<Rightarrow> 'l word \<Rightarrow> 'l word \<Rightarrow>
     'l result \<Rightarrow> ('l, 'w) machine \<Rightarrow> (error + ('l, 'w) machine) option"
where
  "PO_for_new_loop E symbol loop_start loop_body counter_last counter_increment loop_counter s =
     (case parse_ram_block E loop_start loop_body s of
        Inl e \<Rightarrow> Some (Inl e)
      | Inr s1 \<Rightarrow>
          (case symbol_set_value E symbol
                  (loop_counter\<lparr>val_intval := val_intval loop_counter + counter_increment\<rparr>) True s1 of
             Inl e \<Rightarrow> Some (Inl e)
           | Inr (loop_counter1, s2) \<Rightarrow>
               if val_intval loop_counter1 \<noteq> counter_last + counter_increment
               then PO_for_new_loop E symbol loop_start loop_body counter_last counter_increment
                      loop_counter1 s2
               else Some (Inr s2)))"

declare PO_for_old_loop.simps [code]

declare PO_for_new_loop.simps [code]

text \<open>
  \<^verbatim>\<open>PO_for\<close>, lines 209-226: the arguments after the first comma give
  \<open>(old_algo, counter_first, counter_last, counter_increment)\<close>.
\<close>

definition PO_for_counter ::
  "('l::len, 'w) collab \<Rightarrow> ('l, 'w) machine \<Rightarrow>
     error + (bool \<times> 'l word \<times> 'l word \<times> 'l word) \<times> ('l, 'w) machine"
where
  \<open>PO_for_counter E s =
     (case ALU_defined_int E s of
        Inl e \<Rightarrow> Inl e
      | Inr (first_arg, s1) \<Rightarrow>
      (case Input_accept_comma E s1 of
        Inl e \<Rightarrow> Inl e
      | Inr (comma, s2) \<Rightarrow>
          if comma \<noteq> 0 then
            (case (if \<not> warn_on_old_for s2
                   then Throw_first_pass_warning E ''Found new "!for" syntax.'' s2
                   else Inr s2) of
               Inl e \<Rightarrow> Inl e
             | Inr s3 \<Rightarrow>
                 (case ALU_defined_int E s3 of
                    Inl e \<Rightarrow> Inl e
                  | Inr (counter_last, s4) \<Rightarrow>
                      Inr ((False, first_arg, counter_last,
                            if counter_last <s first_arg then - 1 else 1), s4)))
          else
            (case (if warn_on_old_for s2
                   then Throw_first_pass_warning E ''Found old "!for" syntax.'' s2
                   else Inr s2) of
               Inl e \<Rightarrow> Inl e
             | Inr s3 \<Rightarrow>
                 if first_arg <s 0 then Inl (Serious_error (Literal ''Loop count is negative.''))
                 else Inr ((True, 0, first_arg, 1), s3))))\<close>

text \<open>
  \<^verbatim>\<open>PO_for\<close>, lines 200-208: the symbol and the comma after it are read. \<open>Inl r\<close>
  in the result is an early \<^verbatim>\<open>return r\<close>.
\<close>

definition PO_for_symbol ::
  "('l::len, 'w) collab \<Rightarrow> ('l, 'w) machine \<Rightarrow> error + (eos + symref) \<times> ('l, 'w) machine"
where
  "PO_for_symbol E s =
     (case Input_read_zone_and_keyword E s of
        Inl e \<Rightarrow> Inl e
      | Inr ((n, zone), s1) \<Rightarrow>
      if n = 0 then Inr (Inl SKIP_REMAINDER, s1)
      else
      (case Input_get_force_bit E s1 of
        Inl e \<Rightarrow> Inl e
      | Inr (force_bit, s2) \<Rightarrow>
      (case symbol_find E zone force_bit s2 of
        Inl e \<Rightarrow> Inl e
      | Inr (symbol, s3) \<Rightarrow>
      (case Input_accept_comma E s3 of
        Inl e \<Rightarrow> Inl e
      | Inr (comma, s4) \<Rightarrow>
      if comma = 0 then Inr (Inl SKIP_REMAINDER, Throw_error exception_syntax s4)
      else Inr (Inr symbol, s4)))))"

text \<open>
  \<^verbatim>\<open>PO_for\<close>, lines 200-232: symbol, arguments and block are read. The result is an
  early return or
  \<open>(symbol, old_algo, counter_first, counter_last, counter_increment, loop_start, loop_body)\<close>.
\<close>

definition PO_for_header ::
  "('l::len, 'w) collab \<Rightarrow> ('l, 'w) machine \<Rightarrow>
     error + (eos + symref \<times> bool \<times> 'l word \<times> 'l word \<times> 'l word \<times> int \<times> string option) \<times>
             ('l, 'w) machine"
where
  "PO_for_header E s =
     (case PO_for_symbol E s of
        Inl e \<Rightarrow> Inl e
      | Inr (Inl r, s4) \<Rightarrow> Inr (Inl r, s4)
      | Inr (Inr symbol, s4) \<Rightarrow>
      (case PO_for_counter E s4 of
        Inl e \<Rightarrow> Inl e
      | Inr ((old_algo, counter_first, counter_last, counter_increment), s5) \<Rightarrow>
      if GotByte s5 \<noteq> CHAR_SOB then Inl (Serious_error exception_no_left_brace)
      else
        let loop_start = line_number (inputs s5 (Input_now s5)) in
        (case Input_skip_or_store_block E True s5 of
          Inl e \<Rightarrow> Inl e
        | Inr (loop_body, s6) \<Rightarrow>
            Inr (Inr (symbol, old_algo, counter_first, counter_last, counter_increment,
                      loop_start, loop_body), s6))))"

text \<open>
  \<^verbatim>\<open>PO_for\<close>, lines 246-270: the loop of the syntax in use runs, the previous input
  is made active again and the next byte is fetched. \<^verbatim>\<open>free\<close> has no effect on the
  model.
\<close>

definition PO_for_iterate ::
  "('l::len, 'w) collab \<Rightarrow> symref \<Rightarrow> bool \<Rightarrow> 'l word \<Rightarrow> 'l word \<Rightarrow> int \<Rightarrow> string option \<Rightarrow>
     addr \<Rightarrow> 'l result \<Rightarrow> ('l, 'w) machine \<Rightarrow> (error + eos \<times> ('l, 'w) machine) option"
where
  "PO_for_iterate E symbol old_algo counter_last counter_increment loop_start loop_body
     outer_input loop_counter s =
     (case (if old_algo then
              (if counter_last \<noteq> 0
               then PO_for_old_loop E symbol loop_start loop_body counter_last
                      counter_increment loop_counter s
               else Some (Inr s))
            else PO_for_new_loop E symbol loop_start loop_body counter_last
                   counter_increment loop_counter s) of
        None \<Rightarrow> None
      | Some (Inl e) \<Rightarrow> Some (Inl e)
      | Some (Inr s4) \<Rightarrow>
          (case GetByte E (s4\<lparr>Input_now := outer_input\<rparr>) of
             Inl e \<Rightarrow> Some (Inl e)
           | Inr (c, s5) \<Rightarrow> Some (Inr (ENSURE_EOS, s5))))"

text \<open>
  \<^verbatim>\<open>PO_for\<close>, lines 233-245 and on: the local input is made the active one, the
  counter is initialised and written to the symbol, then the loop runs.
\<close>

definition PO_for_run ::
  "('l::len, 'w) collab \<Rightarrow> symref \<Rightarrow> bool \<Rightarrow> 'l word \<Rightarrow> 'l word \<Rightarrow> 'l word \<Rightarrow> int \<Rightarrow>
     string option \<Rightarrow> ('l, 'w) machine \<Rightarrow> (error + eos \<times> ('l, 'w) machine) option"
where
  "PO_for_run E symbol old_algo counter_first counter_last counter_increment loop_start loop_body s =
     (let outer_input = Input_now s;
          s2 = activate_loop_input E s;
          loop_counter = \<lparr>flags = MVALUE_DEFINED E OR MVALUE_EXISTS E, val_intval = counter_first\<rparr>
      in
      case symbol_set_value E symbol loop_counter True s2 of
        Inl e \<Rightarrow> Some (Inl e)
      | Inr (loop_counter1, s3) \<Rightarrow>
          PO_for_iterate E symbol old_algo counter_last counter_increment loop_start loop_body
            outer_input loop_counter1 s3)"

definition PO_for ::
  "('l::len, 'w) collab \<Rightarrow> ('l, 'w) machine \<Rightarrow> (error + eos \<times> ('l, 'w) machine) option"
where
  "PO_for E s =
     (case PO_for_header E s of
        Inl e \<Rightarrow> Some (Inl e)
      | Inr (Inl r, s1) \<Rightarrow> Some (Inr (r, s1))
      | Inr (Inr (symbol, old_algo, counter_first, counter_last, counter_increment,
                  loop_start, loop_body), s1) \<Rightarrow>
          PO_for_run E symbol old_algo counter_first counter_last counter_increment
            loop_start loop_body s1)"

subsection \<open>Conditional assembly: \<^verbatim>\<open>!if\<close>, \<^verbatim>\<open>!ifdef\<close>, \<^verbatim>\<open>!ifndef\<close>\<close>

text \<open>\<^verbatim>\<open>skip_or_parse_block\<close> (flow.c, lines 278-290).\<close>

definition skip_or_parse_block ::
  "('l::len, 'w) collab \<Rightarrow> bool \<Rightarrow> ('l, 'w) machine \<Rightarrow> error + int \<times> ('l, 'w) machine"
where
  "skip_or_parse_block E parse s =
     (if \<not> parse then
        (case Input_skip_or_store_block E False s of
           Inl e \<Rightarrow> Inl e
         | Inr (p, s1) \<Rightarrow> Inr (0, s1))
      else
        (case Parse_until_eob_or_eof E s of
           Inl e \<Rightarrow> Inl e
         | Inr s1 \<Rightarrow>
             if GotByte s1 \<noteq> CHAR_EOB then Inl (Serious_error exception_no_right_brace)
             else Inr (0, s1)))"

text \<open>\<^verbatim>\<open>parse_block_else_block\<close> (flow.c, lines 294-320).\<close>

definition parse_block_else_block ::
  "('l::len, 'w) collab \<Rightarrow> bool \<Rightarrow> ('l, 'w) machine \<Rightarrow> error + ('l, 'w) machine"
where
  "parse_block_else_block E parse_first s =
     (case skip_or_parse_block E parse_first s of
        Inl e \<Rightarrow> Inl e
      | Inr (missing, s1) \<Rightarrow>
      if missing \<noteq> 0 then Inr s1
      else
      (case NEXTANDSKIPSPACE E s1 of
        Inl e \<Rightarrow> Inl e
      | Inr s2 \<Rightarrow>
      if GotByte s2 = CHAR_EOS then Inr s2
      else
      (case Input_read_and_lower_keyword E s2 of
        Inl e \<Rightarrow> Inl e
      | Inr (n, s3) \<Rightarrow>
      (case (if n \<noteq> 0 then
               (if cstring (GlobalDynaBuf s3) \<noteq> ''else'' then Inr (Throw_error exception_syntax s3)
                else
                  (case SKIPSPACE E s3 of
                     Inl e \<Rightarrow> Inl e
                   | Inr s4 \<Rightarrow>
                       if GotByte s4 \<noteq> CHAR_SOB then Inl (Serious_error exception_no_left_brace)
                       else
                         (case skip_or_parse_block E (\<not> parse_first) s4 of
                            Inl e \<Rightarrow> Inl e
                          | Inr (missing2, s5) \<Rightarrow>
                              (case GetByte E s5 of
                                 Inl e \<Rightarrow> Inl e
                               | Inr (c, s6) \<Rightarrow> Inr s6))))
             else Inr s3) of
        Inl e \<Rightarrow> Inl e
      | Inr s7 \<Rightarrow> Input_ensure_EOS E s7))))"

text \<open>\<^verbatim>\<open>PO_if\<close> (flow.c, lines 324-333).\<close>

definition PO_if ::
  "('l::len, 'w) collab \<Rightarrow> ('l, 'w) machine \<Rightarrow> error + eos \<times> ('l, 'w) machine"
where
  "PO_if E s =
     (case ALU_defined_int E s of
        Inl e \<Rightarrow> Inl e
      | Inr (cond, s1) \<Rightarrow>
          if GotByte s1 \<noteq> CHAR_SOB then Inl (Serious_error exception_no_left_brace)
          else
            (case parse_block_else_block E (cond \<noteq> 0) s1 of
               Inl e \<Rightarrow> Inl e
             | Inr s2 \<Rightarrow> Inr (ENSURE_EOS, s2)))"

text \<open>
  \<^verbatim>\<open>ifdef_ifndef\<close> (flow.c, lines 337-365). \<open>symbol_defined\<close> is lines 348-355: what
  the lookup gave decides \<^verbatim>\<open>defined\<close>, and a symbol that was found is counted as used
  in the first pass.
\<close>

definition symbol_defined ::
  "('l::len, 'w) collab \<Rightarrow> symref option \<Rightarrow> ('l, 'w) machine \<Rightarrow> bool \<times> ('l, 'w) machine"
where
  "symbol_defined E node s =
     (case node of
        None \<Rightarrow> (False, s)
      | Some symbol \<Rightarrow>
          let s1 = (if pass_count s = 0
                    then s\<lparr>symbols := (symbols s)
                           (symbol := (symbols s symbol)\<lparr>usage := usage (symbols s symbol) + 1\<rparr>)\<rparr>
                    else s)
          in (flags (result (symbols s1 symbol)) AND MVALUE_DEFINED E \<noteq> 0, s1))"

definition ifdef_ifndef ::
  "('l::len, 'w) collab \<Rightarrow> bool \<Rightarrow> ('l, 'w) machine \<Rightarrow> error + eos \<times> ('l, 'w) machine"
where
  "ifdef_ifndef E inverted s =
     (case Input_read_zone_and_keyword E s of
        Inl e \<Rightarrow> Inl e
      | Inr ((n, zone), s1) \<Rightarrow>
      if n = 0 then Inr (SKIP_REMAINDER, s1)
      else
      (case Tree_hard_scan E zone False s1 of
        Inl e \<Rightarrow> Inl e
      | Inr (node, s2) \<Rightarrow>
      (case symbol_defined E node s2 of
        (defined0, s3) \<Rightarrow>
      (case SKIPSPACE E s3 of
        Inl e \<Rightarrow> Inl e
      | Inr s4 \<Rightarrow>
          let defined = (if inverted then \<not> defined0 else defined0) in
          if GotByte s4 \<noteq> CHAR_SOB
          then Inr (if defined then PARSE_REMAINDER else SKIP_REMAINDER, s4)
          else
            (case parse_block_else_block E defined s4 of
               Inl e \<Rightarrow> Inl e
             | Inr s5 \<Rightarrow> Inr (ENSURE_EOS, s5))))))"

definition PO_ifdef ::
  "('l::len, 'w) collab \<Rightarrow> ('l, 'w) machine \<Rightarrow> error + eos \<times> ('l, 'w) machine"
where
  "PO_ifdef E s = ifdef_ifndef E False s"

definition PO_ifndef ::
  "('l::len, 'w) collab \<Rightarrow> ('l, 'w) machine \<Rightarrow> error + eos \<times> ('l, 'w) machine"
where
  "PO_ifndef E s = ifdef_ifndef E True s"

subsection \<open>Source file inclusion: \<^verbatim>\<open>!source\<close>\<close>

text \<open>\<^verbatim>\<open>Parse_and_close_file\<close> (flow.c, lines 403-416).\<close>

definition Parse_and_close_file ::
  "('l::len, 'w) collab \<Rightarrow> file_ptr \<Rightarrow> string \<Rightarrow> ('l, 'w) machine \<Rightarrow> error + ('l, 'w) machine"
where
  "Parse_and_close_file E fd filename s =
     (case (if Process_verbosity s > 2 then printf E filename s else Inr s) of
        Inl e \<Rightarrow> Inl e
      | Inr s1 \<Rightarrow>
      (case Input_new_file E filename fd s1 of
        Inl e \<Rightarrow> Inl e
      | Inr s2 \<Rightarrow>
      (case Parse_until_eob_or_eof E s2 of
        Inl e \<Rightarrow> Inl e
      | Inr s3 \<Rightarrow>
          let s4 = (if GotByte s3 \<noteq> CHAR_EOF
                    then Throw_error (Literal ''Found '}' instead of end-of-file.'') s3
                    else s3)
          in fclose E (src (inputs s4 (Input_now s4))) s4)))"

text \<open>\<^verbatim>\<open>PO_source\<close> (flow.c, lines 420-452).\<close>

definition PO_source ::
  "('l::len, 'w) collab \<Rightarrow> ('l, 'w) machine \<Rightarrow> error + eos \<times> ('l, 'w) machine"
where
  \<open>PO_source E s =
     (let s1 = s\<lparr>source_recursions_left := source_recursions_left s - 1\<rparr> in
      if source_recursions_left s1 < 0
      then Inl (Serious_error (Literal ''Too deeply nested. Recursive "!source"?''))
      else
      (case Input_read_filename E True s1 of
        Inl e \<Rightarrow> Inl e
      | Inr (failed, s2) \<Rightarrow>
      if failed \<noteq> 0 then Inr (SKIP_REMAINDER, s2)
      else
      (case fopen E (cstring (GlobalDynaBuf s2)) s2 of
        Inl e \<Rightarrow> Inl e
      | Inr (fd, s3) \<Rightarrow>
      (case (case fd of
               Some f \<Rightarrow>
                 let filename = cstring (GlobalDynaBuf s3);
                     outer_input = Input_now s3;
                     local_gotbyte = GotByte s3;
                     s4 = s3\<lparr>Input_now := local_input E s3\<rparr>
                 in
                 (case Parse_and_close_file E f filename s4 of
                    Inl e \<Rightarrow> Inl e
                  | Inr s5 \<Rightarrow> Inr (s5\<lparr>Input_now := outer_input, GotByte := local_gotbyte\<rparr>))
             | None \<Rightarrow> Inr (Throw_error exception_cannot_open_input_file s3)) of
        Inl e \<Rightarrow> Inl e
      | Inr s6 \<Rightarrow>
          Inr (ENSURE_EOS, s6\<lparr>source_recursions_left := source_recursions_left s6 + 1\<rparr>)))))\<close>

subsection \<open>Rounds of the loop of \<^verbatim>\<open>!do\<close>\<close>

text \<open>
  \<open>n\<close> rounds in a row in each of which the head condition is true, the block is parsed
  and the tail condition is true: the machine after the last of them, \<open>None\<close> when one of
  the \<open>n\<close> rounds is not of this kind.
\<close>

fun do_rounds ::
  "nat \<Rightarrow> ('l::len, 'w) collab \<Rightarrow> loop_condition \<Rightarrow> loop_condition \<Rightarrow> int \<Rightarrow> string option \<Rightarrow>
     ('l, 'w) machine \<Rightarrow> ('l, 'w) machine option"
where
  "do_rounds 0 E condition1 condition2 loop_start loop_body s = Some s"
| "do_rounds (Suc n) E condition1 condition2 loop_start loop_body s =
     (case check_condition E condition1 s of
        Inl e \<Rightarrow> None
      | Inr (go_on, s1) \<Rightarrow>
          if go_on then
            (case parse_ram_block E loop_start loop_body s1 of
               Inl e \<Rightarrow> None
             | Inr s2 \<Rightarrow>
                 (case check_condition E condition2 s2 of
                    Inl e \<Rightarrow> None
                  | Inr (go_on2, s3) \<Rightarrow>
                      if go_on2 then do_rounds n E condition1 condition2 loop_start loop_body s3
                      else None))
          else None)"

subsection \<open>The counting loop as the specification words it\<close>

text \<open>
  For each counter value of the list, in order: the value is written to the symbol, then
  the block is parsed. The structure given to \<open>symbol_set_value\<close> is the one the
  previous call handed back, with the new value.
\<close>

fun counting ::
  "('l::len, 'w) collab \<Rightarrow> symref \<Rightarrow> int \<Rightarrow> string option \<Rightarrow> 'l word list \<Rightarrow> 'l result \<Rightarrow>
     ('l, 'w) machine \<Rightarrow> error + 'l result \<times> ('l, 'w) machine"
where
  "counting E symbol loop_start loop_body [] loop_counter s = Inr (loop_counter, s)"
| "counting E symbol loop_start loop_body (v # vs) loop_counter s =
     (case symbol_set_value E symbol (loop_counter\<lparr>val_intval := v\<rparr>) True s of
        Inl e \<Rightarrow> Inl e
      | Inr (loop_counter1, s1) \<Rightarrow>
          (case parse_ram_block E loop_start loop_body s1 of
             Inl e \<Rightarrow> Inl e
           | Inr s2 \<Rightarrow> counting E symbol loop_start loop_body vs loop_counter1 s2))"

text \<open>
  The counter values of the new syntax, START..END inclusive, ascending when
  START \<open>\<le>\<close> END and descending otherwise, and those of the old syntax, 1..END.
\<close>

definition counter_values :: "('l::len) word \<Rightarrow> 'l word \<Rightarrow> 'l word list" where
  "counter_values counter_first counter_last =
     (if counter_last <s counter_first
      then rev (map word_of_int [sint counter_last..sint counter_first])
      else map word_of_int [sint counter_first..sint counter_last])"

definition old_counter_values :: "('l::len) word \<Rightarrow> 'l word list" where
  "old_counter_values counter_last = map word_of_int [1..sint counter_last]"

text \<open>
  The old syntax: 0 is written to the symbol, the loop counts 1..END, the previous input
  is made active again and the next byte is fetched.
\<close>

definition old_for_spec ::
  "('l::len, 'w) collab \<Rightarrow> symref \<Rightarrow> 'l word \<Rightarrow> int \<Rightarrow> string option \<Rightarrow> ('l, 'w) machine \<Rightarrow>
     error + eos \<times> ('l, 'w) machine"
where
  "old_for_spec E symbol counter_last loop_start loop_body s =
     (case symbol_set_value E symbol
             \<lparr>flags = MVALUE_DEFINED E OR MVALUE_EXISTS E, val_intval = 0\<rparr> True
             (activate_loop_input E s) of
        Inl e \<Rightarrow> Inl e
      | Inr (loop_counter, s1) \<Rightarrow>
          (case counting E symbol loop_start loop_body (old_counter_values counter_last)
                  loop_counter s1 of
             Inl e \<Rightarrow> Inl e
           | Inr (loop_counter1, s2) \<Rightarrow>
               (case GetByte E (s2\<lparr>Input_now := Input_now s\<rparr>) of
                  Inl e \<Rightarrow> Inl e
                | Inr (c, s3) \<Rightarrow> Inr (ENSURE_EOS, s3))))"

text \<open>
  The new syntax: the loop counts START..END, after the last iteration the symbol is
  written once more, with the value one step beyond END, the previous input is made
  active again and the next byte is fetched.
\<close>

definition new_for_spec ::
  "('l::len, 'w) collab \<Rightarrow> symref \<Rightarrow> 'l word \<Rightarrow> 'l word \<Rightarrow> int \<Rightarrow> string option \<Rightarrow>
     ('l, 'w) machine \<Rightarrow> error + eos \<times> ('l, 'w) machine"
where
  "new_for_spec E symbol counter_first counter_last loop_start loop_body s =
     (case counting E symbol loop_start loop_body (counter_values counter_first counter_last)
             \<lparr>flags = MVALUE_DEFINED E OR MVALUE_EXISTS E, val_intval = counter_first\<rparr>
             (activate_loop_input E s) of
        Inl e \<Rightarrow> Inl e
      | Inr (loop_counter, s1) \<Rightarrow>
          (case symbol_set_value E symbol
                  (loop_counter\<lparr>val_intval :=
                     counter_last + (if counter_last <s counter_first then - 1 else 1)\<rparr>) True s1 of
             Inl e \<Rightarrow> Inl e
           | Inr (loop_counter1, s2) \<Rightarrow>
               (case GetByte E (s2\<lparr>Input_now := Input_now s\<rparr>) of
                  Inl e \<Rightarrow> Inl e
                | Inr (c, s3) \<Rightarrow> Inr (ENSURE_EOS, s3))))"

text \<open>
  What the loops expect of \<open>symbol_set_value\<close>: it may change the flags of the
  structure it is given, not the value.
\<close>

definition keeps_value :: "('l::len, 'w) collab \<Rightarrow> bool" where
  "keeps_value E =
     (\<forall>symbol new_value change_allowed s r s'.
        symbol_set_value E symbol new_value change_allowed s = Inr (r, s') \<longrightarrow>
        val_intval r = val_intval new_value)"


text \<open>
  What leaving a value in a symbol expects of \<open>symbol_set_value\<close> and \<open>GetByte\<close>:
  with change allowed the symbol gets the value it is given and the flags defined and
  existing as the given structure has them; fetching a byte leaves the symbols alone.
\<close>

definition stores_value :: "('l::len, 'w) collab \<Rightarrow> bool" where
  "stores_value E =
     (\<forall>symbol new_value s r s'.
        symbol_set_value E symbol new_value True s = Inr (r, s') \<longrightarrow>
        val_intval (result (symbols s' symbol)) = val_intval new_value \<and>
        flags (result (symbols s' symbol)) AND (MVALUE_DEFINED E OR MVALUE_EXISTS E) =
          flags new_value AND (MVALUE_DEFINED E OR MVALUE_EXISTS E))"

definition keeps_symbols :: "('l::len, 'w) collab \<Rightarrow> bool" where
  "keeps_symbols E = (\<forall>s c s'. GetByte E s = Inr (c, s') \<longrightarrow> symbols s' = symbols s)"

text \<open>
  A list of counter values that goes in steps of \<open>inc\<close> and reaches \<open>counter_last\<close> with its
  last element, not before.
\<close>

fun chain :: "('l::len) word \<Rightarrow> 'l word \<Rightarrow> 'l word list \<Rightarrow> bool" where
  "chain inc counter_last [] = False"
| "chain inc counter_last [v] = (v = counter_last)"
| "chain inc counter_last (v # w # vs) =
     (v \<noteq> counter_last \<and> w = v + inc \<and> chain inc counter_last (w # vs))"

subsection \<open>A miniature set of collaborators\<close>

text \<open>
  To run the handlers on concrete source text, the collaborators are given a small
  implementation: input is read from memory, an expression is one decimal digit, a block
  has no nested block, a symbol is named by its first letter and exists once its flags are
  not zero, and every file is empty. The statement parser does not parse: it records the
  text of the block it was asked to parse. \<open>world\<close> is the list of what was recorded.
\<close>

datatype event =
    Parsed string
  | Skipped string
  | Set_value symref int
  | Warned string
  | Opened string
  | Closed

type_synonym 'l mini = "('l, event list) machine"

definition record_event :: "event \<Rightarrow> ('l::len) mini \<Rightarrow> 'l mini" where
  "record_event ev s = s\<lparr>world := world s @ [ev]\<rparr>"

definition ram :: "('l::len) mini \<Rightarrow> string" where
  "ram s = (case src (inputs s (Input_now s)) of
              Src_ram_ptr (Some cs) \<Rightarrow> cs
            | Src_ram_ptr None \<Rightarrow> []
            | Src_fd f \<Rightarrow> [])"

definition mini_rest :: "string \<Rightarrow> ('l::len) mini \<Rightarrow> 'l mini" where
  "mini_rest cs s =
     (case cs of
        [] \<Rightarrow> s\<lparr>GotByte := CHAR_EOF\<rparr>
      | c # cs' \<Rightarrow> set_ram_ptr (Some cs') (s\<lparr>GotByte := c\<rparr>))"

definition mini_next :: "('l::len) mini \<Rightarrow> 'l mini" where
  "mini_next s = mini_rest (ram s) s"

definition mini_skipspace :: "('l::len) mini \<Rightarrow> 'l mini" where
  "mini_skipspace s = (if GotByte s = CHR '' '' then mini_next s else s)"

definition is_letter :: "char \<Rightarrow> bool" where
  "is_letter c = (97 \<le> (of_char c :: nat) \<and> (of_char c :: nat) \<le> 122)"

definition is_digit :: "char \<Rightarrow> bool" where
  "is_digit c = (48 \<le> (of_char c :: nat) \<and> (of_char c :: nat) \<le> 57)"

definition mini_keyword :: "('l::len) mini \<Rightarrow> int \<times> 'l mini" where
  "mini_keyword s =
     (let cs = GotByte s # ram s;
          kw = takeWhile is_letter cs
      in if kw = [] then (0, Throw_error (Literal ''No string given.'') s)
         else (int (length kw),
               mini_rest (dropWhile is_letter cs) (s\<lparr>GlobalDynaBuf := kw @ [CHR 0x00]\<rparr>)))"

definition mini_symref :: "('l::len) mini \<Rightarrow> symref" where
  "mini_symref s = (case GlobalDynaBuf s of [] \<Rightarrow> 0 | c # cs \<Rightarrow> of_char c)"

definition mini_block :: "('l::len) mini \<Rightarrow> string \<times> string" where
  "mini_block s =
     (takeWhile (\<lambda>c. c \<noteq> CHAR_EOB) (ram s), dropWhile (\<lambda>c. c \<noteq> CHAR_EOB) (ram s))"

definition mini_GetByte :: "('l::len) mini \<Rightarrow> error + char \<times> 'l mini" where
  "mini_GetByte s = Inr (GotByte (mini_next s), mini_next s)"

definition mini_SKIPSPACE :: "('l::len) mini \<Rightarrow> error + 'l mini" where
  "mini_SKIPSPACE s = Inr (mini_skipspace s)"

definition mini_NEXTANDSKIPSPACE :: "('l::len) mini \<Rightarrow> error + 'l mini" where
  "mini_NEXTANDSKIPSPACE s = Inr (mini_skipspace (mini_next s))"

definition mini_Input_read_and_lower_keyword :: "('l::len) mini \<Rightarrow> error + int \<times> 'l mini" where
  "mini_Input_read_and_lower_keyword s = Inr (mini_keyword s)"

definition mini_Input_until_terminator :: "char \<Rightarrow> ('l::len) mini \<Rightarrow> error + 'l mini" where
  "mini_Input_until_terminator terminator s =
     (let cs = GotByte s # ram s;
          txt = takeWhile (\<lambda>c. c \<noteq> terminator \<and> c \<noteq> CHAR_EOS) cs
      in Inr (mini_rest (dropWhile (\<lambda>c. c \<noteq> terminator \<and> c \<noteq> CHAR_EOS) cs)
                (s\<lparr>GlobalDynaBuf := GlobalDynaBuf s @ txt\<rparr>)))"

definition mini_ALU_defined_int :: "('l::len) mini \<Rightarrow> error + 'l word \<times> 'l mini" where
  "mini_ALU_defined_int s =
     (let s1 = mini_skipspace s in
      if is_digit (GotByte s1)
      then Inr (of_nat (of_char (GotByte s1) - 48), mini_skipspace (mini_next s1))
      else Inl (Serious_error (Literal ''Value not defined.'')))"

definition mini_Parse_until_eob_or_eof :: "('l::len) mini \<Rightarrow> error + 'l mini" where
  "mini_Parse_until_eob_or_eof s =
     (case mini_block s of
        (blk, rest) \<Rightarrow> Inr (record_event (Parsed blk) (mini_rest rest s)))"

definition mini_Input_skip_or_store_block ::
  "bool \<Rightarrow> ('l::len) mini \<Rightarrow> error + string option \<times> 'l mini"
where
  "mini_Input_skip_or_store_block store s =
     (case mini_block s of
        (blk, rest) \<Rightarrow>
          if rest = [] then Inl (Serious_error exception_no_right_brace)
          else if store then Inr (Some (blk @ [CHAR_EOB, CHAR_EOS, CHAR_EOF]), mini_rest rest s)
          else Inr (None, record_event (Skipped blk) (mini_rest rest s)))"

definition mini_Input_read_zone_and_keyword ::
  "('l::len) mini \<Rightarrow> error + (int \<times> zone_t) \<times> 'l mini"
where
  "mini_Input_read_zone_and_keyword s =
     (case mini_keyword (mini_skipspace s) of (n, s1) \<Rightarrow> Inr ((n, 0), s1))"

definition mini_Input_get_force_bit :: "('l::len) mini \<Rightarrow> error + int \<times> 'l mini" where
  "mini_Input_get_force_bit s = Inr (0, mini_skipspace s)"

definition mini_symbol_find ::
  "zone_t \<Rightarrow> int \<Rightarrow> ('l::len) mini \<Rightarrow> error + symref \<times> 'l mini"
where
  "mini_symbol_find zone force_bit s = Inr (mini_symref s, s)"

definition mini_Input_accept_comma :: "('l::len) mini \<Rightarrow> error + int \<times> 'l mini" where
  "mini_Input_accept_comma s =
     (let s1 = mini_skipspace s in
      if GotByte s1 = CHR '','' then Inr (1, mini_skipspace (mini_next s1)) else Inr (0, s1))"

definition mini_symbol_set_value ::
  "symref \<Rightarrow> ('l::len) result \<Rightarrow> bool \<Rightarrow> 'l mini \<Rightarrow> error + 'l result \<times> 'l mini"
where
  "mini_symbol_set_value symbol new_value change_allowed s =
     Inr (new_value,
          record_event (Set_value symbol (sint (val_intval new_value)))
            (s\<lparr>symbols := (symbols s)(symbol := (symbols s symbol)\<lparr>result := new_value\<rparr>)\<rparr>))"

definition mini_Throw_first_pass_warning :: "string \<Rightarrow> ('l::len) mini \<Rightarrow> error + 'l mini" where
  "mini_Throw_first_pass_warning msg s =
     Inr (if pass_count s = 0 then record_event (Warned msg) s else s)"

definition mini_Tree_hard_scan ::
  "zone_t \<Rightarrow> bool \<Rightarrow> ('l::len) mini \<Rightarrow> error + symref option \<times> 'l mini"
where
  "mini_Tree_hard_scan zone create s =
     Inr (if flags (result (symbols s (mini_symref s))) \<noteq> 0 then Some (mini_symref s) else None, s)"

definition mini_Input_ensure_EOS :: "('l::len) mini \<Rightarrow> error + 'l mini" where
  "mini_Input_ensure_EOS s =
     (let s1 = mini_skipspace s in
      if GotByte s1 \<noteq> CHAR_EOS
      then Inr (Throw_error (Literal ''Garbage data at end of statement.'') s1)
      else Inr s1)"

definition mini_Input_read_filename :: "bool \<Rightarrow> ('l::len) mini \<Rightarrow> error + int \<times> 'l mini" where
  "mini_Input_read_filename allow_library s =
     (let s1 = mini_skipspace s in
      if GotByte s1 = CHR 0x22
      then Inr (0, mini_next
                     (mini_rest (dropWhile (\<lambda>c. c \<noteq> CHR 0x22) (ram s1))
                        (s1\<lparr>GlobalDynaBuf := takeWhile (\<lambda>c. c \<noteq> CHR 0x22) (ram s1) @ [CHR 0x00]\<rparr>)))
      else Inr (1, Throw_error (Literal ''No string given.'') s1))"

definition mini_fopen :: "string \<Rightarrow> ('l::len) mini \<Rightarrow> error + file_ptr option \<times> 'l mini" where
  "mini_fopen name s = Inr (if name = [] then None else Some 3, record_event (Opened name) s)"

definition mini_Input_new_file :: "string \<Rightarrow> file_ptr \<Rightarrow> ('l::len) mini \<Rightarrow> error + 'l mini" where
  "mini_Input_new_file filename fd s =
     Inr (s\<lparr>inputs := (inputs s)
            (Input_now s := \<lparr>line_number = 1, source_is_ram = False, src = Src_fd fd\<rparr>)\<rparr>)"

definition mini_fclose :: "src \<Rightarrow> ('l::len) mini \<Rightarrow> error + 'l mini" where
  "mini_fclose f s = Inr (record_event Closed s)"

definition mini_printf :: "string \<Rightarrow> ('l::len) mini \<Rightarrow> error + 'l mini" where
  "mini_printf msg s = Inr s"

definition mini :: "('l::len, event list) collab" where
  "mini =
     \<lparr>GetByte = mini_GetByte,
      SKIPSPACE = mini_SKIPSPACE,
      NEXTANDSKIPSPACE = mini_NEXTANDSKIPSPACE,
      Input_read_and_lower_keyword = mini_Input_read_and_lower_keyword,
      Input_until_terminator = mini_Input_until_terminator,
      ALU_defined_int = mini_ALU_defined_int,
      Parse_until_eob_or_eof = mini_Parse_until_eob_or_eof,
      Input_skip_or_store_block = mini_Input_skip_or_store_block,
      Input_read_zone_and_keyword = mini_Input_read_zone_and_keyword,
      Input_get_force_bit = mini_Input_get_force_bit,
      symbol_find = mini_symbol_find,
      Input_accept_comma = mini_Input_accept_comma,
      symbol_set_value = mini_symbol_set_value,
      Throw_first_pass_warning = mini_Throw_first_pass_warning,
      Tree_hard_scan = mini_Tree_hard_scan,
      Input_ensure_EOS = mini_Input_ensure_EOS,
      Input_read_filename = mini_Input_read_filename,
      fopen = mini_fopen,
      Input_new_file = mini_Input_new_file,
      fclose = mini_fclose,
      printf = mini_printf,
      local_input = (\<lambda>s. Suc (Input_now s)),
      MVALUE_DEFINED = 16,
      MVALUE_EXISTS = 256\<rparr>"

text \<open>
  The machine at the start of a handler: \<open>c\<close> is the byte the dispatcher read last,
  \<open>text\<close> is what follows it in the statement, up to and including the end-of-statement
  sentinel and whatever comes after.
\<close>

definition start :: "char \<Rightarrow> string \<Rightarrow> ('l::len) mini" where
  "start c text =
     \<lparr>GotByte = c,
      Input_now = 0,
      inputs = (\<lambda>a. \<lparr>line_number = 1, source_is_ram = True, src = Src_ram_ptr (Some text)\<rparr>),
      GlobalDynaBuf = [],
      symbols = (\<lambda>r. \<lparr>result = \<lparr>flags = 0, val_intval = 0\<rparr>, usage = 0\<rparr>),
      pass_count = 0,
      source_recursions_left = 64,
      warn_on_old_for = True,
      Process_verbosity = 0,
      errors = [],
      world = []\<rparr>"

section \<open>Properties\<close>

subsection \<open>Running the miniature\<close>

lemmas mini_eval =
  mini_def mini_GetByte_def mini_SKIPSPACE_def mini_NEXTANDSKIPSPACE_def
  mini_Input_read_and_lower_keyword_def mini_Input_until_terminator_def
  mini_ALU_defined_int_def mini_Parse_until_eob_or_eof_def
  mini_Input_skip_or_store_block_def mini_Input_read_zone_and_keyword_def
  mini_Input_get_force_bit_def mini_symbol_find_def mini_Input_accept_comma_def
  mini_symbol_set_value_def mini_Throw_first_pass_warning_def mini_Tree_hard_scan_def
  mini_Input_ensure_EOS_def mini_Input_read_filename_def mini_fopen_def
  mini_Input_new_file_def mini_fclose_def mini_printf_def
  mini_next_def mini_rest_def mini_skipspace_def mini_keyword_def mini_symref_def
  mini_block_def ram_def record_event_def set_ram_ptr_def set_line_number_def
  is_digit_def is_letter_def CHAR_EOS_def CHAR_EOF_def CHAR_SOB_def CHAR_EOB_def
  start_def Throw_error_def cstring_def DYNABUF_CLEAR_def DynaBuf_append_def
  DynaBuf_get_copy_def Tree_easy_scan_def condkeys_def activate_loop_input_def
  word_sless_alt

subsection \<open>Reading the statement of a loop\<close>

text \<open>
  The parts of \<^verbatim>\<open>PO_do\<close> and \<^verbatim>\<open>PO_for\<close> that read the statement, in terms of what
  the collaborators return.
\<close>

lemma PO_do_header_read:
  "SKIPSPACE E z = Inr z1 \<Longrightarrow>
   store_condition E \<lparr>line = 0, invert = False, body = None\<rparr> CHAR_SOB z1 = Inr (condition1, z2) \<Longrightarrow>
   GotByte z2 = CHAR_SOB \<Longrightarrow>
   Input_skip_or_store_block E True z2 = Inr (loop_body, z3) \<Longrightarrow>
   NEXTANDSKIPSPACE E z3 = Inr z4 \<Longrightarrow>
   store_condition E \<lparr>line = 0, invert = False, body = None\<rparr> CHAR_EOS z4 = Inr (condition2, z5) \<Longrightarrow>
   PO_do_header E z =
     Inr ((condition1, line_number (inputs z2 (Input_now z2)), loop_body, condition2), z5)"
  by (simp add: PO_do_header_def)

lemma PO_for_symbol_read:
  "Input_read_zone_and_keyword E z = Inr ((n, zone), z1) \<Longrightarrow> n \<noteq> 0 \<Longrightarrow>
   Input_get_force_bit E z1 = Inr (force_bit, z2) \<Longrightarrow>
   symbol_find E zone force_bit z2 = Inr (symbol, z3) \<Longrightarrow>
   Input_accept_comma E z3 = Inr (comma1, s) \<Longrightarrow> comma1 \<noteq> 0 \<Longrightarrow>
   PO_for_symbol E z = Inr (Inr symbol, s)"
  by (simp add: PO_for_symbol_def)

lemma PO_for_header_new:
  \<open>PO_for_symbol E z = Inr (Inr symbol, s) \<Longrightarrow>
   ALU_defined_int E s = Inr (counter_first, s1) \<Longrightarrow>
   Input_accept_comma E s1 = Inr (comma, s2) \<Longrightarrow> comma \<noteq> 0 \<Longrightarrow>
   (if \<not> warn_on_old_for s2 then Throw_first_pass_warning E ''Found new "!for" syntax.'' s2
    else Inr s2) = Inr s3 \<Longrightarrow>
   ALU_defined_int E s3 = Inr (counter_last, s4) \<Longrightarrow>
   GotByte s4 = CHAR_SOB \<Longrightarrow>
   Input_skip_or_store_block E True s4 = Inr (loop_body, s5) \<Longrightarrow>
   PO_for_header E z =
     Inr (Inr (symbol, False, counter_first, counter_last,
               if counter_last <s counter_first then - 1 else 1,
               line_number (inputs s4 (Input_now s4)), loop_body), s5)\<close>
  by (simp add: PO_for_header_def PO_for_counter_def)

lemma PO_for_header_old:
  \<open>PO_for_symbol E z = Inr (Inr symbol, s) \<Longrightarrow>
   ALU_defined_int E s = Inr (counter_last, s1) \<Longrightarrow>
   Input_accept_comma E s1 = Inr (0, s2) \<Longrightarrow>
   (if warn_on_old_for s2 then Throw_first_pass_warning E ''Found old "!for" syntax.'' s2
    else Inr s2) = Inr s3 \<Longrightarrow>
   \<not> counter_last <s 0 \<Longrightarrow>
   GotByte s3 = CHAR_SOB \<Longrightarrow>
   Input_skip_or_store_block E True s3 = Inr (loop_body, s4) \<Longrightarrow>
   PO_for_header E z =
     Inr (Inr (symbol, True, 0, counter_last, 1,
               line_number (inputs s3 (Input_now s3)), loop_body), s4)\<close>
  by (simp add: PO_for_header_def PO_for_counter_def)

subsection \<open>Input structures that are not the active one\<close>























subsection \<open>Loop conditions\<close>

text \<open>
  C4. A condition without a stored body is true, whatever its invert flag, and the
  machine is left as it was. A stored condition whose expression is evaluated to \<open>v\<close>,
  with nothing left over after the expression, is \<open>v = 0\<close> when the invert flag is set
  (until) and \<open>v \<noteq> 0\<close> when it is not (while). In the keyword table, \<^verbatim>\<open>until\<close> sets
  the invert flag and \<^verbatim>\<open>while\<close> clears it.
\<close>

theorem check_condition_value:
  "(body c = None \<longrightarrow> check_condition E c s = Inr (True, s)) \<and>
   (body c = Some b \<and>
    GetByte E (set_ram_ptr (Some b) (set_line_number (line c) s)) = Inr (g, s1) \<and>
    ALU_defined_int E s1 = Inr (v, s2) \<and> GotByte s2 = CHAR_EOS \<longrightarrow>
      (invert c \<longrightarrow> check_condition E c s = Inr (\<not> (v \<noteq> 0), s2)) \<and>
      (\<not> invert c \<longrightarrow> check_condition E c s = Inr (v \<noteq> 0, s2))) \<and>
   Tree_easy_scan condkeys (''until'' @ [CHAR_EOS]) = Some True \<and>
   Tree_easy_scan condkeys (''while'' @ [CHAR_EOS]) = Some False"
  by (simp add: check_condition_def CHAR_EOS_def Tree_easy_scan_def condkeys_def cstring_def)

text \<open>
  At \<^verbatim>\<open>until 0\<close> and \<^verbatim>\<open>while 0\<close>: the first is true, the second is false; a
  condition without body is true.
\<close>

theorem check_condition_value_witness:
  "check_condition mini \<lparr>line = 7, invert = True, body = None\<rparr> (start (CHR '' '') [] :: 32 mini) =
     Inr (True, start (CHR '' '') []) \<and>
   map_sum id fst (check_condition mini \<lparr>line = 7, invert = True, body = Some (''0'' @ [CHAR_EOS])\<rparr>
     (start (CHR '' '') [] :: 32 mini)) = Inr True \<and>
   map_sum id fst (check_condition mini \<lparr>line = 7, invert = False, body = Some (''0'' @ [CHAR_EOS])\<rparr>
     (start (CHR '' '') [] :: 32 mini)) = Inr False"
proof -
  let ?s = "start (CHR '' '') [] :: 32 mini"
  let ?b = "''0'' @ [CHAR_EOS]"
  let ?x = "set_ram_ptr (Some ?b) (set_line_number 7 ?s)"
  let ?s1 = "mini_next ?x"
  let ?s2 = "mini_skipspace (mini_next (mini_skipspace ?s1))"
  have g: "GetByte mini ?x = Inr (GotByte ?s1, ?s1)"
    by (simp add: mini_def mini_GetByte_def)
  have a: "ALU_defined_int mini ?s1 = Inr (0, ?s2)"
    by (simp add: mini_eval)
  have z: "GotByte ?s2 = CHAR_EOS"
    by (simp add: mini_eval)
  have n: "check_condition mini \<lparr>line = 7, invert = True, body = None\<rparr> ?s = Inr (True, ?s)"
    using check_condition_value [where c = "\<lparr>line = 7, invert = True, body = None\<rparr>"
        and E = mini and s = ?s]
    by simp
  have u: "check_condition mini \<lparr>line = 7, invert = True, body = Some ?b\<rparr> ?s = Inr (True, ?s2)"
    using check_condition_value [where c = "\<lparr>line = 7, invert = True, body = Some ?b\<rparr>"
        and E = mini and s = ?s and b = ?b and g = "GotByte ?s1" and ?s1.0 = ?s1 and v = 0
        and ?s2.0 = ?s2] g a z
    by simp
  have w: "check_condition mini \<lparr>line = 7, invert = False, body = Some ?b\<rparr> ?s = Inr (False, ?s2)"
    using check_condition_value [where c = "\<lparr>line = 7, invert = False, body = Some ?b\<rparr>"
        and E = mini and s = ?s and b = ?b and g = "GotByte ?s1" and ?s1.0 = ?s1 and v = 0
        and ?s2.0 = ?s2] g a z
    by simp
  from n u w show ?thesis
    by simp
qed

text \<open>
  C7, as the claim states it, fails: at the tail condition \<^verbatim>\<open>until 1 x\<close> the check
  of the condition does not return, it ends in the serious error, and so does the whole
  \<^verbatim>\<open>!do\<close>; nothing is reported through \<^verbatim>\<open>Throw_error\<close>.
\<close>

theorem check_condition_garbage_counterexample:
  "check_condition mini \<lparr>line = 7, invert = True, body = Some (''1 x'' @ [CHAR_EOS])\<rparr>
     (start (CHR '' '') [] :: 32 mini) = Inl (Serious_error exception_syntax) \<and>
   PO_do mini (start (CHR '' '') (''{abc} until 1 x'' @ [CHAR_EOS] @ ''next'') :: 32 mini) =
     Some (Inl (Serious_error exception_syntax))"
  by (simp add: check_condition_def PO_do_def PO_do_header_def PO_do_run_def PO_do_loop.simps
      store_condition_def parse_ram_block_def Let_def mini_eval)

text \<open>
  C7, amended. When a stored condition is evaluated and the byte read last after the
  expression is not zero, \<^verbatim>\<open>check_condition\<close> raises the serious error with the syntax
  message: it gives no truth value, and the loop of \<^verbatim>\<open>!do\<close> that checks this
  condition ends with that error, be it the head condition or the tail condition checked
  after the block was parsed.
\<close>

theorem check_condition_garbage:
  assumes "body c = Some b"
    and "GetByte E (set_ram_ptr (Some b) (set_line_number (line c) s)) = Inr (g, s1)"
    and "ALU_defined_int E s1 = Inr (v, s2)"
    and "GotByte s2 \<noteq> CHR 0x00"
  shows "check_condition E c s = Inl (Serious_error exception_syntax) \<and>
         PO_do_loop E c c2 loop_start loop_body s = Some (Inl (Serious_error exception_syntax)) \<and>
         (check_condition E c1 t = Inr (True, t1) \<and>
          parse_ram_block E loop_start loop_body t1 = Inr s \<longrightarrow>
            PO_do_loop E c1 c loop_start loop_body t =
              Some (Inl (Serious_error exception_syntax)))"
proof -
  from assms have e: "check_condition E c s = Inl (Serious_error exception_syntax)"
    by (simp add: check_condition_def)
  then have h: "PO_do_loop E c c2 loop_start loop_body s =
      Some (Inl (Serious_error exception_syntax))"
    by (simp add: PO_do_loop.simps)
  have "PO_do_loop E c1 c loop_start loop_body t = Some (Inl (Serious_error exception_syntax))"
    if "check_condition E c1 t = Inr (True, t1) \<and> parse_ram_block E loop_start loop_body t1 = Inr s"
    using that e by (subst PO_do_loop.simps) simp
  with e h show ?thesis
    by blast
qed

theorem check_condition_garbage_witness:
  "check_condition mini \<lparr>line = 7, invert = False, body = Some (''1 x'' @ [CHAR_EOS])\<rparr>
     (start (CHR '' '') [] :: 32 mini) = Inl (Serious_error exception_syntax) \<and>
   PO_do_loop mini \<lparr>line = 7, invert = False, body = Some (''1 x'' @ [CHAR_EOS])\<rparr>
     \<lparr>line = 7, invert = False, body = None\<rparr> 7 None (start (CHR '' '') [] :: 32 mini) =
     Some (Inl (Serious_error exception_syntax)) \<and>
   PO_do_loop mini \<lparr>line = 7, invert = False, body = None\<rparr>
     \<lparr>line = 7, invert = False, body = Some (''1 x'' @ [CHAR_EOS])\<rparr> 7
     (Some (''abc'' @ [CHAR_EOB, CHAR_EOS, CHAR_EOF])) (start (CHR '' '') [] :: 32 mini) =
     Some (Inl (Serious_error exception_syntax))"
proof -
  let ?s = "start (CHR '' '') [] :: 32 mini"
  let ?b = "''1 x'' @ [CHAR_EOS]"
  let ?c = "\<lparr>line = 7, invert = False, body = Some ?b\<rparr>"
  let ?n = "\<lparr>line = 7, invert = False, body = None\<rparr>"
  let ?blk = "Some (''abc'' @ [CHAR_EOB, CHAR_EOS, CHAR_EOF])"
  let ?s1 = "mini_next (set_ram_ptr (Some ?b) (set_line_number 7 ?s))"
  let ?s2 = "mini_skipspace (mini_next (mini_skipspace ?s1))"
  have b: "body ?c = Some ?b"
    by simp
  have g: "GetByte mini (set_ram_ptr (Some ?b) (set_line_number (line ?c) ?s)) = Inr (GotByte ?s1, ?s1)"
    by (simp add: mini_def mini_GetByte_def)
  have a: "ALU_defined_int mini ?s1 = Inr (1, ?s2)"
    by (simp add: mini_eval)
  have z: "GotByte ?s2 \<noteq> CHR 0x00"
    by (simp add: mini_eval)
  note head = check_condition_garbage [OF b g a z, where ?c2.0 = ?n and loop_start = 7
      and loop_body = None]
  let ?p = "projr (parse_ram_block mini 7 ?blk ?s)"
  let ?p1 = "mini_next (set_ram_ptr (Some ?b) (set_line_number 7 ?p))"
  let ?p2 = "mini_skipspace (mini_next (mini_skipspace ?p1))"
  have g': "GetByte mini (set_ram_ptr (Some ?b) (set_line_number (line ?c) ?p)) = Inr (GotByte ?p1, ?p1)"
    by (simp add: mini_def mini_GetByte_def)
  have a': "ALU_defined_int mini ?p1 = Inr (1, ?p2)"
    by (simp add: parse_ram_block_def mini_eval)
  have z': "GotByte ?p2 \<noteq> CHR 0x00"
    by (simp add: parse_ram_block_def mini_eval)
  have r: "check_condition mini ?n ?s = Inr (True, ?s) \<and> parse_ram_block mini 7 ?blk ?s = Inr ?p"
    by (simp add: check_condition_def parse_ram_block_def mini_eval)
  from check_condition_garbage [OF b g' a' z', where ?c1.0 = ?n and t = ?s and ?t1.0 = ?s
      and loop_start = 7 and loop_body = ?blk, THEN conjunct2, THEN conjunct2, THEN mp, OF r]
  have tail: "PO_do_loop mini ?n ?c 7 ?blk ?s = Some (Inl (Serious_error exception_syntax))" .
  from head [THEN conjunct1] head [THEN conjunct2, THEN conjunct1] tail show ?thesis
    by blast
qed

subsection \<open>The loop of \<^verbatim>\<open>!do\<close>\<close>

text \<open>
  C1. \<^verbatim>\<open>PO_do\<close> reads the head condition up to the opening brace, the block, and the
  tail condition up to the end of the statement, makes its local input the active one and
  runs the loop; when the loop ends it returns \<^verbatim>\<open>AT_EOS_ANYWAY\<close> from the machine the
  loop left, with the previous input active again. When the check of the head condition
  gives false, the loop ends in the machine that check left: the block is not parsed and
  the tail condition is not checked, whatever they are. When it gives true, the block is
  parsed, then the tail condition is checked, and the loop goes on from there exactly when
  that last check gave true. So after any number of rounds in which both conditions were
  true, the loop does what it does from the machine those rounds left. Each of these is
  stated for the loop from any machine, and for \<^verbatim>\<open>PO_do\<close> from the statement it reads.
\<close>

theorem PO_do_loop_step:
  "(check_condition E condition1 s = Inr (False, s1) \<longrightarrow>
      PO_do_loop E condition1 condition2 loop_start loop_body s = Some (Inr s1)) \<and>
   (check_condition E condition1 s = Inr (True, s1) \<and>
    parse_ram_block E loop_start loop_body s1 = Inr s2 \<and>
    check_condition E condition2 s2 = Inr (go_on, s3) \<longrightarrow>
      PO_do_loop E condition1 condition2 loop_start loop_body s =
        (if go_on then PO_do_loop E condition1 condition2 loop_start loop_body s3
         else Some (Inr s3))) \<and>
   (do_rounds n E condition1 condition2 loop_start loop_body s = Some s' \<longrightarrow>
      PO_do_loop E condition1 condition2 loop_start loop_body s =
        PO_do_loop E condition1 condition2 loop_start loop_body s') \<and>
   (SKIPSPACE E z = Inr z1 \<and>
    store_condition E \<lparr>line = 0, invert = False, body = None\<rparr> CHAR_SOB z1 = Inr (condition1, z2) \<and>
    GotByte z2 = CHAR_SOB \<and>
    loop_start = line_number (inputs z2 (Input_now z2)) \<and>
    Input_skip_or_store_block E True z2 = Inr (loop_body, z3) \<and>
    NEXTANDSKIPSPACE E z3 = Inr z4 \<and>
    store_condition E \<lparr>line = 0, invert = False, body = None\<rparr> CHAR_EOS z4 = Inr (condition2, z5) \<longrightarrow>
      (check_condition E condition1 (activate_loop_input E z5) = Inr (False, t1) \<longrightarrow>
         PO_do E z =
           Some (Inr (AT_EOS_ANYWAY, t1\<lparr>Input_now := Input_now z5, GotByte := CHAR_EOS\<rparr>))) \<and>
      (check_condition E condition1 (activate_loop_input E z5) = Inr (True, t1) \<and>
       parse_ram_block E loop_start loop_body t1 = Inr t2 \<and>
       check_condition E condition2 t2 = Inr (False, t3) \<longrightarrow>
         PO_do E z =
           Some (Inr (AT_EOS_ANYWAY, t3\<lparr>Input_now := Input_now z5, GotByte := CHAR_EOS\<rparr>))) \<and>
      (do_rounds n E condition1 condition2 loop_start loop_body (activate_loop_input E z5) =
         Some t \<longrightarrow>
         PO_do E z =
           (case PO_do_loop E condition1 condition2 loop_start loop_body t of
              None \<Rightarrow> None
            | Some (Inl e) \<Rightarrow> Some (Inl e)
            | Some (Inr t') \<Rightarrow>
                Some (Inr (AT_EOS_ANYWAY, t'\<lparr>Input_now := Input_now z5, GotByte := CHAR_EOS\<rparr>)))))"
proof -
  have a: "PO_do_loop E condition1 condition2 loop_start loop_body t = Some (Inr t1)"
    if "check_condition E condition1 t = Inr (False, t1)" for t t1
    using that by (subst PO_do_loop.simps) simp
  have b: "PO_do_loop E condition1 condition2 loop_start loop_body t =
        (if go_on then PO_do_loop E condition1 condition2 loop_start loop_body t3
         else Some (Inr t3))"
    if "check_condition E condition1 t = Inr (True, t1) \<and>
      parse_ram_block E loop_start loop_body t1 = Inr t2 \<and>
      check_condition E condition2 t2 = Inr (go_on, t3)" for t t1 t2 t3 go_on
    using that by (subst PO_do_loop.simps) simp
  have c: "PO_do_loop E condition1 condition2 loop_start loop_body t =
        PO_do_loop E condition1 condition2 loop_start loop_body t'"
    if "do_rounds n E condition1 condition2 loop_start loop_body t = Some t'" for n t t'
    using that
  proof (induction n arbitrary: t)
    case 0
    then show ?case by simp
  next
    case (Suc n)
    from Suc.prems obtain t1 t2 t3
      where h: "check_condition E condition1 t = Inr (True, t1)"
        and p: "parse_ram_block E loop_start loop_body t1 = Inr t2"
        and g: "check_condition E condition2 t2 = Inr (True, t3)"
        and r: "do_rounds n E condition1 condition2 loop_start loop_body t3 = Some t'"
      by (auto split: sum.splits prod.splits if_splits)
    from b [where t = t and ?t1.0 = t1 and ?t2.0 = t2 and ?t3.0 = t3 and go_on = True] h p g
    have "PO_do_loop E condition1 condition2 loop_start loop_body t =
        PO_do_loop E condition1 condition2 loop_start loop_body t3"
      by simp
    with Suc.IH [OF r] show ?case by simp
  qed
  have d: "(check_condition E condition1 (activate_loop_input E z5) = Inr (False, t1) \<longrightarrow>
         PO_do E z =
           Some (Inr (AT_EOS_ANYWAY, t1\<lparr>Input_now := Input_now z5, GotByte := CHAR_EOS\<rparr>))) \<and>
      (check_condition E condition1 (activate_loop_input E z5) = Inr (True, t1) \<and>
       parse_ram_block E loop_start loop_body t1 = Inr t2 \<and>
       check_condition E condition2 t2 = Inr (False, t3) \<longrightarrow>
         PO_do E z =
           Some (Inr (AT_EOS_ANYWAY, t3\<lparr>Input_now := Input_now z5, GotByte := CHAR_EOS\<rparr>))) \<and>
      (do_rounds n E condition1 condition2 loop_start loop_body (activate_loop_input E z5) =
         Some t \<longrightarrow>
         PO_do E z =
           (case PO_do_loop E condition1 condition2 loop_start loop_body t of
              None \<Rightarrow> None
            | Some (Inl e) \<Rightarrow> Some (Inl e)
            | Some (Inr t') \<Rightarrow>
                Some (Inr (AT_EOS_ANYWAY, t'\<lparr>Input_now := Input_now z5, GotByte := CHAR_EOS\<rparr>))))"
    if h: "SKIPSPACE E z = Inr z1 \<and>
      store_condition E \<lparr>line = 0, invert = False, body = None\<rparr> CHAR_SOB z1 = Inr (condition1, z2) \<and>
      GotByte z2 = CHAR_SOB \<and>
      loop_start = line_number (inputs z2 (Input_now z2)) \<and>
      Input_skip_or_store_block E True z2 = Inr (loop_body, z3) \<and>
      NEXTANDSKIPSPACE E z3 = Inr z4 \<and>
      store_condition E \<lparr>line = 0, invert = False, body = None\<rparr> CHAR_EOS z4 = Inr (condition2, z5)"
  proof -
    let ?a = "activate_loop_input E z5"
    from h PO_do_header_read [of E z z1 condition1 z2 loop_body z3 z4 condition2 z5]
    have hd: "PO_do_header E z = Inr ((condition1, loop_start, loop_body, condition2), z5)"
      by simp
    have run: "PO_do E z =
        (case PO_do_loop E condition1 condition2 loop_start loop_body ?a of
           None \<Rightarrow> None
         | Some (Inl e) \<Rightarrow> Some (Inl e)
         | Some (Inr t') \<Rightarrow>
             Some (Inr (AT_EOS_ANYWAY, t'\<lparr>Input_now := Input_now z5, GotByte := CHAR_EOS\<rparr>)))"
      by (simp add: PO_do_def hd PO_do_run_def Let_def)
    have 1: "PO_do E z =
        Some (Inr (AT_EOS_ANYWAY, t1\<lparr>Input_now := Input_now z5, GotByte := CHAR_EOS\<rparr>))"
      if "check_condition E condition1 ?a = Inr (False, t1)"
      using a [OF that] by (simp add: run)
    have 2: "PO_do E z =
        Some (Inr (AT_EOS_ANYWAY, t3\<lparr>Input_now := Input_now z5, GotByte := CHAR_EOS\<rparr>))"
      if "check_condition E condition1 ?a = Inr (True, t1) \<and>
        parse_ram_block E loop_start loop_body t1 = Inr t2 \<and>
        check_condition E condition2 t2 = Inr (False, t3)"
      using b [OF that] by (simp add: run)
    have 3: "PO_do E z =
        (case PO_do_loop E condition1 condition2 loop_start loop_body t of
           None \<Rightarrow> None
         | Some (Inl e) \<Rightarrow> Some (Inl e)
         | Some (Inr t') \<Rightarrow>
             Some (Inr (AT_EOS_ANYWAY, t'\<lparr>Input_now := Input_now z5, GotByte := CHAR_EOS\<rparr>)))"
      if "do_rounds n E condition1 condition2 loop_start loop_body ?a = Some t"
      using c [OF that] by (simp add: run)
    from 1 2 3 show ?thesis
      by blast
  qed
  from a [of s s1] b [where t = s and ?t1.0 = s1 and ?t2.0 = s2 and ?t3.0 = s3 and go_on = go_on]
    c [of n s s'] d
  show ?thesis
    by blast
qed

text \<open>
  \<^verbatim>\<open>while 0 { abc } until 1\<close> parses nothing; \<^verbatim>\<open>{ abc } until 1\<close> parses the
  block once; \<^verbatim>\<open>{ abc } while 1\<close> has a round after which the loop is where it was.
  The same for \<^verbatim>\<open>PO_do\<close> on the text of the first two statements.
\<close>

theorem PO_do_loop_step_witness:
  "map_option (map_sum id world)
     (PO_do_loop mini \<lparr>line = 7, invert = False, body = Some (''0'' @ [CHAR_EOS])\<rparr>
        \<lparr>line = 7, invert = True, body = Some (''1'' @ [CHAR_EOS])\<rparr> 7
        (Some (''abc'' @ [CHAR_EOB, CHAR_EOS, CHAR_EOF])) (start (CHR '' '') [] :: 32 mini)) =
     Some (Inr []) \<and>
   map_option (map_sum id world)
     (PO_do_loop mini \<lparr>line = 7, invert = False, body = None\<rparr>
        \<lparr>line = 7, invert = True, body = Some (''1'' @ [CHAR_EOS])\<rparr> 7
        (Some (''abc'' @ [CHAR_EOB, CHAR_EOS, CHAR_EOF])) (start (CHR '' '') [] :: 32 mini)) =
     Some (Inr [Parsed ''abc'']) \<and>
   map_option world
     (do_rounds 2 mini \<lparr>line = 7, invert = False, body = None\<rparr>
        \<lparr>line = 7, invert = False, body = Some (''1'' @ [CHAR_EOS])\<rparr> 7
        (Some (''abc'' @ [CHAR_EOB, CHAR_EOS, CHAR_EOF])) (start (CHR '' '') [] :: 32 mini)) =
     Some [Parsed ''abc'', Parsed ''abc''] \<and>
   PO_do_loop mini \<lparr>line = 7, invert = False, body = None\<rparr>
     \<lparr>line = 7, invert = False, body = Some (''1'' @ [CHAR_EOS])\<rparr> 7
     (Some (''abc'' @ [CHAR_EOB, CHAR_EOS, CHAR_EOF])) (start (CHR '' '') [] :: 32 mini) =
   PO_do_loop mini \<lparr>line = 7, invert = False, body = None\<rparr>
     \<lparr>line = 7, invert = False, body = Some (''1'' @ [CHAR_EOS])\<rparr> 7
     (Some (''abc'' @ [CHAR_EOB, CHAR_EOS, CHAR_EOF]))
     (the (do_rounds 2 mini \<lparr>line = 7, invert = False, body = None\<rparr>
        \<lparr>line = 7, invert = False, body = Some (''1'' @ [CHAR_EOS])\<rparr> 7
        (Some (''abc'' @ [CHAR_EOB, CHAR_EOS, CHAR_EOF])) (start (CHR '' '') [] :: 32 mini))) \<and>
   map_option (map_sum id (\<lambda>(r, s'). (r, world s', Input_now s', GotByte s')))
     (PO_do mini (start (CHR '' '') (''while 0 {abc} until 1'' @ [CHAR_EOS]) :: 32 mini)) =
     Some (Inr (AT_EOS_ANYWAY, [], 0, CHAR_EOS)) \<and>
   map_option (map_sum id (\<lambda>(r, s'). (r, world s', Input_now s', GotByte s')))
     (PO_do mini (start (CHR '' '') (''{abc} until 1'' @ [CHAR_EOS]) :: 32 mini)) =
     Some (Inr (AT_EOS_ANYWAY, [Parsed ''abc''], 0, CHAR_EOS))"
proof -
  let ?s = "start (CHR '' '') [] :: 32 mini"
  let ?w = "\<lparr>line = 7, invert = False, body = Some (''0'' @ [CHAR_EOS])\<rparr>"
  let ?n = "\<lparr>line = 7, invert = False, body = None\<rparr>"
  let ?u = "\<lparr>line = 7, invert = True, body = Some (''1'' @ [CHAR_EOS])\<rparr>"
  let ?v = "\<lparr>line = 7, invert = False, body = Some (''1'' @ [CHAR_EOS])\<rparr>"
  let ?blk = "Some (''abc'' @ [CHAR_EOB, CHAR_EOS, CHAR_EOF])"
  let ?s1 = "snd (projr (check_condition mini ?w ?s))"
  let ?s2 = "projr (parse_ram_block mini 7 ?blk ?s)"
  let ?s3 = "snd (projr (check_condition mini ?u ?s2))"
  let ?r = "the (do_rounds 2 mini ?n ?v 7 ?blk ?s)"
  have h: "check_condition mini ?w ?s = Inr (False, ?s1)"
    by (simp add: check_condition_def mini_eval)
  have e: "world ?s1 = []"
    by (simp add: check_condition_def mini_eval)
  have n: "check_condition mini ?n ?s = Inr (True, ?s)"
    by (simp add: check_condition_def)
  have p: "parse_ram_block mini 7 ?blk ?s = Inr ?s2"
    by (simp add: parse_ram_block_def mini_eval)
  have t: "check_condition mini ?u ?s2 = Inr (False, ?s3)"
    by (simp add: check_condition_def parse_ram_block_def mini_eval)
  have f: "world ?s3 = [Parsed ''abc'']"
    by (simp add: check_condition_def parse_ram_block_def mini_eval)
  have two: "Suc (Suc 0) = 2"
    by simp
  have d: "do_rounds 2 mini ?n ?v 7 ?blk ?s = Some ?r"
    unfolding two [symmetric]
    by (simp add: check_condition_def parse_ram_block_def mini_eval)
  have dw: "map_option world (do_rounds 2 mini ?n ?v 7 ?blk ?s) = Some [Parsed ''abc'', Parsed ''abc'']"
    unfolding two [symmetric]
    by (simp add: check_condition_def parse_ram_block_def mini_eval)
  have 1: "PO_do_loop mini ?w ?u 7 ?blk ?s = Some (Inr ?s1)"
    using PO_do_loop_step [where E = mini and ?condition1.0 = ?w and s = ?s and ?s1.0 = ?s1
        and ?condition2.0 = ?u and loop_start = 7 and loop_body = ?blk, THEN conjunct1] h
    by simp
  have 2: "PO_do_loop mini ?n ?u 7 ?blk ?s = Some (Inr ?s3)"
    using PO_do_loop_step [where E = mini and ?condition1.0 = ?n and s = ?s and ?s1.0 = ?s
        and ?condition2.0 = ?u and loop_start = 7 and loop_body = ?blk and ?s2.0 = ?s2
        and go_on = False and ?s3.0 = ?s3, THEN conjunct2, THEN conjunct1] n p t
    by simp
  have 3: "PO_do_loop mini ?n ?v 7 ?blk ?s = PO_do_loop mini ?n ?v 7 ?blk ?r"
    using PO_do_loop_step [where E = mini and ?condition1.0 = ?n and s = ?s
        and ?condition2.0 = ?v and loop_start = 7 and loop_body = ?blk and n = 2 and s' = ?r,
        THEN conjunct2, THEN conjunct2, THEN conjunct1] d
    by (rule mp)
  let ?init = "\<lparr>line = 0, invert = False, body = None\<rparr>"
  let ?y = "start (CHR '' '') (''while 0 {abc} until 1'' @ [CHAR_EOS]) :: 32 mini"
  let ?y1 = "projr (SKIPSPACE mini ?y)"
  let ?yh = "projr (store_condition mini ?init CHAR_SOB ?y1)"
  let ?y2 = "snd ?yh"
  let ?yb = "projr (Input_skip_or_store_block mini True ?y2)"
  let ?y4 = "projr (NEXTANDSKIPSPACE mini (snd ?yb))"
  let ?yt = "projr (store_condition mini ?init CHAR_EOS ?y4)"
  let ?yc = "snd (projr (check_condition mini (fst ?yh) (activate_loop_input mini (snd ?yt))))"
  have yh: "SKIPSPACE mini ?y = Inr ?y1 \<and>
      store_condition mini ?init CHAR_SOB ?y1 = Inr (fst ?yh, ?y2) \<and>
      GotByte ?y2 = CHAR_SOB \<and>
      line_number (inputs ?y2 (Input_now ?y2)) = line_number (inputs ?y2 (Input_now ?y2)) \<and>
      Input_skip_or_store_block mini True ?y2 = Inr (fst ?yb, snd ?yb) \<and>
      NEXTANDSKIPSPACE mini (snd ?yb) = Inr ?y4 \<and>
      store_condition mini ?init CHAR_EOS ?y4 = Inr (fst ?yt, snd ?yt)"
    by (simp add: store_condition_def mini_eval)
  have yc: "check_condition mini (fst ?yh) (activate_loop_input mini (snd ?yt)) = Inr (False, ?yc)"
    by (simp add: check_condition_def store_condition_def mini_eval)
  have yw: "world ?yc = [] \<and> Input_now (snd ?yt) = 0"
    by (simp add: check_condition_def store_condition_def mini_eval)
  from PO_do_loop_step [where E = mini and z = ?y and ?z1.0 = ?y1 and ?condition1.0 = "fst ?yh"
      and ?z2.0 = ?y2 and loop_start = "line_number (inputs ?y2 (Input_now ?y2))"
      and loop_body = "fst ?yb" and ?z3.0 = "snd ?yb" and ?z4.0 = ?y4
      and ?condition2.0 = "fst ?yt" and ?z5.0 = "snd ?yt" and ?t1.0 = ?yc,
      THEN conjunct2, THEN conjunct2, THEN conjunct2, THEN mp, OF yh, THEN conjunct1,
      THEN mp, OF yc]
  have "PO_do mini ?y =
      Some (Inr (AT_EOS_ANYWAY, ?yc\<lparr>Input_now := Input_now (snd ?yt), GotByte := CHAR_EOS\<rparr>))" .
  with yw have 4: "map_option (map_sum id (\<lambda>(r, s'). (r, world s', Input_now s', GotByte s')))
      (PO_do mini ?y) = Some (Inr (AT_EOS_ANYWAY, [], 0, CHAR_EOS))"
    by simp
  let ?x = "start (CHR '' '') (''{abc} until 1'' @ [CHAR_EOS]) :: 32 mini"
  let ?x1 = "projr (SKIPSPACE mini ?x)"
  let ?xh = "projr (store_condition mini ?init CHAR_SOB ?x1)"
  let ?x2 = "snd ?xh"
  let ?xb = "projr (Input_skip_or_store_block mini True ?x2)"
  let ?x4 = "projr (NEXTANDSKIPSPACE mini (snd ?xb))"
  let ?xt = "projr (store_condition mini ?init CHAR_EOS ?x4)"
  let ?xl = "line_number (inputs ?x2 (Input_now ?x2))"
  let ?xc = "snd (projr (check_condition mini (fst ?xh) (activate_loop_input mini (snd ?xt))))"
  let ?xp = "projr (parse_ram_block mini ?xl (fst ?xb) ?xc)"
  let ?xe = "snd (projr (check_condition mini (fst ?xt) ?xp))"
  have xh: "SKIPSPACE mini ?x = Inr ?x1 \<and>
      store_condition mini ?init CHAR_SOB ?x1 = Inr (fst ?xh, ?x2) \<and>
      GotByte ?x2 = CHAR_SOB \<and>
      ?xl = line_number (inputs ?x2 (Input_now ?x2)) \<and>
      Input_skip_or_store_block mini True ?x2 = Inr (fst ?xb, snd ?xb) \<and>
      NEXTANDSKIPSPACE mini (snd ?xb) = Inr ?x4 \<and>
      store_condition mini ?init CHAR_EOS ?x4 = Inr (fst ?xt, snd ?xt)"
    by (simp add: store_condition_def mini_eval)
  have xc: "check_condition mini (fst ?xh) (activate_loop_input mini (snd ?xt)) = Inr (True, ?xc) \<and>
      parse_ram_block mini ?xl (fst ?xb) ?xc = Inr ?xp \<and>
      check_condition mini (fst ?xt) ?xp = Inr (False, ?xe)"
    by (simp add: check_condition_def parse_ram_block_def store_condition_def mini_eval)
  have xw: "world ?xe = [Parsed ''abc''] \<and> Input_now (snd ?xt) = 0"
    by (simp add: check_condition_def parse_ram_block_def store_condition_def mini_eval)
  from PO_do_loop_step [where E = mini and z = ?x and ?z1.0 = ?x1 and ?condition1.0 = "fst ?xh"
      and ?z2.0 = ?x2 and loop_start = ?xl
      and loop_body = "fst ?xb" and ?z3.0 = "snd ?xb" and ?z4.0 = ?x4
      and ?condition2.0 = "fst ?xt" and ?z5.0 = "snd ?xt" and ?t1.0 = ?xc and ?t2.0 = ?xp
      and ?t3.0 = ?xe,
      THEN conjunct2, THEN conjunct2, THEN conjunct2, THEN mp, OF xh, THEN conjunct2,
      THEN conjunct1, THEN mp, OF xc]
  have "PO_do mini ?x =
      Some (Inr (AT_EOS_ANYWAY, ?xe\<lparr>Input_now := Input_now (snd ?xt), GotByte := CHAR_EOS\<rparr>))" .
  with xw have 5: "map_option (map_sum id (\<lambda>(r, s'). (r, world s', Input_now s', GotByte s')))
      (PO_do mini ?x) = Some (Inr (AT_EOS_ANYWAY, [Parsed ''abc''], 0, CHAR_EOS))"
    by simp
  from 1 2 e f have "map_option (map_sum id world) (PO_do_loop mini ?w ?u 7 ?blk ?s) = Some (Inr []) \<and>
      map_option (map_sum id world) (PO_do_loop mini ?n ?u 7 ?blk ?s) = Some (Inr [Parsed ''abc''])"
    by simp
  with dw 3 4 5 show ?thesis
    by blast
qed

subsection \<open>Source file inclusion\<close>

text \<open>
  C10. With at least one level of nesting left, \<^verbatim>\<open>PO_source\<close> first takes one from the
  counter. When the file name cannot be read, it returns \<^verbatim>\<open>SKIP_REMAINDER\<close> in the
  very machine the reader of the file name left, so the counter is not given back. When
  the file cannot be opened, and when the file was parsed, the counter is incremented
  again before \<^verbatim>\<open>ENSURE_EOS\<close> is returned.
\<close>

theorem PO_source_depth_counter:
  assumes "0 < source_recursions_left s"
    and "Input_read_filename E True (s\<lparr>source_recursions_left := source_recursions_left s - 1\<rparr>) =
           Inr (failed, s2)"
  shows "(failed \<noteq> 0 \<longrightarrow> PO_source E s = Inr (SKIP_REMAINDER, s2)) \<and>
         (failed = 0 \<and> fopen E (cstring (GlobalDynaBuf s2)) s2 = Inr (None, s3) \<longrightarrow>
            PO_source E s =
              Inr (ENSURE_EOS,
                   (Throw_error exception_cannot_open_input_file s3)
                     \<lparr>source_recursions_left := source_recursions_left s3 + 1\<rparr>)) \<and>
         (failed = 0 \<and> fopen E (cstring (GlobalDynaBuf s2)) s2 = Inr (Some f, s3) \<and>
          Parse_and_close_file E f (cstring (GlobalDynaBuf s3)) (s3\<lparr>Input_now := local_input E s3\<rparr>) =
            Inr s5 \<longrightarrow>
            PO_source E s =
              Inr (ENSURE_EOS,
                   s5\<lparr>Input_now := Input_now s3, GotByte := GotByte s3,
                      source_recursions_left := source_recursions_left s5 + 1\<rparr>))"
  using assms by (simp add: PO_source_def Let_def Throw_error_def)

text \<open>
  With 64 levels left: a file name without quotes leaves 63; a file that cannot be
  opened and a file that is parsed leave 64.
\<close>

theorem PO_source_depth_counter_witness:
  "map_sum id (\<lambda>(r, s'). (r, source_recursions_left s'))
     (PO_source mini (start (CHR '' '') (''f.a'' @ [CHAR_EOS]) :: 32 mini)) = Inr (SKIP_REMAINDER, 63) \<and>
   map_sum id (\<lambda>(r, s'). (r, source_recursions_left s'))
     (PO_source mini (start (CHR '' '') ([CHR 0x22, CHR 0x22, CHAR_EOS]) :: 32 mini)) = Inr (ENSURE_EOS, 64) \<and>
   map_sum id (\<lambda>(r, s'). (r, source_recursions_left s'))
     (PO_source mini (start (CHR '' '') ([CHR 0x22] @ ''f.a'' @ [CHR 0x22, CHAR_EOS]) :: 32 mini)) =
     Inr (ENSURE_EOS, 64)"
proof -
  let ?a = "start (CHR '' '') (''f.a'' @ [CHAR_EOS]) :: 32 mini"
  let ?b = "start (CHR '' '') ([CHR 0x22, CHR 0x22, CHAR_EOS]) :: 32 mini"
  let ?c = "start (CHR '' '') ([CHR 0x22] @ ''f.a'' @ [CHR 0x22, CHAR_EOS]) :: 32 mini"
  let ?ra = "projr (Input_read_filename mini True (?a\<lparr>source_recursions_left := source_recursions_left ?a - 1\<rparr>))"
  let ?rb = "projr (Input_read_filename mini True (?b\<lparr>source_recursions_left := source_recursions_left ?b - 1\<rparr>))"
  let ?rc = "projr (Input_read_filename mini True (?c\<lparr>source_recursions_left := source_recursions_left ?c - 1\<rparr>))"
  let ?ob = "snd (projr (fopen mini (cstring (GlobalDynaBuf (snd ?rb))) (snd ?rb)))"
  let ?oc = "snd (projr (fopen mini (cstring (GlobalDynaBuf (snd ?rc))) (snd ?rc)))"
  let ?pc = "projr (Parse_and_close_file mini 3 (cstring (GlobalDynaBuf ?oc)) (?oc\<lparr>Input_now := local_input mini ?oc\<rparr>))"
  have pa: "0 < source_recursions_left ?a" and pb: "0 < source_recursions_left ?b"
    and pc: "0 < source_recursions_left ?c"
    by (simp_all add: start_def)
  have ra: "Input_read_filename mini True (?a\<lparr>source_recursions_left := source_recursions_left ?a - 1\<rparr>) =
      Inr (1, snd ?ra)"
    by (simp add: mini_eval)
  have rb: "Input_read_filename mini True (?b\<lparr>source_recursions_left := source_recursions_left ?b - 1\<rparr>) =
      Inr (0, snd ?rb)"
    by (simp add: mini_eval)
  have rc: "Input_read_filename mini True (?c\<lparr>source_recursions_left := source_recursions_left ?c - 1\<rparr>) =
      Inr (0, snd ?rc)"
    by (simp add: mini_eval)
  have ob: "fopen mini (cstring (GlobalDynaBuf (snd ?rb))) (snd ?rb) = Inr (None, ?ob)"
    by (simp add: mini_eval)
  have oc: "fopen mini (cstring (GlobalDynaBuf (snd ?rc))) (snd ?rc) = Inr (Some 3, ?oc)"
    by (simp add: mini_eval)
  have pcf: "Parse_and_close_file mini 3 (cstring (GlobalDynaBuf ?oc)) (?oc\<lparr>Input_now := local_input mini ?oc\<rparr>) =
      Inr ?pc"
    by (simp add: Parse_and_close_file_def mini_eval)
  have ca: "source_recursions_left (snd ?ra) = 63"
    by (simp add: mini_eval)
  have cb: "source_recursions_left ?ob = 63"
    by (simp add: mini_eval)
  have cc: "source_recursions_left ?pc = 63"
    by (simp add: Parse_and_close_file_def mini_eval)
  have "PO_source mini ?a = Inr (SKIP_REMAINDER, snd ?ra)"
    using PO_source_depth_counter [OF pa ra] by simp
  moreover have "PO_source mini ?b =
      Inr (ENSURE_EOS, (Throw_error exception_cannot_open_input_file ?ob)
             \<lparr>source_recursions_left := source_recursions_left ?ob + 1\<rparr>)"
    using PO_source_depth_counter [OF pb rb, where ?s3.0 = ?ob] ob by simp
  moreover have "PO_source mini ?c =
      Inr (ENSURE_EOS, ?pc\<lparr>Input_now := Input_now ?oc, GotByte := GotByte ?oc,
             source_recursions_left := source_recursions_left ?pc + 1\<rparr>)"
    using PO_source_depth_counter [OF pc rc, where ?s3.0 = ?oc and f = 3 and ?s5.0 = ?pc] oc pcf
    by simp
  ultimately show ?thesis
    using ca cb cc by simp
qed

subsection \<open>Conditional assembly\<close>

lemma symbol_defined_flag:
  "fst (symbol_defined E node s) =
     (case node of
        None \<Rightarrow> False
      | Some symbol \<Rightarrow> flags (result (symbols s symbol)) AND MVALUE_DEFINED E \<noteq> 0)"
  by (cases node) (simp_all add: symbol_defined_def Let_def)

text \<open>
  C6. The symbol counts as defined when the lookup found it and its flags have the
  defined bit. When no \<^verbatim>\<open>{\<close> follows the symbol, \<^verbatim>\<open>!ifdef\<close> returns
  \<^verbatim>\<open>PARSE_REMAINDER\<close> for a defined symbol and \<^verbatim>\<open>SKIP_REMAINDER\<close> otherwise, and
  \<^verbatim>\<open>!ifndef\<close> the other way round.
\<close>

theorem ifdef_ifndef_remainder:
  assumes "Input_read_zone_and_keyword E s = Inr ((n, zone), s1)"
    and "n \<noteq> 0"
    and "Tree_hard_scan E zone False s1 = Inr (node, s2)"
    and "SKIPSPACE E (snd (symbol_defined E node s2)) = Inr s4"
    and "GotByte s4 \<noteq> CHAR_SOB"
  shows "PO_ifdef E s =
           Inr (if (case node of None \<Rightarrow> False
                    | Some symbol \<Rightarrow> flags (result (symbols s2 symbol)) AND MVALUE_DEFINED E \<noteq> 0)
                then PARSE_REMAINDER else SKIP_REMAINDER, s4) \<and>
         PO_ifndef E s =
           Inr (if (case node of None \<Rightarrow> False
                    | Some symbol \<Rightarrow> flags (result (symbols s2 symbol)) AND MVALUE_DEFINED E \<noteq> 0)
                then SKIP_REMAINDER else PARSE_REMAINDER, s4)"
proof -
  obtain d s3 where d: "symbol_defined E node s2 = (d, s3)"
    by (cases "symbol_defined E node s2")
  with symbol_defined_flag [of E node s2]
  have "d = (case node of None \<Rightarrow> False
             | Some symbol \<Rightarrow> flags (result (symbols s2 symbol)) AND MVALUE_DEFINED E \<noteq> 0)"
    by simp
  with assms d show ?thesis
    by (simp add: PO_ifdef_def PO_ifndef_def ifdef_ifndef_def)
qed

text \<open>
  \<^verbatim>\<open>v lda\<close> with \<open>v\<close> defined (its flags are 16 + 256): \<^verbatim>\<open>!ifdef\<close> has the
  remainder parsed and \<^verbatim>\<open>!ifndef\<close> has it skipped.
\<close>

theorem ifdef_ifndef_remainder_witness:
  "map_sum id fst
     (PO_ifdef mini
        ((start (CHR '' '') (''v lda'' @ [CHAR_EOS]) :: 32 mini)
           \<lparr>symbols := (\<lambda>r. \<lparr>result = \<lparr>flags = 272, val_intval = 5\<rparr>, usage = 0\<rparr>)\<rparr>)) =
     Inr PARSE_REMAINDER \<and>
   map_sum id fst
     (PO_ifndef mini
        ((start (CHR '' '') (''v lda'' @ [CHAR_EOS]) :: 32 mini)
           \<lparr>symbols := (\<lambda>r. \<lparr>result = \<lparr>flags = 272, val_intval = 5\<rparr>, usage = 0\<rparr>)\<rparr>)) =
     Inr SKIP_REMAINDER"
proof -
  let ?s = "(start (CHR '' '') (''v lda'' @ [CHAR_EOS]) :: 32 mini)
              \<lparr>symbols := (\<lambda>r. \<lparr>result = \<lparr>flags = 272, val_intval = 5\<rparr>, usage = 0\<rparr>)\<rparr>"
  let ?s1 = "snd (projr (Input_read_zone_and_keyword mini ?s))"
  let ?s4 = "projr (SKIPSPACE mini (snd (symbol_defined mini (Some 118) ?s1)))"
  have k: "Input_read_zone_and_keyword mini ?s = Inr ((1, 0), ?s1)"
    by (simp add: mini_eval)
  have n: "(1 :: int) \<noteq> 0"
    by simp
  have h: "Tree_hard_scan mini 0 False ?s1 = Inr (Some 118, ?s1)"
    by (simp add: mini_eval)
  have p: "SKIPSPACE mini (snd (symbol_defined mini (Some 118) ?s1)) = Inr ?s4"
    by (simp add: mini_eval)
  have g: "GotByte ?s4 \<noteq> CHAR_SOB"
    by (simp add: symbol_defined_def mini_eval)
  have f: "flags (result (symbols ?s1 118)) AND MVALUE_DEFINED mini \<noteq> (0 :: int)"
    by (simp add: mini_eval)
  from ifdef_ifndef_remainder [OF k n h p g] f show ?thesis
    by simp
qed

text \<open>
  C5. A block is either parsed as statements or skipped. \<^verbatim>\<open>!if\<close> has the first block
  parsed exactly when the expression is not zero. When \<^verbatim>\<open>else\<close> and \<^verbatim>\<open>{\<close> follow
  the first block, the second block is parsed exactly when the expression is zero, so one
  of the two blocks is parsed and the other is skipped. When the statement ends after the
  first block, \<^verbatim>\<open>!if\<close> returns without reporting anything.
\<close>

theorem PO_if_blocks:
  assumes "ALU_defined_int E s = Inr (cond, s1)"
    and "GotByte s1 = CHAR_SOB"
    and "skip_or_parse_block E (cond \<noteq> 0) s1 = Inr (missing, s2)"
    and "NEXTANDSKIPSPACE E s2 = Inr s3"
  shows "skip_or_parse_block E True s1 =
           (case Parse_until_eob_or_eof E s1 of
              Inl e \<Rightarrow> Inl e
            | Inr s' \<Rightarrow>
                if GotByte s' \<noteq> CHAR_EOB then Inl (Serious_error exception_no_right_brace)
                else Inr (0, s')) \<and>
         skip_or_parse_block E False s1 =
           (case Input_skip_or_store_block E False s1 of
              Inl e \<Rightarrow> Inl e
            | Inr (p, s') \<Rightarrow> Inr (0, s')) \<and>
         (GotByte s3 = CHAR_EOS \<longrightarrow> PO_if E s = Inr (ENSURE_EOS, s3)) \<and>
         (GotByte s3 \<noteq> CHAR_EOS \<and> Input_read_and_lower_keyword E s3 = Inr (n, s4) \<and> n \<noteq> 0 \<and>
          cstring (GlobalDynaBuf s4) = ''else'' \<and> SKIPSPACE E s4 = Inr s5 \<and> GotByte s5 = CHAR_SOB \<longrightarrow>
            PO_if E s =
              (case skip_or_parse_block E (cond = 0) s5 of
                 Inl e \<Rightarrow> Inl e
               | Inr (missing2, s6) \<Rightarrow>
                   (case GetByte E s6 of
                      Inl e \<Rightarrow> Inl e
                    | Inr (c, s7) \<Rightarrow>
                        (case Input_ensure_EOS E s7 of
                           Inl e \<Rightarrow> Inl e
                         | Inr s8 \<Rightarrow> Inr (ENSURE_EOS, s8)))))"
proof -
  from assms(3) have m: "missing = 0"
    by (auto simp: skip_or_parse_block_def split: if_splits sum.splits prod.splits)
  have a: "skip_or_parse_block E True s1 =
           (case Parse_until_eob_or_eof E s1 of
              Inl e \<Rightarrow> Inl e
            | Inr s' \<Rightarrow>
                if GotByte s' \<noteq> CHAR_EOB then Inl (Serious_error exception_no_right_brace)
                else Inr (0, s'))"
    by (simp add: skip_or_parse_block_def)
  have b: "skip_or_parse_block E False s1 =
           (case Input_skip_or_store_block E False s1 of
              Inl e \<Rightarrow> Inl e
            | Inr (p, s') \<Rightarrow> Inr (0, s'))"
    by (simp add: skip_or_parse_block_def)
  have c: "GotByte s3 = CHAR_EOS \<longrightarrow> PO_if E s = Inr (ENSURE_EOS, s3)"
    using assms m by (simp add: PO_if_def parse_block_else_block_def)
  have d: "GotByte s3 \<noteq> CHAR_EOS \<and> Input_read_and_lower_keyword E s3 = Inr (n, s4) \<and> n \<noteq> 0 \<and>
          cstring (GlobalDynaBuf s4) = ''else'' \<and> SKIPSPACE E s4 = Inr s5 \<and> GotByte s5 = CHAR_SOB \<longrightarrow>
            PO_if E s =
              (case skip_or_parse_block E (cond = 0) s5 of
                 Inl e \<Rightarrow> Inl e
               | Inr (missing2, s6) \<Rightarrow>
                   (case GetByte E s6 of
                      Inl e \<Rightarrow> Inl e
                    | Inr (c, s7) \<Rightarrow>
                        (case Input_ensure_EOS E s7 of
                           Inl e \<Rightarrow> Inl e
                         | Inr s8 \<Rightarrow> Inr (ENSURE_EOS, s8))))"
    using assms m
    by (simp add: PO_if_def parse_block_else_block_def split: sum.splits prod.splits)
  from a b c d show ?thesis
    by blast
qed

text \<open>
  \<^verbatim>\<open>1 {abc} else {def}\<close> parses the first block and skips the second;
  \<^verbatim>\<open>0 {abc}\<close> skips the block; neither reports an error.
\<close>

theorem PO_if_blocks_witness:
  "map_sum id (\<lambda>(r, s'). (r, world s', errors s'))
     (PO_if mini (start (CHR '' '') (''1 {abc} else {def}'' @ [CHAR_EOS]) :: 32 mini)) =
     Inr (ENSURE_EOS, [Parsed ''abc'', Skipped ''def''], []) \<and>
   map_sum id (\<lambda>(r, s'). (r, world s', errors s'))
     (PO_if mini (start (CHR '' '') (''0 {abc}'' @ [CHAR_EOS]) :: 32 mini)) =
     Inr (ENSURE_EOS, [Skipped ''abc''], [])"
proof -
  let ?a = "start (CHR '' '') (''1 {abc} else {def}'' @ [CHAR_EOS]) :: 32 mini"
  let ?a1 = "snd (projr (ALU_defined_int mini ?a))"
  let ?a2 = "snd (projr (skip_or_parse_block mini True ?a1))"
  let ?a3 = "projr (NEXTANDSKIPSPACE mini ?a2)"
  let ?a4 = "snd (projr (Input_read_and_lower_keyword mini ?a3))"
  let ?a5 = "projr (SKIPSPACE mini ?a4)"
  have a1: "ALU_defined_int mini ?a = Inr (1, ?a1)"
    by (simp add: mini_eval)
  have a1': "GotByte ?a1 = CHAR_SOB"
    by (simp add: mini_eval)
  have a2: "skip_or_parse_block mini ((1 :: 32 word) \<noteq> 0) ?a1 = Inr (0, ?a2)"
    by (simp add: skip_or_parse_block_def mini_eval)
  have a3: "NEXTANDSKIPSPACE mini ?a2 = Inr ?a3"
    by (simp add: mini_eval)
  have a3': "GotByte ?a3 \<noteq> CHAR_EOS"
    by (simp add: skip_or_parse_block_def mini_eval)
  have a4: "Input_read_and_lower_keyword mini ?a3 = Inr (4, ?a4)"
    by (simp add: skip_or_parse_block_def mini_eval)
  have a4': "cstring (GlobalDynaBuf ?a4) = ''else''"
    by (simp add: skip_or_parse_block_def mini_eval)
  have a5: "SKIPSPACE mini ?a4 = Inr ?a5"
    by (simp add: mini_eval)
  have a5': "GotByte ?a5 = CHAR_SOB"
    by (simp add: skip_or_parse_block_def mini_eval)
  have a6: "map_sum id (\<lambda>(r, s'). (r, world s', errors s'))
      (case skip_or_parse_block mini ((1 :: 32 word) = 0) ?a5 of
         Inl e \<Rightarrow> Inl e
       | Inr (missing2, s6) \<Rightarrow>
           (case GetByte mini s6 of
              Inl e \<Rightarrow> Inl e
            | Inr (c, s7) \<Rightarrow>
                (case Input_ensure_EOS mini s7 of
                   Inl e \<Rightarrow> Inl e
                 | Inr s8 \<Rightarrow> Inr (ENSURE_EOS, s8)))) =
      Inr (ENSURE_EOS, [Parsed ''abc'', Skipped ''def''], [])"
    by (simp add: skip_or_parse_block_def mini_eval)
  let ?b = "start (CHR '' '') (''0 {abc}'' @ [CHAR_EOS]) :: 32 mini"
  let ?b1 = "snd (projr (ALU_defined_int mini ?b))"
  let ?b2 = "snd (projr (skip_or_parse_block mini False ?b1))"
  let ?b3 = "projr (NEXTANDSKIPSPACE mini ?b2)"
  have b1: "ALU_defined_int mini ?b = Inr (0, ?b1)"
    by (simp add: mini_eval)
  have b1': "GotByte ?b1 = CHAR_SOB"
    by (simp add: mini_eval)
  have b2: "skip_or_parse_block mini ((0 :: 32 word) \<noteq> 0) ?b1 = Inr (0, ?b2)"
    by (simp add: skip_or_parse_block_def mini_eval)
  have b3: "NEXTANDSKIPSPACE mini ?b2 = Inr ?b3"
    by (simp add: mini_eval)
  have b3': "GotByte ?b3 = CHAR_EOS"
    by (simp add: skip_or_parse_block_def mini_eval)
  have b4: "world ?b3 = [Skipped ''abc''] \<and> errors ?b3 = []"
    by (simp add: skip_or_parse_block_def mini_eval)
  have "PO_if mini ?a =
      (case skip_or_parse_block mini ((1 :: 32 word) = 0) ?a5 of
         Inl e \<Rightarrow> Inl e
       | Inr (missing2, s6) \<Rightarrow>
           (case GetByte mini s6 of
              Inl e \<Rightarrow> Inl e
            | Inr (c, s7) \<Rightarrow>
                (case Input_ensure_EOS mini s7 of
                   Inl e \<Rightarrow> Inl e
                 | Inr s8 \<Rightarrow> Inr (ENSURE_EOS, s8))))"
    using PO_if_blocks [OF a1 a1' a2 a3, where n = 4 and ?s4.0 = ?a4 and ?s5.0 = ?a5]
      a3' a4 a4' a5 a5'
    by simp
  moreover have "PO_if mini ?b = Inr (ENSURE_EOS, ?b3)"
    using PO_if_blocks [OF b1 b1' b2 b3] b3'
    by simp
  ultimately show ?thesis
    using a6 b4 by simp
qed

subsection \<open>The active input after a loop or an inclusion\<close>




subsection \<open>The counting loops\<close>

text \<open>Signed counters: one step towards a bound does not overflow.\<close>

lemma sint_succ: "c <s l \<Longrightarrow> sint (c + 1 :: 'l::len word) = sint c + 1"
proof -
  assume a: "c <s l"
  have "sint c < sint l" using a by (simp add: word_sless_alt)
  moreover have "sint l < 2 ^ (LENGTH('l) - 1)" by (rule sint_lt)
  moreover have "- (2 ^ (LENGTH('l) - 1)) \<le> sint c" by (rule sint_ge)
  ultimately have r: "- (2 ^ (LENGTH('l) - 1)) \<le> sint c + 1" "sint c + 1 < 2 ^ (LENGTH('l) - 1)"
    by linarith+
  have "c + 1 = word_of_int (sint c + 1)" by simp
  then have "sint (c + 1) = sint (word_of_int (sint c + 1) :: 'l word)" by simp
  also have "\<dots> = signed_take_bit (LENGTH('l) - 1) (sint c + 1)" by (rule sint_sbintrunc')
  also have "\<dots> = sint c + 1" using r by (rule signed_take_bit_int_eq_self)
  finally show ?thesis .
qed

lemma sint_pred: "l <s c \<Longrightarrow> sint (c + (- 1) :: 'l::len word) = sint c - 1"
proof -
  assume a: "l <s c"
  have "sint l < sint c" using a by (simp add: word_sless_alt)
  moreover have "sint c < 2 ^ (LENGTH('l) - 1)" by (rule sint_lt)
  moreover have "- (2 ^ (LENGTH('l) - 1)) \<le> sint l" by (rule sint_ge)
  ultimately have r: "- (2 ^ (LENGTH('l) - 1)) \<le> sint c - 1" "sint c - 1 < 2 ^ (LENGTH('l) - 1)"
    by linarith+
  have "c + (- 1) = word_of_int (sint c - 1)" by simp
  then have "sint (c + (- 1)) = sint (word_of_int (sint c - 1) :: 'l word)" by simp
  also have "\<dots> = signed_take_bit (LENGTH('l) - 1) (sint c - 1)" by (rule sint_sbintrunc')
  also have "\<dots> = sint c - 1" using r by (rule signed_take_bit_int_eq_self)
  finally show ?thesis .
qed

lemma chain_up: "sint (c :: 'l::len word) \<le> sint l \<Longrightarrow> chain 1 l (map word_of_int [sint c..sint (l :: 'l::len word)])"
proof (induction "nat (sint l - sint c)" arbitrary: c)
  case 0
  then have "sint c = sint l" by simp
  then have "c = l" by (rule signed_word_eqI)
  then show ?case by simp
next
  case (Suc n)
  then have lt: "sint c < sint l" by simp
  then have cl: "c <s l" by (simp add: word_sless_alt)
  have s: "sint (c + 1) = sint c + 1" using cl by (rule sint_succ)
  have ne: "c \<noteq> l" using lt by auto
  have "n = nat (sint l - sint (c + 1))" using Suc.hyps(2) s by simp
  moreover have "sint (c + 1) \<le> sint l" using s lt by simp
  ultimately have ih: "chain 1 l (map word_of_int [sint (c + 1)..sint l])" by (rule Suc.hyps(1))
  have u: "[sint c..sint l] = sint c # [sint (c + 1)..sint l]" using lt s by (simp add: upto_rec1)
  have v: "[sint (c + 1)..sint l] = sint (c + 1) # [sint (c + 1) + 1..sint l]"
    using s lt by (simp add: upto_rec1 [of "sint c + 1"])
  show ?case using ih ne unfolding u by (simp add: v)
qed

lemma keeps_valueD:
  "keeps_value E \<Longrightarrow> symbol_set_value E symbol new_value change_allowed s = Inr (r, s') \<Longrightarrow>
     val_intval r = val_intval new_value"
  unfolding keeps_value_def by blast

lemma chain_down:
  "sint (l :: 'l::len word) \<le> sint (c :: 'l word) \<Longrightarrow> chain (- 1) l (rev (map word_of_int [sint l..sint c]))"
proof (induction "nat (sint c - sint l)" arbitrary: c)
  case 0
  then have "sint c = sint l" by simp
  then have "c = l" by (rule signed_word_eqI)
  then show ?case by simp
next
  case (Suc n)
  then have lt: "sint l < sint c" by simp
  then have cl: "l <s c" by (simp add: word_sless_alt)
  have s: "sint (c + (- 1)) = sint c - 1" using cl by (rule sint_pred)
  have ne: "c \<noteq> l" using lt by auto
  have "n = nat (sint (c + (- 1)) - sint l)" using Suc.hyps(2) s by simp
  moreover have "sint l \<le> sint (c + (- 1))" using s lt by simp
  ultimately have ih: "chain (- 1) l (rev (map word_of_int [sint l..sint (c + (- 1))]))"
    by (rule Suc.hyps(1))
  have u: "[sint l..sint c] = [sint l..sint (c + (- 1))] @ [sint c]"
    using lt s by (simp add: upto_rec2)
  have v: "[sint l..sint (c + (- 1))] = [sint l..sint (c + (- 1)) - 1] @ [sint (c + (- 1))]"
    using s lt by (simp add: upto_rec2 [of "sint l" "sint c - 1"])
  have w: "rev (map word_of_int [sint l..sint (c + (- 1))]) =
      (c + (- 1)) # rev (map word_of_int [sint l..sint (c + (- 1)) - 1] :: 'l word list)"
    by (subst v) (simp del: uminus_add_conv_diff add_uminus_conv_diff)
  have "rev (map word_of_int [sint l..sint c]) = c # rev (map word_of_int [sint l..sint (c + (- 1))] :: 'l word list)"
    by (subst u) simp
  then show ?case using ih ne by (simp add: w del: uminus_add_conv_diff add_uminus_conv_diff)
qed

lemma new_loop_chain:
  assumes k: "keeps_value E"
  shows "chain inc l (v # vs) \<Longrightarrow>
    (case symbol_set_value E symbol (lc\<lparr>val_intval := v\<rparr>) True s of
       Inl e \<Rightarrow> Some (Inl e)
     | Inr (lc1, s1) \<Rightarrow> PO_for_new_loop E symbol ls lb l inc lc1 s1) =
    Some (case counting E symbol ls lb (v # vs) lc s of
            Inl e \<Rightarrow> Inl e
          | Inr (lc', s') \<Rightarrow>
              (case symbol_set_value E symbol (lc'\<lparr>val_intval := l + inc\<rparr>) True s' of
                 Inl e \<Rightarrow> Inl e
               | Inr (lc'', s'') \<Rightarrow> Inr s''))"
proof (induction vs arbitrary: v lc s)
  case Nil
  then have vl: "v = l" by simp
  show ?case
  proof (cases "symbol_set_value E symbol (lc\<lparr>val_intval := v\<rparr>) True s")
    case (Inl e)
    then show ?thesis by simp
  next
    case (Inr p)
    obtain lc1 s1 where p: "p = (lc1, s1)" by (cases p)
    from keeps_valueD [OF k Inr [unfolded p]] have v1: "val_intval lc1 = l" by (simp add: vl)
    show ?thesis
    proof (cases "parse_ram_block E ls lb s1")
      case (Inl e)
      with Inr p show ?thesis by (simp add: PO_for_new_loop.simps [of E symbol ls lb l inc lc1 s1])
    next
      case b: (Inr s2)
      show ?thesis
      proof (cases "symbol_set_value E symbol (lc1\<lparr>val_intval := l + inc\<rparr>) True s2")
        case (Inl e)
        with Inr p b v1 show ?thesis
          by (simp add: PO_for_new_loop.simps [of E symbol ls lb l inc lc1 s1])
      next
        case c: (Inr q)
        obtain lc2 s3 where q: "q = (lc2, s3)" by (cases q)
        from keeps_valueD [OF k c [unfolded q]] have "val_intval lc2 = l + inc" by simp
        with Inr p b v1 c q show ?thesis
          by (simp add: PO_for_new_loop.simps [of E symbol ls lb l inc lc1 s1])
      qed
    qed
  qed
next
  case (Cons w ws)
  from Cons.prems [unfolded chain.simps]
  have ne: "v \<noteq> l" and w: "w = v + inc" and ch: "chain inc l (w # ws)"
    by blast+
  note ih = Cons.IH [OF ch]
  show ?case
  proof (cases "symbol_set_value E symbol (lc\<lparr>val_intval := v\<rparr>) True s")
    case (Inl e)
    then show ?thesis by simp
  next
    case (Inr p)
    obtain lc1 s1 where p: "p = (lc1, s1)" by (cases p)
    from keeps_valueD [OF k Inr [unfolded p]] have v1: "val_intval lc1 = v" by simp
    show ?thesis
    proof (cases "parse_ram_block E ls lb s1")
      case (Inl e)
      with Inr p show ?thesis by (simp add: PO_for_new_loop.simps [of E symbol ls lb l inc lc1 s1])
    next
      case b: (Inr s2)
      have "PO_for_new_loop E symbol ls lb l inc lc1 s1 =
          (case symbol_set_value E symbol (lc1\<lparr>val_intval := w\<rparr>) True s2 of
             Inl e \<Rightarrow> Some (Inl e)
           | Inr (lc2, s3) \<Rightarrow> PO_for_new_loop E symbol ls lb l inc lc2 s3)"
      proof (cases "symbol_set_value E symbol (lc1\<lparr>val_intval := w\<rparr>) True s2")
        case (Inl e)
        with b v1 w show ?thesis
          by (simp add: PO_for_new_loop.simps [of E symbol ls lb l inc lc1 s1])
      next
        case c: (Inr q)
        obtain lc2 s3 where q: "q = (lc2, s3)" by (cases q)
        from keeps_valueD [OF k c [unfolded q]] have "val_intval lc2 = v + inc" by (simp add: w)
        with ne have "val_intval lc2 \<noteq> l + inc" by simp
        with b v1 w c q show ?thesis
          by (simp add: PO_for_new_loop.simps [of E symbol ls lb l inc lc1 s1])
      qed
      also note ih [of lc1 s2]
      finally show ?thesis using Inr p b by simp
    qed
  qed
qed

lemma old_loop_counting:
  assumes k: "keeps_value E"
  shows "val_intval lc = c \<Longrightarrow> c <s l \<Longrightarrow>
    PO_for_old_loop E symbol ls lb l 1 lc s =
      Some (map_sum id snd
        (counting E symbol ls lb (map word_of_int [sint c + 1..sint l]) lc s))"
proof (induction "nat (sint l - sint c)" arbitrary: c lc s)
  case 0
  then show ?case by (simp add: word_sless_alt)
next
  case (Suc n)
  from Suc.prems have lt: "sint c < sint l" by (simp add: word_sless_alt)
  have sc: "sint (c + 1) = sint c + 1" using Suc.prems(2) by (rule sint_succ)
  have u: "[sint c + 1..sint l] = (sint c + 1) # [sint (c + 1) + 1..sint l]"
    using lt sc by (simp add: upto_rec1 [of "sint c + 1"])
  have wc: "(word_of_int (sint c + 1) :: 'a word) = c + 1" by simp
  have cnt: "counting E symbol ls lb (map word_of_int [sint c + 1..sint l]) lc s =
      (case symbol_set_value E symbol (lc\<lparr>val_intval := c + 1\<rparr>) True s of
         Inl e \<Rightarrow> Inl e
       | Inr (lc1, s1) \<Rightarrow>
           (case parse_ram_block E ls lb s1 of
              Inl e \<Rightarrow> Inl e
            | Inr s2 \<Rightarrow>
                counting E symbol ls lb (map word_of_int [sint (c + 1) + 1..sint l]) lc1 s2))"
    by (subst u) (simp only: list.map counting.simps wc)
  show ?case
  proof (cases "symbol_set_value E symbol (lc\<lparr>val_intval := c + 1\<rparr>) True s")
    case (Inl e)
    with Suc.prems(1) cnt show ?thesis
      by (simp add: PO_for_old_loop.simps [of E symbol ls lb l 1 lc s])
  next
    case (Inr p)
    obtain lc1 s1 where p: "p = (lc1, s1)" by (cases p)
    from keeps_valueD [OF k Inr [unfolded p]] have v1: "val_intval lc1 = c + 1" by simp
    show ?thesis
    proof (cases "parse_ram_block E ls lb s1")
      case (Inl e)
      with Inr p Suc.prems(1) cnt show ?thesis
        by (simp add: PO_for_old_loop.simps [of E symbol ls lb l 1 lc s])
    next
      case b: (Inr s2)
      show ?thesis
      proof (cases "c + 1 <s l")
        case True
        have "n = nat (sint l - sint (c + 1))" using Suc.hyps(2) sc by simp
        from Suc.hyps(1) [OF this v1 True, of s2] Inr p b Suc.prems(1) cnt v1 True show ?thesis
          by (simp add: PO_for_old_loop.simps [of E symbol ls lb l 1 lc s])
      next
        case False
        then have "sint l \<le> sint c + 1" using sc by (simp add: word_sless_alt)
        then have e: "[sint (c + 1) + 1..sint l] = []" using sc by simp
        from Inr p b Suc.prems(1) cnt v1 False show ?thesis
          by (simp add: PO_for_old_loop.simps [of E symbol ls lb l 1 lc s] e)
      qed
    qed
  qed
qed

lemma sint_of_int_range:
  "sint (a :: 'l::len word) \<le> x \<Longrightarrow> x \<le> sint (b :: 'l word) \<Longrightarrow> sint (word_of_int x :: 'l word) = x"
proof -
  assume a: "sint a \<le> x" and b: "x \<le> sint b"
  have "- (2 ^ (LENGTH('l) - 1)) \<le> sint a" by (rule sint_ge)
  with a have l: "- (2 ^ (LENGTH('l) - 1)) \<le> x" by linarith
  have "sint b < 2 ^ (LENGTH('l) - 1)" by (rule sint_lt)
  with b have u: "x < 2 ^ (LENGTH('l) - 1)" by linarith
  have "sint (word_of_int x :: 'l word) = signed_take_bit (LENGTH('l) - 1) x" by (rule sint_sbintrunc')
  also have "\<dots> = x" using l u by (rule signed_take_bit_int_eq_self)
  finally show ?thesis .
qed

lemma map_sint_upto:
  "map (sint \<circ> (word_of_int :: int \<Rightarrow> 'l word)) [sint a..sint b] =
     [sint (a :: 'l::len word)..sint (b :: 'l word)]"
proof -
  have "map (\<lambda>x. sint (word_of_int x :: 'l word)) [sint a..sint b] = map (\<lambda>x. x) [sint a..sint b]"
    by (rule map_cong) (auto intro: sint_of_int_range)
  then show ?thesis by (simp add: comp_def)
qed

lemma counter_values_sint:
  "map sint (counter_values first l) =
     (if l <s first then rev [sint l..sint first] else [sint (first :: 'l::len word)..sint l])"
  by (simp add: counter_values_def map_sint_upto rev_map [symmetric])

lemma counter_values_length:
  "int (length (counter_values first (l :: 'l::len word))) = \<bar>sint l - sint first\<bar> + 1"
  by (simp add: counter_values_def word_sless_alt)

lemma counter_values_chain:
  "chain (if l <s first then - 1 else 1) l (counter_values first (l :: 'l::len word))"
  by (simp add: counter_values_def word_sless_alt chain_up chain_down)

lemma counter_values_first:
  "\<exists>vs. counter_values first (l :: 'l::len word) = first # vs"
proof (cases "l <s first")
  case True
  then have "sint l \<le> sint first" by (simp add: word_sless_alt)
  then have "[sint l..sint first] = [sint l..sint first - 1] @ [sint first]"
    by (simp add: upto_rec2)
  then have "rev (map word_of_int [sint l..sint first]) =
      first # rev (map word_of_int [sint l..sint first - 1] :: 'l word list)"
    by simp
  with True show ?thesis by (simp add: counter_values_def)
next
  case False
  then have "sint first \<le> sint l" by (simp add: word_sless_alt)
  then have "[sint first..sint l] = sint first # [sint first + 1..sint l]"
    by (simp add: upto_rec1)
  then have "map word_of_int [sint first..sint l] =
      first # (map word_of_int [sint first + 1..sint l] :: 'l word list)"
    by simp
  with False show ?thesis by (simp add: counter_values_def)
qed

lemma old_counter_values_sint:
  "\<not> l <s 0 \<Longrightarrow> map sint (old_counter_values l) = [1..sint (l :: 'l::len word)]"
proof -
  assume "\<not> l <s 0"
  then have n: "0 \<le> sint l" by (simp add: word_sless_alt)
  have "map (\<lambda>x. sint (word_of_int x :: 'l word)) [1..sint l] = map (\<lambda>x. x) [1..sint l]"
  proof (rule map_cong)
    fix x assume "x \<in> set [1..sint l]"
    then have "sint (0 :: 'l word) \<le> x" and "x \<le> sint l" by simp_all
    then show "sint (word_of_int x :: 'l word) = x" by (rule sint_of_int_range)
  qed simp
  then show ?thesis by (simp add: old_counter_values_def comp_def)
qed

lemma old_counter_values_length:
  "\<not> l <s 0 \<Longrightarrow> int (length (old_counter_values (l :: 'l::len word))) = sint l"
  by (simp add: old_counter_values_def word_sless_alt)

lemma keeps_value_mini: "keeps_value mini"
  by (simp add: keeps_value_def mini_def mini_symbol_set_value_def)

lemma stores_value_mini: "stores_value mini"
  by (simp add: stores_value_def mini_def mini_symbol_set_value_def record_event_def)

lemma keeps_symbols_mini: "keeps_symbols mini"
  by (simp add: keeps_symbols_def mini_def mini_GetByte_def mini_next_def mini_rest_def
      set_ram_ptr_def split: list.splits)

text \<open>
  C9. \<^verbatim>\<open>PO_for\<close> takes 0 as the first counter value in the old syntax and the first
  argument in the new one. Once the statement is read, the first thing it does with the
  local input active is to write that value to the symbol, with the flags defined and
  existing and with change allowed; the loop of either syntax starts from what that call
  returns. In the old syntax with END = 0 nothing follows but the way back: the previous
  input is made active and the next byte is fetched, so the write of 0 is the only one and
  the block is not parsed; with a \<open>symbol_set_value\<close> that stores what it is given and a
  \<open>GetByte\<close> that leaves the symbols alone, the symbol then has the value 0 and the
  flags defined and existing.
\<close>

theorem PO_for_first_write:
  \<open>(PO_for_counter E s = Inr ((old_algo, counter_first, counter_last, counter_increment), s5) \<longrightarrow>
      (\<exists>first_arg s1. ALU_defined_int E s = Inr (first_arg, s1) \<and>
         counter_first = (if old_algo then 0 else first_arg))) \<and>
   PO_for_run E symbol old_algo counter_first counter_last counter_increment loop_start loop_body s' =
     (case symbol_set_value E symbol
             \<lparr>flags = MVALUE_DEFINED E OR MVALUE_EXISTS E, val_intval = counter_first\<rparr> True
             (activate_loop_input E s') of
        Inl e \<Rightarrow> Some (Inl e)
      | Inr (loop_counter, s3) \<Rightarrow>
          PO_for_iterate E symbol old_algo counter_last counter_increment loop_start loop_body
            (Input_now s') loop_counter s3) \<and>
   PO_for_iterate E symbol True 0 counter_increment loop_start loop_body outer_input loop_counter s3 =
     (case GetByte E (s3\<lparr>Input_now := outer_input\<rparr>) of
        Inl e \<Rightarrow> Some (Inl e)
      | Inr (c, s4) \<Rightarrow> Some (Inr (ENSURE_EOS, s4))) \<and>
   (Input_read_zone_and_keyword E s0 = Inr ((n, zone), z1) \<and> n \<noteq> 0 \<and>
    Input_get_force_bit E z1 = Inr (force_bit, z2) \<and>
    symbol_find E zone force_bit z2 = Inr (symbol, z3) \<and>
    Input_accept_comma E z3 = Inr (comma1, z4) \<and> comma1 \<noteq> 0 \<and>
    ALU_defined_int E z4 = Inr (first_arg, z5) \<and>
    Input_accept_comma E z5 = Inr (comma2, z6) \<longrightarrow>
      (comma2 \<noteq> 0 \<and>
       (if \<not> warn_on_old_for z6 then Throw_first_pass_warning E ''Found new "!for" syntax.'' z6
        else Inr z6) = Inr z7 \<and>
       ALU_defined_int E z7 = Inr (last_arg, z8) \<and>
       GotByte z8 = CHAR_SOB \<and>
       Input_skip_or_store_block E True z8 = Inr (blk, z9) \<longrightarrow>
         PO_for E s0 =
           (case symbol_set_value E symbol
                   \<lparr>flags = MVALUE_DEFINED E OR MVALUE_EXISTS E, val_intval = first_arg\<rparr> True
                   (activate_loop_input E z9) of
              Inl e \<Rightarrow> Some (Inl e)
            | Inr (lc, t) \<Rightarrow>
                PO_for_iterate E symbol False last_arg
                  (if last_arg <s first_arg then - 1 else 1)
                  (line_number (inputs z8 (Input_now z8))) blk (Input_now z9) lc t)) \<and>
      (comma2 = 0 \<and>
       (if warn_on_old_for z6 then Throw_first_pass_warning E ''Found old "!for" syntax.'' z6
        else Inr z6) = Inr y7 \<and>
       \<not> first_arg <s 0 \<and>
       GotByte y7 = CHAR_SOB \<and>
       Input_skip_or_store_block E True y7 = Inr (blk, y8) \<longrightarrow>
         PO_for E s0 =
           (case symbol_set_value E symbol
                   \<lparr>flags = MVALUE_DEFINED E OR MVALUE_EXISTS E, val_intval = 0\<rparr> True
                   (activate_loop_input E y8) of
              Inl e \<Rightarrow> Some (Inl e)
            | Inr (lc, t) \<Rightarrow>
                PO_for_iterate E symbol True first_arg 1
                  (line_number (inputs y7 (Input_now y7))) blk (Input_now y8) lc t) \<and>
         (first_arg = 0 \<and>
          symbol_set_value E symbol
            \<lparr>flags = MVALUE_DEFINED E OR MVALUE_EXISTS E, val_intval = 0\<rparr> True
            (activate_loop_input E y8) = Inr (lc, t) \<and>
          GetByte E (t\<lparr>Input_now := Input_now y8\<rparr>) = Inr (c, t') \<longrightarrow>
            PO_for E s0 = Some (Inr (ENSURE_EOS, t')) \<and>
            (stores_value E \<and> keeps_symbols E \<longrightarrow>
               val_intval (result (symbols t' symbol)) = 0 \<and>
               flags (result (symbols t' symbol)) AND (MVALUE_DEFINED E OR MVALUE_EXISTS E) =
                 MVALUE_DEFINED E OR MVALUE_EXISTS E))))\<close>
proof -
  have a: "\<exists>first_arg s1. ALU_defined_int E s = Inr (first_arg, s1) \<and>
         counter_first = (if old_algo then 0 else first_arg)"
    if h: "PO_for_counter E s = Inr ((old_algo, counter_first, counter_last, counter_increment), s5)"
  proof (cases "ALU_defined_int E s")
    case (Inl e)
    with h show ?thesis by (simp add: PO_for_counter_def)
  next
    case (Inr p)
    obtain first_arg s1 where p: "p = (first_arg, s1)" by (cases p)
    from h Inr p have "counter_first = (if old_algo then 0 else first_arg)"
      by (auto simp: PO_for_counter_def split: sum.splits prod.splits if_splits)
    with Inr p show ?thesis by simp
  qed
  have b: "PO_for_run E symbol old_algo counter_first counter_last counter_increment
      loop_start loop_body s' =
     (case symbol_set_value E symbol
             \<lparr>flags = MVALUE_DEFINED E OR MVALUE_EXISTS E, val_intval = counter_first\<rparr> True
             (activate_loop_input E s') of
        Inl e \<Rightarrow> Some (Inl e)
      | Inr (loop_counter, s3) \<Rightarrow>
          PO_for_iterate E symbol old_algo counter_last counter_increment loop_start loop_body
            (Input_now s') loop_counter s3)"
    by (simp add: PO_for_run_def)
  have c: "PO_for_iterate E symbol True 0 counter_increment loop_start loop_body outer_input
      loop_counter s3 =
     (case GetByte E (s3\<lparr>Input_now := outer_input\<rparr>) of
        Inl e \<Rightarrow> Some (Inl e)
      | Inr (c, s4) \<Rightarrow> Some (Inr (ENSURE_EOS, s4)))"
    by (simp add: PO_for_iterate_def)
  let ?D = "MVALUE_DEFINED E OR MVALUE_EXISTS E"
  have d: \<open>(comma2 \<noteq> 0 \<and>
       (if \<not> warn_on_old_for z6 then Throw_first_pass_warning E ''Found new "!for" syntax.'' z6
        else Inr z6) = Inr z7 \<and>
       ALU_defined_int E z7 = Inr (last_arg, z8) \<and>
       GotByte z8 = CHAR_SOB \<and>
       Input_skip_or_store_block E True z8 = Inr (blk, z9) \<longrightarrow>
         PO_for E s0 =
           (case symbol_set_value E symbol \<lparr>flags = ?D, val_intval = first_arg\<rparr> True
                   (activate_loop_input E z9) of
              Inl e \<Rightarrow> Some (Inl e)
            | Inr (lc, t) \<Rightarrow>
                PO_for_iterate E symbol False last_arg
                  (if last_arg <s first_arg then - 1 else 1)
                  (line_number (inputs z8 (Input_now z8))) blk (Input_now z9) lc t)) \<and>
      (comma2 = 0 \<and>
       (if warn_on_old_for z6 then Throw_first_pass_warning E ''Found old "!for" syntax.'' z6
        else Inr z6) = Inr y7 \<and>
       \<not> first_arg <s 0 \<and>
       GotByte y7 = CHAR_SOB \<and>
       Input_skip_or_store_block E True y7 = Inr (blk, y8) \<longrightarrow>
         PO_for E s0 =
           (case symbol_set_value E symbol \<lparr>flags = ?D, val_intval = 0\<rparr> True
                   (activate_loop_input E y8) of
              Inl e \<Rightarrow> Some (Inl e)
            | Inr (lc, t) \<Rightarrow>
                PO_for_iterate E symbol True first_arg 1
                  (line_number (inputs y7 (Input_now y7))) blk (Input_now y8) lc t) \<and>
         (first_arg = 0 \<and>
          symbol_set_value E symbol \<lparr>flags = ?D, val_intval = 0\<rparr> True
            (activate_loop_input E y8) = Inr (lc, t) \<and>
          GetByte E (t\<lparr>Input_now := Input_now y8\<rparr>) = Inr (c, t') \<longrightarrow>
            PO_for E s0 = Some (Inr (ENSURE_EOS, t')) \<and>
            (stores_value E \<and> keeps_symbols E \<longrightarrow>
               val_intval (result (symbols t' symbol)) = 0 \<and>
               flags (result (symbols t' symbol)) AND ?D = ?D)))\<close>
    if h: "Input_read_zone_and_keyword E s0 = Inr ((n, zone), z1) \<and> n \<noteq> 0 \<and>
      Input_get_force_bit E z1 = Inr (force_bit, z2) \<and>
      symbol_find E zone force_bit z2 = Inr (symbol, z3) \<and>
      Input_accept_comma E z3 = Inr (comma1, z4) \<and> comma1 \<noteq> 0 \<and>
      ALU_defined_int E z4 = Inr (first_arg, z5) \<and>
      Input_accept_comma E z5 = Inr (comma2, z6)"
  proof -
    from h PO_for_symbol_read [of E s0 n zone z1 force_bit z2 symbol z3 comma1 z4]
    have sy: "PO_for_symbol E s0 = Inr (Inr symbol, z4)"
      by simp
    from h have fa: "ALU_defined_int E z4 = Inr (first_arg, z5)"
      and co: "Input_accept_comma E z5 = Inr (comma2, z6)"
      by simp_all
    have new: \<open>PO_for E s0 =
           (case symbol_set_value E symbol \<lparr>flags = ?D, val_intval = first_arg\<rparr> True
                   (activate_loop_input E z9) of
              Inl e \<Rightarrow> Some (Inl e)
            | Inr (lc, t) \<Rightarrow>
                PO_for_iterate E symbol False last_arg
                  (if last_arg <s first_arg then - 1 else 1)
                  (line_number (inputs z8 (Input_now z8))) blk (Input_now z9) lc t)\<close>
      if g: \<open>comma2 \<noteq> 0 \<and>
       (if \<not> warn_on_old_for z6 then Throw_first_pass_warning E ''Found new "!for" syntax.'' z6
        else Inr z6) = Inr z7 \<and>
       ALU_defined_int E z7 = Inr (last_arg, z8) \<and>
       GotByte z8 = CHAR_SOB \<and>
       Input_skip_or_store_block E True z8 = Inr (blk, z9)\<close>
    proof -
      from g PO_for_header_new [OF sy fa co, of z7 last_arg z8 blk z9]
      have "PO_for_header E s0 =
          Inr (Inr (symbol, False, first_arg, last_arg,
                    if last_arg <s first_arg then - 1 else 1,
                    line_number (inputs z8 (Input_now z8)), blk), z9)"
        by simp
      then show ?thesis
        by (simp add: PO_for_def PO_for_run_def)
    qed
    have old: \<open>PO_for E s0 =
           (case symbol_set_value E symbol \<lparr>flags = ?D, val_intval = 0\<rparr> True
                   (activate_loop_input E y8) of
              Inl e \<Rightarrow> Some (Inl e)
            | Inr (lc, t) \<Rightarrow>
                PO_for_iterate E symbol True first_arg 1
                  (line_number (inputs y7 (Input_now y7))) blk (Input_now y8) lc t)\<close>
      if g: \<open>comma2 = 0 \<and>
       (if warn_on_old_for z6 then Throw_first_pass_warning E ''Found old "!for" syntax.'' z6
        else Inr z6) = Inr y7 \<and>
       \<not> first_arg <s 0 \<and>
       GotByte y7 = CHAR_SOB \<and>
       Input_skip_or_store_block E True y7 = Inr (blk, y8)\<close>
    proof -
      from g co have co0: "Input_accept_comma E z5 = Inr (0, z6)"
        by simp
      from g PO_for_header_old [OF sy fa co0, of y7 blk y8]
      have "PO_for_header E s0 =
          Inr (Inr (symbol, True, 0, first_arg, 1,
                    line_number (inputs y7 (Input_now y7)), blk), y8)"
        by simp
      then show ?thesis
        by (simp add: PO_for_def PO_for_run_def)
    qed
    have zero: "PO_for E s0 = Some (Inr (ENSURE_EOS, t')) \<and>
            (stores_value E \<and> keeps_symbols E \<longrightarrow>
               val_intval (result (symbols t' symbol)) = 0 \<and>
               flags (result (symbols t' symbol)) AND ?D = ?D)"
      if o: \<open>PO_for E s0 =
           (case symbol_set_value E symbol \<lparr>flags = ?D, val_intval = 0\<rparr> True
                   (activate_loop_input E y8) of
              Inl e \<Rightarrow> Some (Inl e)
            | Inr (lc, t) \<Rightarrow>
                PO_for_iterate E symbol True first_arg 1
                  (line_number (inputs y7 (Input_now y7))) blk (Input_now y8) lc t)\<close>
        and g: "first_arg = 0 \<and>
          symbol_set_value E symbol \<lparr>flags = ?D, val_intval = 0\<rparr> True
            (activate_loop_input E y8) = Inr (lc, t) \<and>
          GetByte E (t\<lparr>Input_now := Input_now y8\<rparr>) = Inr (c, t')"
    proof -
      from o g have 1: "PO_for E s0 = Some (Inr (ENSURE_EOS, t'))"
        by (simp add: PO_for_iterate_def)
      have 2: "val_intval (result (symbols t' symbol)) = 0 \<and>
          flags (result (symbols t' symbol)) AND ?D = ?D"
        if k: "stores_value E \<and> keeps_symbols E"
      proof -
        from k g have "val_intval (result (symbols t symbol)) = 0 \<and>
            flags (result (symbols t symbol)) AND ?D = ?D AND ?D"
          unfolding stores_value_def by fastforce
        moreover from k g have "symbols t' = symbols (t\<lparr>Input_now := Input_now y8\<rparr>)"
          unfolding keeps_symbols_def by blast
        ultimately show ?thesis
          by simp
      qed
      from 1 2 show ?thesis
        by blast
    qed
    from new old zero show ?thesis
      by blast
  qed
  from a b c d show ?thesis
    by blast
qed

text \<open>
  \<^verbatim>\<open>v, 0 {abc}\<close>: the arguments give the first counter value 0; the run writes 0 to
  the symbol \<open>v\<close> (number 118) once, parses nothing, and leaves the symbol with the
  flags 16 + 256 and the value 0. So does \<^verbatim>\<open>PO_for\<close> on the text of the statement,
  after the warning about the old syntax. On \<^verbatim>\<open>v, 2, 3 {abc}\<close> the first thing
  written is 2.
\<close>

theorem PO_for_first_write_witness:
  \<open>map_sum id fst (PO_for_counter mini (start (CHR '' '') (''0 {'') :: 32 mini)) =
     Inr (True, 0, 0, 1) \<and>
   map_option (map_sum id (\<lambda>(r, s'). (r, world s', result (symbols s' 118))))
     (PO_for_run mini 118 True 0 0 1 7 (Some (''abc'' @ [CHAR_EOB, CHAR_EOS, CHAR_EOF]))
        (start (CHR ''}'') [CHAR_EOS] :: 32 mini)) =
     Some (Inr (ENSURE_EOS, [Set_value 118 0], \<lparr>flags = 272, val_intval = 0\<rparr>)) \<and>
   map_option (map_sum id (\<lambda>(r, s'). (r, world s', val_intval (result (symbols s' 118)),
       flags (result (symbols s' 118)) AND 272)))
     (PO_for mini (start (CHR '' '') (''v, 0 {abc}'' @ [CHAR_EOS]) :: 32 mini)) =
     Some (Inr (ENSURE_EOS, [Warned ''Found old "!for" syntax.'', Set_value 118 0], 0, 272)) \<and>
   map_option (map_sum id (\<lambda>(r, s'). (r, take 1 (world s'))))
     (PO_for mini (start (CHR '' '') (''v, 2, 3 {abc}'' @ [CHAR_EOS]) :: 32 mini)) =
     Some (Inr (ENSURE_EOS, [Set_value 118 2]))\<close>
proof -
  let ?m = "mini :: (32, event list) collab"
  let ?s = "start (CHR '' '') (''0 {'') :: 32 mini"
  let ?blk = "Some (''abc'' @ [CHAR_EOB, CHAR_EOS, CHAR_EOF])"
  let ?t = "start (CHR ''}'') [CHAR_EOS] :: 32 mini"
  have "\<exists>s5. PO_for_counter mini ?s = Inr ((True, 0, 0, 1), s5)"
    by (simp add: PO_for_counter_def mini_eval)
  then obtain s5 where h: "PO_for_counter mini ?s = Inr ((True, 0, 0, 1), s5)"
    by blast
  note w = PO_for_first_write [where E = mini and s = ?s and old_algo = True
      and counter_first = 0 and counter_last = 0 and counter_increment = 1 and ?s5.0 = s5
      and symbol = 118 and loop_start = 7 and loop_body = ?blk and s' = ?t]
  from w [THEN conjunct1] h
  have "\<exists>first_arg s1. ALU_defined_int mini ?s = Inr (first_arg, s1) \<and>
      (0 :: 32 word) = (if True then 0 else first_arg)"
    by blast
  with h have 1: "map_sum id fst (PO_for_counter mini ?s) = Inr (True, 0, 0, 1)"
    by simp
  have 2: "map_option (map_sum id (\<lambda>(r, s'). (r, world s', result (symbols s' 118))))
      (PO_for_run mini 118 True 0 0 1 7 ?blk ?t) =
      Some (Inr (ENSURE_EOS, [Set_value 118 0], \<lparr>flags = 272, val_intval = 0\<rparr>))"
    by (simp add: PO_for_first_write [THEN conjunct2, THEN conjunct1]
        PO_for_first_write [THEN conjunct2, THEN conjunct2, THEN conjunct1] mini_eval)
  let ?x = "start (CHR '' '') (''v, 0 {abc}'' @ [CHAR_EOS]) :: 32 mini"
  let ?x1 = "snd (projr (Input_read_zone_and_keyword ?m ?x))"
  let ?x2 = "snd (projr (Input_get_force_bit ?m ?x1))"
  let ?x3 = "snd (projr (symbol_find ?m 0 0 ?x2))"
  let ?x4 = "snd (projr (Input_accept_comma ?m ?x3))"
  let ?x5 = "snd (projr (ALU_defined_int ?m ?x4))"
  let ?x6 = "snd (projr (Input_accept_comma ?m ?x5))"
  let ?x7 = "record_event (Warned ''Found old \"!for\" syntax.'') ?x6"
  let ?x8 = "snd (projr (Input_skip_or_store_block ?m True ?x7))"
  let ?xw = "projr (symbol_set_value ?m 118 \<lparr>flags = 272, val_intval = 0\<rparr> True
      (activate_loop_input ?m ?x8))"
  let ?xg = "snd (projr (GetByte ?m ((snd ?xw)\<lparr>Input_now := Input_now ?x8\<rparr>)))"
  have xh: "Input_read_zone_and_keyword ?m ?x = Inr ((1, 0), ?x1) \<and> (1 :: int) \<noteq> 0 \<and>
      Input_get_force_bit ?m ?x1 = Inr (0, ?x2) \<and>
      symbol_find ?m 0 0 ?x2 = Inr (118, ?x3) \<and>
      Input_accept_comma ?m ?x3 = Inr (1, ?x4) \<and> (1 :: int) \<noteq> 0 \<and>
      ALU_defined_int ?m ?x4 = Inr (0, ?x5) \<and>
      Input_accept_comma ?m ?x5 = Inr (0, ?x6)"
    by (simp add: mini_eval)
  have xo: \<open>(0 :: int) = 0 \<and>
      (if warn_on_old_for ?x6 then Throw_first_pass_warning ?m ''Found old "!for" syntax.'' ?x6
       else Inr ?x6) = Inr ?x7 \<and>
      \<not> (0 :: 32 word) <s 0 \<and>
      GotByte ?x7 = CHAR_SOB \<and>
      Input_skip_or_store_block ?m True ?x7 = Inr (Some (''abc'' @ [CHAR_EOB, CHAR_EOS, CHAR_EOF]), ?x8)\<close>
    by (simp add: mini_eval)
  have xz: "(0 :: 32 word) = 0 \<and>
      symbol_set_value ?m 118 \<lparr>flags = MVALUE_DEFINED ?m OR MVALUE_EXISTS ?m, val_intval = 0\<rparr> True
        (activate_loop_input ?m ?x8) = Inr (fst ?xw, snd ?xw) \<and>
      GetByte ?m ((snd ?xw)\<lparr>Input_now := Input_now ?x8\<rparr>) = Inr (CHAR_EOS, ?xg)"
    by (simp add: mini_eval)
  have k: "stores_value ?m \<and> keeps_symbols ?m"
    by (simp add: stores_value_mini keeps_symbols_mini)
  have fl: "MVALUE_DEFINED ?m OR MVALUE_EXISTS ?m = 272"
    by (simp add: mini_def)
  note z = PO_for_first_write [where E = ?m and ?s0.0 = ?x and n = 1 and zone = 0 and ?z1.0 = ?x1
      and force_bit = 0 and ?z2.0 = ?x2 and symbol = 118 and ?z3.0 = ?x3 and ?comma1.0 = 1
      and ?z4.0 = ?x4 and first_arg = 0 and ?z5.0 = ?x5 and ?comma2.0 = 0 and ?z6.0 = ?x6
      and ?y7.0 = ?x7 and blk = ?blk and ?y8.0 = ?x8 and lc = "fst ?xw" and t = "snd ?xw"
      and c = CHAR_EOS and t' = ?xg,
      THEN conjunct2, THEN conjunct2, THEN conjunct2, THEN mp, OF xh, THEN conjunct2,
      THEN mp, OF xo, THEN conjunct2, THEN mp, OF xz]
  from z [THEN conjunct1] have x1: "PO_for ?m ?x = Some (Inr (ENSURE_EOS, ?xg))" .
  from z [THEN conjunct2, THEN mp, OF k]
  have x2: "val_intval (result (symbols ?xg 118)) = 0 \<and>
      flags (result (symbols ?xg 118)) AND 272 = 272"
    unfolding fl .
  have x3: "world ?xg = [Warned ''Found old \"!for\" syntax.'', Set_value 118 0]"
    by (simp add: mini_eval)
  from x1 x2 x3
  have 3: \<open>map_option (map_sum id (\<lambda>(r, s'). (r, world s', val_intval (result (symbols s' 118)),
       flags (result (symbols s' 118)) AND 272))) (PO_for ?m ?x) =
     Some (Inr (ENSURE_EOS, [Warned ''Found old "!for" syntax.'', Set_value 118 0], 0, 272))\<close>
    by simp
  let ?y = "start (CHR '' '') (''v, 2, 3 {abc}'' @ [CHAR_EOS]) :: 32 mini"
  let ?y1 = "snd (projr (Input_read_zone_and_keyword ?m ?y))"
  let ?y2 = "snd (projr (Input_get_force_bit ?m ?y1))"
  let ?y3 = "snd (projr (symbol_find ?m 0 0 ?y2))"
  let ?y4 = "snd (projr (Input_accept_comma ?m ?y3))"
  let ?y5 = "snd (projr (ALU_defined_int ?m ?y4))"
  let ?y6 = "snd (projr (Input_accept_comma ?m ?y5))"
  let ?y8 = "snd (projr (ALU_defined_int ?m ?y6))"
  let ?y9 = "snd (projr (Input_skip_or_store_block ?m True ?y8))"
  have yh: "Input_read_zone_and_keyword ?m ?y = Inr ((1, 0), ?y1) \<and> (1 :: int) \<noteq> 0 \<and>
      Input_get_force_bit ?m ?y1 = Inr (0, ?y2) \<and>
      symbol_find ?m 0 0 ?y2 = Inr (118, ?y3) \<and>
      Input_accept_comma ?m ?y3 = Inr (1, ?y4) \<and> (1 :: int) \<noteq> 0 \<and>
      ALU_defined_int ?m ?y4 = Inr (2, ?y5) \<and>
      Input_accept_comma ?m ?y5 = Inr (1, ?y6)"
    by (simp add: mini_eval)
  have yn: \<open>(1 :: int) \<noteq> 0 \<and>
      (if \<not> warn_on_old_for ?y6 then Throw_first_pass_warning ?m ''Found new "!for" syntax.'' ?y6
       else Inr ?y6) = Inr ?y6 \<and>
      ALU_defined_int ?m ?y6 = Inr (3, ?y8) \<and>
      GotByte ?y8 = CHAR_SOB \<and>
      Input_skip_or_store_block ?m True ?y8 = Inr (?blk, ?y9)\<close>
    by (simp add: mini_eval)
  note y = PO_for_first_write [where E = ?m and ?s0.0 = ?y and n = 1 and zone = 0 and ?z1.0 = ?y1
      and force_bit = 0 and ?z2.0 = ?y2 and symbol = 118 and ?z3.0 = ?y3 and ?comma1.0 = 1
      and ?z4.0 = ?y4 and first_arg = 2 and ?z5.0 = ?y5 and ?comma2.0 = 1 and ?z6.0 = ?y6
      and ?z7.0 = ?y6 and last_arg = 3 and ?z8.0 = ?y8 and blk = ?blk and ?z9.0 = ?y9,
      THEN conjunct2, THEN conjunct2, THEN conjunct2, THEN mp, OF yh, THEN conjunct1,
      THEN mp, OF yn]
  have 4: "map_option (map_sum id (\<lambda>(r, s'). (r, take 1 (world s')))) (PO_for ?m ?y) =
      Some (Inr (ENSURE_EOS, [Set_value 118 2]))"
    unfolding y
    by (simp add: PO_for_iterate_def PO_for_new_loop.simps parse_ram_block_def Let_def mini_eval)
  from 1 2 3 4 show ?thesis
    by (intro conjI)
qed

lemma PO_for_run_old:
  assumes k: "keeps_value E" and n: "\<not> counter_last <s 0"
  shows "PO_for_run E symbol True 0 counter_last 1 loop_start loop_body s' =
    Some (old_for_spec E symbol counter_last loop_start loop_body s')"
proof (cases "symbol_set_value E symbol
           \<lparr>flags = MVALUE_DEFINED E OR MVALUE_EXISTS E, val_intval = 0\<rparr> True
           (activate_loop_input E s')")
  case (Inl e)
  then show ?thesis by (simp add: PO_for_run_def old_for_spec_def)
next
  case (Inr p)
  obtain lc s1 where p: "p = (lc, s1)" by (cases p)
  from keeps_valueD [OF k Inr [unfolded p]] have v: "val_intval lc = 0" by simp
  show ?thesis
  proof (cases "counter_last = 0")
    case True
    with Inr p show ?thesis
      by (simp add: PO_for_run_def PO_for_iterate_def old_for_spec_def old_counter_values_def
          split: sum.splits)
  next
    case False
    then have "sint counter_last \<noteq> 0"
      by (simp add: signed_eq_0_iff)
    with n have "0 <s counter_last"
      by (simp add: word_sless_alt)
    from old_loop_counting [OF k v this, of symbol loop_start loop_body s1] Inr p False
    show ?thesis
      by (simp add: PO_for_run_def PO_for_iterate_def old_for_spec_def old_counter_values_def
          split: sum.splits)
  qed
qed

lemma PO_for_run_new:
  assumes k: "keeps_value E"
  shows "PO_for_run E symbol False counter_first counter_last
       (if counter_last <s counter_first then - 1 else 1) loop_start loop_body s' =
     Some (new_for_spec E symbol counter_first counter_last loop_start loop_body s')"
proof -
  let ?inc = "if counter_last <s counter_first then - 1 else 1 :: 'a word"
  let ?lc = "\<lparr>flags = MVALUE_DEFINED E OR MVALUE_EXISTS E, val_intval = counter_first\<rparr>"
  obtain vs where vs: "counter_values counter_first counter_last = counter_first # vs"
    using counter_values_first [of counter_first counter_last] by blast
  have ch: "chain ?inc counter_last (counter_first # vs)"
    using counter_values_chain [of counter_last counter_first] vs by simp
  have lc: "?lc\<lparr>val_intval := counter_first\<rparr> = ?lc"
    by simp
  note l = new_loop_chain [OF k ch, where symbol = symbol and lc = ?lc
      and s = "activate_loop_input E s'" and ls = loop_start and lb = loop_body, unfolded lc]
  show ?thesis
  proof (cases "symbol_set_value E symbol ?lc True (activate_loop_input E s')")
    case (Inl e)
    with vs show ?thesis
      by (simp add: PO_for_run_def new_for_spec_def)
  next
    case (Inr p)
    obtain lc1 s1 where p: "p = (lc1, s1)" by (cases p)
    from l Inr p have "PO_for_new_loop E symbol loop_start loop_body counter_last ?inc lc1 s1 =
      Some (case counting E symbol loop_start loop_body (counter_first # vs) ?lc
                   (activate_loop_input E s') of
            Inl e \<Rightarrow> Inl e
          | Inr (lc', s') \<Rightarrow>
              (case symbol_set_value E symbol (lc'\<lparr>val_intval := counter_last + ?inc\<rparr>) True s' of
                 Inl e \<Rightarrow> Inl e
               | Inr (lc'', s'') \<Rightarrow> Inr s''))"
      by simp
    with Inr p vs show ?thesis
      by (simp add: PO_for_run_def PO_for_iterate_def new_for_spec_def split: sum.splits)
  qed
qed

text \<open>
  C3. Let \<open>symbol_set_value\<close> leave the value of the structure it is given alone. In
  the old syntax (no second comma), a negative END makes \<^verbatim>\<open>!for\<close> end in the serious
  error \<^verbatim>\<open>Loop count is negative.\<close>; otherwise the counter starts at 0 with
  increment 1, and what \<^verbatim>\<open>PO_for\<close> does once it has read the block is this: 0 is
  written to the symbol, then for each value of 1, 2, ..., END in order the value is
  written to the symbol and after that the block is parsed, then the previous input is
  made active again and the next byte is fetched. The list of values has END elements,
  none for END = 0.
\<close>

theorem PO_for_old_syntax:
  assumes "keeps_value E"
  shows
  \<open>(PO_for_symbol E s0 = Inr (Inr symbol, s) \<and> ALU_defined_int E s = Inr (counter_last, s1) \<and>
     Input_accept_comma E s1 = Inr (0, s2) \<and>
     (if warn_on_old_for s2 then Throw_first_pass_warning E ''Found old "!for" syntax.'' s2
      else Inr s2) = Inr s3 \<longrightarrow>
       (counter_last <s 0 \<longrightarrow>
          PO_for E s0 = Some (Inl (Serious_error (Literal ''Loop count is negative.'')))) \<and>
       (\<not> counter_last <s 0 \<longrightarrow> PO_for_counter E s = Inr ((True, 0, counter_last, 1), s3))) \<and>
   (\<not> counter_last <s 0 \<longrightarrow>
      PO_for_run E symbol True 0 counter_last 1 loop_start loop_body s' =
        Some (old_for_spec E symbol counter_last loop_start loop_body s') \<and>
      map sint (old_counter_values counter_last) = [1..sint counter_last] \<and>
      int (length (old_counter_values counter_last)) = sint counter_last) \<and>
   (Input_read_zone_and_keyword E s0 = Inr ((n, zone), z1) \<and> n \<noteq> 0 \<and>
    Input_get_force_bit E z1 = Inr (force_bit, z2) \<and>
    symbol_find E zone force_bit z2 = Inr (symbol, z3) \<and>
    Input_accept_comma E z3 = Inr (comma1, s) \<and> comma1 \<noteq> 0 \<and>
    ALU_defined_int E s = Inr (counter_last, s1) \<and>
    Input_accept_comma E s1 = Inr (0, s2) \<and>
    (if warn_on_old_for s2 then Throw_first_pass_warning E ''Found old "!for" syntax.'' s2
     else Inr s2) = Inr s3 \<longrightarrow>
      (counter_last <s 0 \<longrightarrow>
         PO_for E s0 = Some (Inl (Serious_error (Literal ''Loop count is negative.'')))) \<and>
      (\<not> counter_last <s 0 \<and> GotByte s3 = CHAR_SOB \<and>
       loop_start = line_number (inputs s3 (Input_now s3)) \<and>
       Input_skip_or_store_block E True s3 = Inr (loop_body, s4) \<longrightarrow>
         PO_for E s0 = Some (old_for_spec E symbol counter_last loop_start loop_body s4)))\<close>
proof -
  have a: \<open>(counter_last <s 0 \<longrightarrow>
          PO_for E s0 = Some (Inl (Serious_error (Literal ''Loop count is negative.'')))) \<and>
       (\<not> counter_last <s 0 \<longrightarrow> PO_for_counter E s = Inr ((True, 0, counter_last, 1), s3))\<close>
    if \<open>PO_for_symbol E s0 = Inr (Inr symbol, s) \<and> ALU_defined_int E s = Inr (counter_last, s1) \<and>
     Input_accept_comma E s1 = Inr (0, s2) \<and>
     (if warn_on_old_for s2 then Throw_first_pass_warning E ''Found old "!for" syntax.'' s2
      else Inr s2) = Inr s3\<close>
    using that by (simp add: PO_for_def PO_for_header_def PO_for_counter_def)
  have b: "PO_for_run E symbol True 0 counter_last 1 loop_start loop_body s' =
        Some (old_for_spec E symbol counter_last loop_start loop_body s')"
    if n: "\<not> counter_last <s 0"
    using assms n by (rule PO_for_run_old)
  have c: \<open>(counter_last <s 0 \<longrightarrow>
         PO_for E s0 = Some (Inl (Serious_error (Literal ''Loop count is negative.'')))) \<and>
      (\<not> counter_last <s 0 \<and> GotByte s3 = CHAR_SOB \<and>
       loop_start = line_number (inputs s3 (Input_now s3)) \<and>
       Input_skip_or_store_block E True s3 = Inr (loop_body, s4) \<longrightarrow>
         PO_for E s0 = Some (old_for_spec E symbol counter_last loop_start loop_body s4))\<close>
    if h: \<open>Input_read_zone_and_keyword E s0 = Inr ((n, zone), z1) \<and> n \<noteq> 0 \<and>
      Input_get_force_bit E z1 = Inr (force_bit, z2) \<and>
      symbol_find E zone force_bit z2 = Inr (symbol, z3) \<and>
      Input_accept_comma E z3 = Inr (comma1, s) \<and> comma1 \<noteq> 0 \<and>
      ALU_defined_int E s = Inr (counter_last, s1) \<and>
      Input_accept_comma E s1 = Inr (0, s2) \<and>
      (if warn_on_old_for s2 then Throw_first_pass_warning E ''Found old "!for" syntax.'' s2
       else Inr s2) = Inr s3\<close>
  proof -
    from h PO_for_symbol_read [of E s0 n zone z1 force_bit z2 symbol z3 comma1 s]
    have sy: "PO_for_symbol E s0 = Inr (Inr symbol, s)"
      by simp
    from h have fa: "ALU_defined_int E s = Inr (counter_last, s1)"
      and co: "Input_accept_comma E s1 = Inr (0, s2)"
      and wa: \<open>(if warn_on_old_for s2 then Throw_first_pass_warning E ''Found old "!for" syntax.'' s2
        else Inr s2) = Inr s3\<close>
      by simp_all
    have 1: \<open>PO_for E s0 = Some (Inl (Serious_error (Literal ''Loop count is negative.'')))\<close>
      if "counter_last <s 0"
      using that sy fa co wa by (simp add: PO_for_def PO_for_header_def PO_for_counter_def)
    have 2: "PO_for E s0 = Some (old_for_spec E symbol counter_last loop_start loop_body s4)"
      if g: "\<not> counter_last <s 0 \<and> GotByte s3 = CHAR_SOB \<and>
        loop_start = line_number (inputs s3 (Input_now s3)) \<and>
        Input_skip_or_store_block E True s3 = Inr (loop_body, s4)"
    proof -
      from g PO_for_header_old [OF sy fa co wa, of loop_body s4]
      have "PO_for_header E s0 =
          Inr (Inr (symbol, True, 0, counter_last, 1, loop_start, loop_body), s4)"
        by simp
      with PO_for_run_old [OF assms g [THEN conjunct1], of symbol loop_start loop_body s4]
      show ?thesis
        by (simp add: PO_for_def)
    qed
    from 1 2 show ?thesis
      by blast
  qed
  from a b c old_counter_values_sint [of counter_last] old_counter_values_length [of counter_last]
  show ?thesis by blast
qed

text \<open>
  With an evaluator that gives -1 the directive ends in the serious error. With END = 0
  the symbol is written once and nothing is parsed; with END = 3 the symbol takes 1, 2, 3,
  each before the block is parsed. \<^verbatim>\<open>PO_for\<close> on \<^verbatim>\<open>v, 3 {abc}\<close> warns about the
  old syntax and then does the same.
\<close>

theorem PO_for_old_syntax_witness:
  \<open>PO_for (mini\<lparr>ALU_defined_int := \<lambda>s. Inr (- 1, s)\<rparr>)
     (start (CHR '' '') (''v, {abc}'' @ [CHAR_EOS]) :: 32 mini) =
     Some (Inl (Serious_error (Literal ''Loop count is negative.''))) \<and>
   map_option (map_sum id (\<lambda>(r, s'). (r, world s')))
     (PO_for_run mini 118 True 0 0 1 7 (Some (''abc'' @ [CHAR_EOB, CHAR_EOS, CHAR_EOF]))
        (start (CHR ''}'') [CHAR_EOS] :: 32 mini)) =
     Some (Inr (ENSURE_EOS, [Set_value 118 0])) \<and>
   map_option (map_sum id (\<lambda>(r, s'). (r, world s')))
     (PO_for_run mini 118 True 0 3 1 7 (Some (''abc'' @ [CHAR_EOB, CHAR_EOS, CHAR_EOF]))
        (start (CHR ''}'') [CHAR_EOS] :: 32 mini)) =
     Some (Inr (ENSURE_EOS,
       [Set_value 118 0, Set_value 118 1, Parsed ''abc'', Set_value 118 2, Parsed ''abc'',
        Set_value 118 3, Parsed ''abc''])) \<and>
   map sint (old_counter_values (3 :: 32 word)) = [1, 2, 3] \<and>
   map_option (map_sum id (\<lambda>(r, s'). (r, world s')))
     (PO_for mini (start (CHR '' '') (''v, 3 {abc}'' @ [CHAR_EOS]) :: 32 mini)) =
     Some (Inr (ENSURE_EOS,
       [Warned ''Found old "!for" syntax.'', Set_value 118 0, Set_value 118 1, Parsed ''abc'',
        Set_value 118 2, Parsed ''abc'', Set_value 118 3, Parsed ''abc'']))\<close>
proof -
  let ?m = "mini :: (32, event list) collab"
  let ?E = "mini\<lparr>ALU_defined_int := \<lambda>s. Inr (- 1, s)\<rparr> :: (32, event list) collab"
  let ?z = "start (CHR '' '') (''v, {abc}'' @ [CHAR_EOS]) :: 32 mini"
  let ?s = "snd (projr (PO_for_symbol ?E ?z))"
  let ?s2 = "snd (projr (Input_accept_comma ?E ?s))"
  let ?blk = "Some (''abc'' @ [CHAR_EOB, CHAR_EOS, CHAR_EOF])"
  let ?t = "start (CHR ''}'') [CHAR_EOS] :: 32 mini"
  have k: "keeps_value ?E"
    by (simp add: keeps_value_def mini_def mini_symbol_set_value_def)
  have h: \<open>PO_for_symbol ?E ?z = Inr (Inr 118, ?s) \<and> ALU_defined_int ?E ?s = Inr (- 1, ?s) \<and>
     Input_accept_comma ?E ?s = Inr (0, ?s2) \<and>
     (if warn_on_old_for ?s2 then Throw_first_pass_warning ?E ''Found old "!for" syntax.'' ?s2
      else Inr ?s2) = Inr (record_event (Warned ''Found old "!for" syntax.'') ?s2)\<close>
    by (simp add: PO_for_symbol_def mini_eval)
  have n: "(- 1 :: 32 word) <s 0"
    by (simp add: word_sless_alt)
  have n0: "\<not> (0 :: 32 word) <s 0" and n3: "\<not> (3 :: 32 word) <s 0"
    by (simp_all add: word_sless_alt)
  have u3: "[1..3 :: int] = [1, 2, 3]"
    by (simp add: upto_rec1)
  from PO_for_old_syntax [OF k, where ?s0.0 = ?z and symbol = 118 and s = ?s
      and counter_last = "- 1" and ?s1.0 = ?s and ?s2.0 = ?s2, THEN conjunct1, THEN mp, OF h,
      THEN conjunct1, THEN mp, OF n]
  have 1: \<open>PO_for ?E ?z = Some (Inl (Serious_error (Literal ''Loop count is negative.'')))\<close> .
  note r0 = PO_for_old_syntax [OF keeps_value_mini, where counter_last = "0 :: 32 word"
      and symbol = 118 and loop_start = 7 and loop_body = ?blk and s' = ?t,
      THEN conjunct2, THEN conjunct1, THEN mp, OF n0, THEN conjunct1]
  note r3 = PO_for_old_syntax [OF keeps_value_mini, where counter_last = "3 :: 32 word"
      and symbol = 118 and loop_start = 7 and loop_body = ?blk and s' = ?t,
      THEN conjunct2, THEN conjunct1, THEN mp, OF n3]
  have 2: "map_option (map_sum id (\<lambda>(r, s'). (r, world s')))
      (PO_for_run mini 118 True 0 0 1 7 ?blk ?t) = Some (Inr (ENSURE_EOS, [Set_value 118 0]))"
    unfolding r0
    by (simp add: old_for_spec_def old_counter_values_def mini_eval)
  have 3: "map_option (map_sum id (\<lambda>(r, s'). (r, world s')))
      (PO_for_run mini 118 True 0 3 1 7 ?blk ?t) =
      Some (Inr (ENSURE_EOS,
        [Set_value 118 0, Set_value 118 1, Parsed ''abc'', Set_value 118 2, Parsed ''abc'',
         Set_value 118 3, Parsed ''abc'']))"
    unfolding r3 [THEN conjunct1]
    by (simp add: old_for_spec_def old_counter_values_def parse_ram_block_def mini_eval u3)
  from r3 [THEN conjunct2, THEN conjunct1]
  have 4: "map sint (old_counter_values (3 :: 32 word)) = [1, 2, 3]"
    by (simp add: u3)
  let ?x = "start (CHR '' '') (''v, 3 {abc}'' @ [CHAR_EOS]) :: 32 mini"
  let ?x1 = "snd (projr (Input_read_zone_and_keyword ?m ?x))"
  let ?x2 = "snd (projr (Input_get_force_bit ?m ?x1))"
  let ?x3 = "snd (projr (symbol_find ?m 0 0 ?x2))"
  let ?x4 = "snd (projr (Input_accept_comma ?m ?x3))"
  let ?x5 = "snd (projr (ALU_defined_int ?m ?x4))"
  let ?x6 = "snd (projr (Input_accept_comma ?m ?x5))"
  let ?x7 = "record_event (Warned ''Found old \"!for\" syntax.'') ?x6"
  let ?x8 = "snd (projr (Input_skip_or_store_block ?m True ?x7))"
  have xh: \<open>Input_read_zone_and_keyword ?m ?x = Inr ((1, 0), ?x1) \<and> (1 :: int) \<noteq> 0 \<and>
      Input_get_force_bit ?m ?x1 = Inr (0, ?x2) \<and>
      symbol_find ?m 0 0 ?x2 = Inr (118, ?x3) \<and>
      Input_accept_comma ?m ?x3 = Inr (1, ?x4) \<and> (1 :: int) \<noteq> 0 \<and>
      ALU_defined_int ?m ?x4 = Inr (3, ?x5) \<and>
      Input_accept_comma ?m ?x5 = Inr (0, ?x6) \<and>
      (if warn_on_old_for ?x6 then Throw_first_pass_warning ?m ''Found old "!for" syntax.'' ?x6
       else Inr ?x6) = Inr ?x7\<close>
    by (simp add: mini_eval)
  have xo: "\<not> (3 :: 32 word) <s 0 \<and> GotByte ?x7 = CHAR_SOB \<and>
      1 = line_number (inputs ?x7 (Input_now ?x7)) \<and>
      Input_skip_or_store_block ?m True ?x7 = Inr (?blk, ?x8)"
    by (simp add: mini_eval)
  note x = PO_for_old_syntax [OF keeps_value_mini, where ?s0.0 = ?x and n = 1 and zone = 0
      and ?z1.0 = ?x1 and force_bit = 0 and ?z2.0 = ?x2 and symbol = 118 and ?z3.0 = ?x3
      and ?comma1.0 = 1 and s = ?x4 and counter_last = 3 and ?s1.0 = ?x5 and ?s2.0 = ?x6
      and ?s3.0 = ?x7 and loop_start = 1 and loop_body = ?blk and ?s4.0 = ?x8,
      THEN conjunct2, THEN conjunct2, THEN mp, OF xh, THEN conjunct2, THEN mp, OF xo]
  have 5: \<open>map_option (map_sum id (\<lambda>(r, s'). (r, world s'))) (PO_for ?m ?x) =
     Some (Inr (ENSURE_EOS,
       [Warned ''Found old "!for" syntax.'', Set_value 118 0, Set_value 118 1, Parsed ''abc'',
        Set_value 118 2, Parsed ''abc'', Set_value 118 3, Parsed ''abc'']))\<close>
    unfolding x
    by (simp add: old_for_spec_def old_counter_values_def parse_ram_block_def mini_eval u3)
  from 1 2 3 4 5 show ?thesis
    by (intro conjI)
qed

text \<open>
  C2. Let \<open>symbol_set_value\<close> leave the value of the structure it is given alone. In
  the new syntax the increment is -1 when END < START and 1 otherwise, and what
  \<^verbatim>\<open>PO_for\<close> does once it has read the block always ends, as follows: for each counter
  value of START..END inclusive, ascending when START \<open>\<le>\<close> END and descending otherwise,
  the value is written to the symbol and after that the block is parsed; after the last
  iteration the symbol is written once more, with the value one step beyond END; then the
  previous input is made active again and the next byte is fetched. The list of values
  starts with START, so the block is parsed at least once, and it has |END - START| + 1
  elements.
\<close>

theorem PO_for_new_syntax:
  assumes "keeps_value E"
  shows
  \<open>(ALU_defined_int E s = Inr (counter_first, s1) \<and> Input_accept_comma E s1 = Inr (comma, s2) \<and>
     comma \<noteq> 0 \<and>
     (if \<not> warn_on_old_for s2 then Throw_first_pass_warning E ''Found new "!for" syntax.'' s2
      else Inr s2) = Inr s3 \<and>
     ALU_defined_int E s3 = Inr (counter_last, s4) \<longrightarrow>
       PO_for_counter E s =
         Inr ((False, counter_first, counter_last,
               if counter_last <s counter_first then - 1 else 1), s4)) \<and>
   PO_for_run E symbol False counter_first counter_last
       (if counter_last <s counter_first then - 1 else 1) loop_start loop_body s' =
     Some (new_for_spec E symbol counter_first counter_last loop_start loop_body s') \<and>
   (\<exists>vs. counter_values counter_first counter_last = counter_first # vs) \<and>
   map sint (counter_values counter_first counter_last) =
     (if counter_last <s counter_first then rev [sint counter_last..sint counter_first]
      else [sint counter_first..sint counter_last]) \<and>
   int (length (counter_values counter_first counter_last)) =
     \<bar>sint counter_last - sint counter_first\<bar> + 1 \<and>
   (Input_read_zone_and_keyword E s0 = Inr ((n, zone), z1) \<and> n \<noteq> 0 \<and>
    Input_get_force_bit E z1 = Inr (force_bit, z2) \<and>
    symbol_find E zone force_bit z2 = Inr (symbol, z3) \<and>
    Input_accept_comma E z3 = Inr (comma1, s) \<and> comma1 \<noteq> 0 \<and>
    ALU_defined_int E s = Inr (counter_first, s1) \<and>
    Input_accept_comma E s1 = Inr (comma, s2) \<and> comma \<noteq> 0 \<and>
    (if \<not> warn_on_old_for s2 then Throw_first_pass_warning E ''Found new "!for" syntax.'' s2
     else Inr s2) = Inr s3 \<and>
    ALU_defined_int E s3 = Inr (counter_last, s4) \<and>
    GotByte s4 = CHAR_SOB \<and>
    loop_start = line_number (inputs s4 (Input_now s4)) \<and>
    Input_skip_or_store_block E True s4 = Inr (loop_body, s5) \<longrightarrow>
      PO_for E s0 =
        Some (new_for_spec E symbol counter_first counter_last loop_start loop_body s5))\<close>
proof -
  have a: \<open>PO_for_counter E s =
         Inr ((False, counter_first, counter_last,
               if counter_last <s counter_first then - 1 else 1), s4)\<close>
    if \<open>ALU_defined_int E s = Inr (counter_first, s1) \<and> Input_accept_comma E s1 = Inr (comma, s2) \<and>
     comma \<noteq> 0 \<and>
     (if \<not> warn_on_old_for s2 then Throw_first_pass_warning E ''Found new "!for" syntax.'' s2
      else Inr s2) = Inr s3 \<and>
     ALU_defined_int E s3 = Inr (counter_last, s4)\<close>
    using that by (simp add: PO_for_counter_def)
  obtain vs where vs: "counter_values counter_first counter_last = counter_first # vs"
    using counter_values_first [of counter_first counter_last] by blast
  note b = PO_for_run_new [OF assms, of symbol counter_first counter_last loop_start loop_body s']
  have c: "PO_for E s0 =
        Some (new_for_spec E symbol counter_first counter_last loop_start loop_body s5)"
    if h: \<open>Input_read_zone_and_keyword E s0 = Inr ((n, zone), z1) \<and> n \<noteq> 0 \<and>
      Input_get_force_bit E z1 = Inr (force_bit, z2) \<and>
      symbol_find E zone force_bit z2 = Inr (symbol, z3) \<and>
      Input_accept_comma E z3 = Inr (comma1, s) \<and> comma1 \<noteq> 0 \<and>
      ALU_defined_int E s = Inr (counter_first, s1) \<and>
      Input_accept_comma E s1 = Inr (comma, s2) \<and> comma \<noteq> 0 \<and>
      (if \<not> warn_on_old_for s2 then Throw_first_pass_warning E ''Found new "!for" syntax.'' s2
       else Inr s2) = Inr s3 \<and>
      ALU_defined_int E s3 = Inr (counter_last, s4) \<and>
      GotByte s4 = CHAR_SOB \<and>
      loop_start = line_number (inputs s4 (Input_now s4)) \<and>
      Input_skip_or_store_block E True s4 = Inr (loop_body, s5)\<close>
  proof -
    from h PO_for_symbol_read [of E s0 n zone z1 force_bit z2 symbol z3 comma1 s]
    have sy: "PO_for_symbol E s0 = Inr (Inr symbol, s)"
      by simp
    from h PO_for_header_new [OF sy, of counter_first s1 comma s2 s3 counter_last s4 loop_body s5]
    have "PO_for_header E s0 =
        Inr (Inr (symbol, False, counter_first, counter_last,
                  if counter_last <s counter_first then - 1 else 1, loop_start, loop_body), s5)"
      by simp
    with PO_for_run_new [OF assms, of symbol counter_first counter_last loop_start loop_body s5]
    show ?thesis
      by (simp add: PO_for_def)
  qed
  from a b c vs counter_values_sint [of counter_first counter_last]
    counter_values_length [of counter_first counter_last]
  show ?thesis by blast
qed

text \<open>
  \<^verbatim>\<open>2, 5\<close> gives the increment 1 and the values 2, 3, 4, 5; \<^verbatim>\<open>5, 2\<close> gives the
  values 5, 4, 3, 2; each value is written before the block is parsed. So it is for
  \<^verbatim>\<open>PO_for\<close> on \<^verbatim>\<open>v, 2, 5 {abc}\<close> and on \<^verbatim>\<open>v, 5, 2 {abc}\<close>.
\<close>

theorem PO_for_new_syntax_witness:
  \<open>map_sum id fst (PO_for_counter mini (start (CHR '' '') (''2, 5 {'') :: 32 mini)) =
     Inr (False, 2, 5, 1) \<and>
   map_option (map_sum id (\<lambda>(r, s'). (r, world s')))
     (PO_for_run mini 118 False 2 5 1 7 (Some (''abc'' @ [CHAR_EOB, CHAR_EOS, CHAR_EOF]))
        (start (CHR ''}'') [CHAR_EOS] :: 32 mini)) =
     Some (Inr (ENSURE_EOS,
       [Set_value 118 2, Parsed ''abc'', Set_value 118 3, Parsed ''abc'', Set_value 118 4,
        Parsed ''abc'', Set_value 118 5, Parsed ''abc'', Set_value 118 6])) \<and>
   map_option (map_sum id (\<lambda>(r, s'). (r, world s')))
     (PO_for_run mini 118 False 5 2 (- 1) 7 (Some (''abc'' @ [CHAR_EOB, CHAR_EOS, CHAR_EOF]))
        (start (CHR ''}'') [CHAR_EOS] :: 32 mini)) =
     Some (Inr (ENSURE_EOS,
       [Set_value 118 5, Parsed ''abc'', Set_value 118 4, Parsed ''abc'', Set_value 118 3,
        Parsed ''abc'', Set_value 118 2, Parsed ''abc'', Set_value 118 1])) \<and>
   map sint (counter_values (5 :: 32 word) 2) = [5, 4, 3, 2] \<and>
   map_option (map_sum id (\<lambda>(r, s'). (r, world s')))
     (PO_for mini (start (CHR '' '') (''v, 2, 5 {abc}'' @ [CHAR_EOS]) :: 32 mini)) =
     Some (Inr (ENSURE_EOS,
       [Set_value 118 2, Parsed ''abc'', Set_value 118 3, Parsed ''abc'', Set_value 118 4,
        Parsed ''abc'', Set_value 118 5, Parsed ''abc'', Set_value 118 6])) \<and>
   map_option (map_sum id (\<lambda>(r, s'). (r, world s')))
     (PO_for mini (start (CHR '' '') (''v, 5, 2 {abc}'' @ [CHAR_EOS]) :: 32 mini)) =
     Some (Inr (ENSURE_EOS,
       [Set_value 118 5, Parsed ''abc'', Set_value 118 4, Parsed ''abc'', Set_value 118 3,
        Parsed ''abc'', Set_value 118 2, Parsed ''abc'', Set_value 118 1]))\<close>
proof -
  let ?m = "mini :: (32, event list) collab"
  let ?s = "start (CHR '' '') (''2, 5 {'') :: 32 mini"
  let ?s1 = "snd (projr (ALU_defined_int mini ?s))"
  let ?s2 = "snd (projr (Input_accept_comma mini ?s1))"
  let ?s4 = "snd (projr (ALU_defined_int mini ?s2))"
  let ?blk = "Some (''abc'' @ [CHAR_EOB, CHAR_EOS, CHAR_EOF])"
  let ?t = "start (CHR ''}'') [CHAR_EOS] :: 32 mini"
  have h: \<open>ALU_defined_int mini ?s = Inr (2, ?s1) \<and> Input_accept_comma mini ?s1 = Inr (1, ?s2) \<and>
     (1 :: int) \<noteq> 0 \<and>
     (if \<not> warn_on_old_for ?s2 then Throw_first_pass_warning mini ''Found new "!for" syntax.'' ?s2
      else Inr ?s2) = Inr ?s2 \<and>
     ALU_defined_int mini ?s2 = Inr (5, ?s4)\<close>
    by (simp add: mini_eval)
  have i25: "(if (5 :: 32 word) <s 2 then - 1 else 1) = (1 :: 32 word)"
    and i52: "(if (2 :: 32 word) <s 5 then - 1 else 1) = (- 1 :: 32 word)"
    by (simp_all add: word_sless_alt)
  from PO_for_new_syntax [OF keeps_value_mini, where s = ?s and counter_first = 2
      and ?s1.0 = ?s1 and comma = 1 and ?s2.0 = ?s2 and ?s3.0 = ?s2 and counter_last = 5
      and ?s4.0 = ?s4, THEN conjunct1, THEN mp, OF h]
  have 1: "map_sum id fst (PO_for_counter mini ?s) = Inr (False, 2, 5, 1)"
    by (simp add: i25)
  note u = PO_for_new_syntax [OF keeps_value_mini, where counter_first = "2 :: 32 word"
      and counter_last = 5 and symbol = 118 and loop_start = 7 and loop_body = ?blk and s' = ?t,
      THEN conjunct2, THEN conjunct1, unfolded i25]
  note d = PO_for_new_syntax [OF keeps_value_mini, where counter_first = "5 :: 32 word"
      and counter_last = 2 and symbol = 118 and loop_start = 7 and loop_body = ?blk and s' = ?t,
      THEN conjunct2, unfolded i52]
  have 2: "map_option (map_sum id (\<lambda>(r, s'). (r, world s')))
      (PO_for_run mini 118 False 2 5 1 7 ?blk ?t) =
      Some (Inr (ENSURE_EOS,
        [Set_value 118 2, Parsed ''abc'', Set_value 118 3, Parsed ''abc'', Set_value 118 4,
         Parsed ''abc'', Set_value 118 5, Parsed ''abc'', Set_value 118 6]))"
    unfolding u
    by (simp add: new_for_spec_def counter_values_def parse_ram_block_def mini_eval)
  have 3: "map_option (map_sum id (\<lambda>(r, s'). (r, world s')))
      (PO_for_run mini 118 False 5 2 (- 1) 7 ?blk ?t) =
      Some (Inr (ENSURE_EOS,
        [Set_value 118 5, Parsed ''abc'', Set_value 118 4, Parsed ''abc'', Set_value 118 3,
         Parsed ''abc'', Set_value 118 2, Parsed ''abc'', Set_value 118 1]))"
    unfolding d [THEN conjunct1]
    by (simp add: new_for_spec_def counter_values_def parse_ram_block_def mini_eval)
  from d [THEN conjunct2, THEN conjunct2, THEN conjunct1]
  have 4: "map sint (counter_values (5 :: 32 word) 2) = [5, 4, 3, 2]"
    by (simp add: word_sless_alt)
  let ?x = "start (CHR '' '') (''v, 2, 5 {abc}'' @ [CHAR_EOS]) :: 32 mini"
  let ?x1 = "snd (projr (Input_read_zone_and_keyword ?m ?x))"
  let ?x2 = "snd (projr (Input_get_force_bit ?m ?x1))"
  let ?x3 = "snd (projr (symbol_find ?m 0 0 ?x2))"
  let ?x4 = "snd (projr (Input_accept_comma ?m ?x3))"
  let ?x5 = "snd (projr (ALU_defined_int ?m ?x4))"
  let ?x6 = "snd (projr (Input_accept_comma ?m ?x5))"
  let ?x8 = "snd (projr (ALU_defined_int ?m ?x6))"
  let ?x9 = "snd (projr (Input_skip_or_store_block ?m True ?x8))"
  have xh: \<open>Input_read_zone_and_keyword ?m ?x = Inr ((1, 0), ?x1) \<and> (1 :: int) \<noteq> 0 \<and>
      Input_get_force_bit ?m ?x1 = Inr (0, ?x2) \<and>
      symbol_find ?m 0 0 ?x2 = Inr (118, ?x3) \<and>
      Input_accept_comma ?m ?x3 = Inr (1, ?x4) \<and> (1 :: int) \<noteq> 0 \<and>
      ALU_defined_int ?m ?x4 = Inr (2, ?x5) \<and>
      Input_accept_comma ?m ?x5 = Inr (1, ?x6) \<and> (1 :: int) \<noteq> 0 \<and>
      (if \<not> warn_on_old_for ?x6 then Throw_first_pass_warning ?m ''Found new "!for" syntax.'' ?x6
       else Inr ?x6) = Inr ?x6 \<and>
      ALU_defined_int ?m ?x6 = Inr (5, ?x8) \<and>
      GotByte ?x8 = CHAR_SOB \<and>
      1 = line_number (inputs ?x8 (Input_now ?x8)) \<and>
      Input_skip_or_store_block ?m True ?x8 = Inr (?blk, ?x9)\<close>
    by (simp add: mini_eval)
  note x = PO_for_new_syntax [OF keeps_value_mini, where ?s0.0 = ?x and n = 1 and zone = 0
      and ?z1.0 = ?x1 and force_bit = 0 and ?z2.0 = ?x2 and symbol = 118 and ?z3.0 = ?x3
      and ?comma1.0 = 1 and s = ?x4 and counter_first = 2 and ?s1.0 = ?x5 and comma = 1
      and ?s2.0 = ?x6 and ?s3.0 = ?x6 and counter_last = 5 and ?s4.0 = ?x8 and loop_start = 1
      and loop_body = ?blk and ?s5.0 = ?x9,
      THEN conjunct2, THEN conjunct2, THEN conjunct2, THEN conjunct2, THEN conjunct2,
      THEN mp, OF xh]
  have 5: "map_option (map_sum id (\<lambda>(r, s'). (r, world s'))) (PO_for ?m ?x) =
      Some (Inr (ENSURE_EOS,
        [Set_value 118 2, Parsed ''abc'', Set_value 118 3, Parsed ''abc'', Set_value 118 4,
         Parsed ''abc'', Set_value 118 5, Parsed ''abc'', Set_value 118 6]))"
    unfolding x
    by (simp add: new_for_spec_def counter_values_def parse_ram_block_def mini_eval)
  let ?y = "start (CHR '' '') (''v, 5, 2 {abc}'' @ [CHAR_EOS]) :: 32 mini"
  let ?y1 = "snd (projr (Input_read_zone_and_keyword ?m ?y))"
  let ?y2 = "snd (projr (Input_get_force_bit ?m ?y1))"
  let ?y3 = "snd (projr (symbol_find ?m 0 0 ?y2))"
  let ?y4 = "snd (projr (Input_accept_comma ?m ?y3))"
  let ?y5 = "snd (projr (ALU_defined_int ?m ?y4))"
  let ?y6 = "snd (projr (Input_accept_comma ?m ?y5))"
  let ?y8 = "snd (projr (ALU_defined_int ?m ?y6))"
  let ?y9 = "snd (projr (Input_skip_or_store_block ?m True ?y8))"
  have yh: \<open>Input_read_zone_and_keyword ?m ?y = Inr ((1, 0), ?y1) \<and> (1 :: int) \<noteq> 0 \<and>
      Input_get_force_bit ?m ?y1 = Inr (0, ?y2) \<and>
      symbol_find ?m 0 0 ?y2 = Inr (118, ?y3) \<and>
      Input_accept_comma ?m ?y3 = Inr (1, ?y4) \<and> (1 :: int) \<noteq> 0 \<and>
      ALU_defined_int ?m ?y4 = Inr (5, ?y5) \<and>
      Input_accept_comma ?m ?y5 = Inr (1, ?y6) \<and> (1 :: int) \<noteq> 0 \<and>
      (if \<not> warn_on_old_for ?y6 then Throw_first_pass_warning ?m ''Found new "!for" syntax.'' ?y6
       else Inr ?y6) = Inr ?y6 \<and>
      ALU_defined_int ?m ?y6 = Inr (2, ?y8) \<and>
      GotByte ?y8 = CHAR_SOB \<and>
      1 = line_number (inputs ?y8 (Input_now ?y8)) \<and>
      Input_skip_or_store_block ?m True ?y8 = Inr (?blk, ?y9)\<close>
    by (simp add: mini_eval)
  note y = PO_for_new_syntax [OF keeps_value_mini, where ?s0.0 = ?y and n = 1 and zone = 0
      and ?z1.0 = ?y1 and force_bit = 0 and ?z2.0 = ?y2 and symbol = 118 and ?z3.0 = ?y3
      and ?comma1.0 = 1 and s = ?y4 and counter_first = 5 and ?s1.0 = ?y5 and comma = 1
      and ?s2.0 = ?y6 and ?s3.0 = ?y6 and counter_last = 2 and ?s4.0 = ?y8 and loop_start = 1
      and loop_body = ?blk and ?s5.0 = ?y9,
      THEN conjunct2, THEN conjunct2, THEN conjunct2, THEN conjunct2, THEN conjunct2,
      THEN mp, OF yh]
  have 6: "map_option (map_sum id (\<lambda>(r, s'). (r, world s'))) (PO_for ?m ?y) =
      Some (Inr (ENSURE_EOS,
        [Set_value 118 5, Parsed ''abc'', Set_value 118 4, Parsed ''abc'', Set_value 118 3,
         Parsed ''abc'', Set_value 118 2, Parsed ''abc'', Set_value 118 1]))"
    unfolding y
    by (simp add: new_for_spec_def counter_values_def parse_ram_block_def mini_eval)
  from 1 2 3 4 5 6 show ?thesis
    by (intro conjI)
qed

end
